(* ===== verification/Prelude.thy ===== *)
theory Prelude
  imports Complex_Main
begin

text \<open>
  Shared vocabulary of the option-price simulator model. Python floats (numpy
  \<open>float64\<close>) are modelled as \<open>real\<close>: rounding is not modelled, so the
  theorems are about the exact arithmetic the code approximates, except in
  theory \<open>PyFloat\<close>, which rounds the last division of \<open>option_price\<close> to a
  double and models how \<open>str()\<close> prints it. Python ints are
  \<open>int\<close>. A one-dimensional numpy array is a \<open>real list\<close>, a two-dimensional one the
  list of its rows. Python exceptions are the \<open>Inl\<close> side of a sum type, and
  \<open>rbind\<close> threads them through a computation the way an exception propagates.
  This theory also holds the numpy and Python primitives the scripts call
  (\<open>np.zeros\<close>, \<open>np.min\<close>, \<open>np.max\<close>, \<open>np.mean\<close>, \<open>v[-1]\<close>, \<open>int()\<close>),
  with the lemmas the component theories share.
\<close>

section \<open>Errors and the result type\<close>

datatype py_error = ValueError | IndexError | ZeroDivisionError | OverflowError

type_synonym 'a result = "py_error + 'a"
type_synonym vector = "real list"
type_synonym matrix = "real list list"

definition rbind :: "'a result \<Rightarrow> ('a \<Rightarrow> 'b result) \<Rightarrow> 'b result" where
  "rbind m f = (case m of Inl e \<Rightarrow> Inl e | Inr x \<Rightarrow> f x)"

named_theorems numpy_defs "definitions of the numpy and Python primitives, for evaluation"

lemma rbind_Inl [simp]: "rbind (Inl e) f = Inl e"
  by (simp add: rbind_def)

lemma rbind_Inr [simp]: "rbind (Inr x) f = f x"
  by (simp add: rbind_def)

lemma rbind_eq_Inr_iff:
  "rbind m f = Inr y \<longleftrightarrow> (\<exists>x. m = Inr x \<and> f x = Inr y)"
  by (cases m) auto

lemma rbind_assoc: "rbind (rbind m f) g = rbind m (\<lambda>x. rbind (f x) g)"
  by (cases m) auto

text \<open>
  A list of computations that may raise, run left to right, stopping at the first
  exception: the reference semantics of the scripts' per-path loops.
\<close>

fun map_result :: "('a \<Rightarrow> 'b result) \<Rightarrow> 'a list \<Rightarrow> 'b list result" where
  "map_result f [] = Inr []"
| "map_result f (x # xs) = rbind (f x) (\<lambda>y. rbind (map_result f xs) (\<lambda>ys. Inr (y # ys)))"

lemma map_result_Inr_iff:
  "map_result f xs = Inr ys \<longleftrightarrow> length ys = length xs \<and> (\<forall>i < length xs. f (xs ! i) = Inr (ys ! i))"
proof (induction xs arbitrary: ys)
  case Nil
  then show ?case by auto
next
  case (Cons x xs)
  show ?case
  proof
    assume "map_result f (x # xs) = Inr ys"
    then show "length ys = length (x # xs) \<and> (\<forall>i < length (x # xs). f ((x # xs) ! i) = Inr (ys ! i))"
      using Cons.IH by (auto simp: rbind_eq_Inr_iff nth_Cons split: nat.splits)
  next
    assume A: "length ys = length (x # xs) \<and> (\<forall>i < length (x # xs). f ((x # xs) ! i) = Inr (ys ! i))"
    then obtain y ys' where ys: "ys = y # ys'" by (cases ys) auto
    from A ys have "f x = Inr y" by (metis length_Cons nth_Cons_0 zero_less_Suc)
    moreover from A ys have "map_result f xs = Inr ys'"
      using Cons.IH by (metis Suc_less_eq length_Cons nat.inject nth_Cons_Suc)
    ultimately show "map_result f (x # xs) = Inr ys" using ys by simp
  qed
qed

lemma map_result_map:
  "(\<And>x. x \<in> set xs \<Longrightarrow> f x = Inr (g x)) \<Longrightarrow> map_result f xs = Inr (map g xs)"
  by (induction xs) auto

lemma map_result_Inr_map:
  "map_result f xs = Inr ys \<Longrightarrow> (\<And>x y. f x = Inr y \<Longrightarrow> y = h x) \<Longrightarrow> ys = map h xs"
  by (induction xs arbitrary: ys) (auto simp: rbind_eq_Inr_iff)

lemma map_result_error:
  "x \<in> set xs \<Longrightarrow> (\<And>x. f x = Inr (g x) \<or> f x = Inl e) \<Longrightarrow> f x = Inl e \<Longrightarrow>
   map_result f xs = Inl e"
proof (induction xs)
  case Nil
  then show ?case by simp
next
  case (Cons y ys)
  show ?case
  proof (cases "f y = Inl e")
    case True
    then show ?thesis by simp
  next
    case False
    with Cons.prems(2) have "f y = Inr (g y)" by metis
    moreover from False Cons.prems(1,3) have "x \<in> set ys" by auto
    ultimately show ?thesis using Cons.IH Cons.prems(2,3) by simp
  qed
qed

section \<open>numpy and Python primitives\<close>

text \<open>\<open>np.zeros(n)\<close> and \<open>np.zeros((m, n))\<close>: a negative dimension raises ValueError.\<close>

definition np_zeros :: "int \<Rightarrow> vector result" where
  "np_zeros n = (if n < 0 then Inl ValueError else Inr (replicate (nat n) 0))"

definition np_zeros2 :: "int \<Rightarrow> int \<Rightarrow> matrix result" where
  "np_zeros2 m n =
     (if m < 0 \<or> n < 0 then Inl ValueError else Inr (replicate (nat m) (replicate (nat n) 0)))"

text \<open>
  \<open>np.min\<close> and \<open>np.max\<close> reduce with \<open>minimum\<close>/\<open>maximum\<close> from the first
  element and raise ValueError on an empty array (a zero-size reduction has no
  identity).
\<close>

definition np_min :: "vector \<Rightarrow> real result" where
  "np_min v = (case v of [] \<Rightarrow> Inl ValueError | x # xs \<Rightarrow> Inr (fold min xs x))"

definition np_max :: "vector \<Rightarrow> real result" where
  "np_max v = (case v of [] \<Rightarrow> Inl ValueError | x # xs \<Rightarrow> Inr (fold max xs x))"

text \<open>\<open>v[-1]\<close>: the last element, IndexError on an empty array.\<close>

definition py_last :: "vector \<Rightarrow> real result" where
  "py_last v = (if v = [] then Inl IndexError else Inr (last v))"

text \<open>
  \<open>np.mean\<close>: the sum over the length. On an empty array numpy returns \<open>nan\<close>
  (with a RuntimeWarning) instead of raising; \<open>None\<close> stands for that \<open>nan\<close>.
\<close>

definition np_mean :: "vector \<Rightarrow> real option" where
  "np_mean v = (if v = [] then None else Some (sum_list v / real (length v)))"

text \<open>Python's \<open>int()\<close> on a float truncates towards zero.\<close>

definition py_int :: "real \<Rightarrow> int" where
  "py_int x = (if 0 \<le> x then \<lfloor>x\<rfloor> else \<lceil>x\<rceil>)"

declare np_zeros_def [numpy_defs] np_zeros2_def [numpy_defs] np_min_def [numpy_defs]
  np_max_def [numpy_defs] py_last_def [numpy_defs] np_mean_def [numpy_defs]
  py_int_def [numpy_defs]

section \<open>Shared lemmas\<close>

lemma np_min_Min: "v \<noteq> [] \<Longrightarrow> np_min v = Inr (Min (set v))"
  by (cases v) (simp_all add: np_min_def flip: Min.set_eq_fold)

lemma np_max_Max: "v \<noteq> [] \<Longrightarrow> np_max v = Inr (Max (set v))"
  by (cases v) (simp_all add: np_max_def flip: Max.set_eq_fold)

lemma np_min_le_last: "v \<noteq> [] \<Longrightarrow> np_min v = Inr k \<Longrightarrow> k \<le> last v"
  by (auto simp: np_min_Min intro: Min_le)

lemma np_max_ge_last: "v \<noteq> [] \<Longrightarrow> np_max v = Inr k \<Longrightarrow> last v \<le> k"
  by (auto simp: np_max_Max intro: Max_ge)

lemma py_last_Inr [simp]: "v \<noteq> [] \<Longrightarrow> py_last v = Inr (last v)"
  by (simp add: py_last_def)

lemma np_mean_Some [simp]: "v \<noteq> [] \<Longrightarrow> np_mean v = Some (sum_list v / real (length v))"
  by (simp add: np_mean_def)

lemma np_mean_scale:
  "np_mean (map (\<lambda>x. k * x) v) = map_option (\<lambda>m. k * m) (np_mean v)"
  by (simp add: np_mean_def sum_list_const_mult)

lemma py_int_nonneg: "0 \<le> x \<Longrightarrow> py_int x = \<lfloor>x\<rfloor>"
  by (simp add: py_int_def)

text \<open>Truncation moves towards zero by less than one.\<close>

lemma py_int_abs_le: "\<bar>real_of_int (py_int x)\<bar> \<le> \<bar>x\<bar>"
  by (simp add: py_int_def; linarith)

lemma py_int_error: "\<bar>x - real_of_int (py_int x)\<bar> < 1"
  by (simp add: py_int_def; linarith)

lemma py_int_same_sign: "0 \<le> x \<Longrightarrow> 0 \<le> py_int x"
  by (simp add: py_int_def)

lemma sum_list_nonneg_real: "(\<forall>x \<in> set v. 0 \<le> x) \<Longrightarrow> 0 \<le> sum_list (v :: real list)"
  by (induction v) auto

end
