(* ===== verification/Rng.thy ===== *)
theory Rng
  imports Prelude
begin

text \<open>
  numpy's global random state (\<open>np.random\<close>, the legacy \<open>RandomState\<close>). Both
  scripts draw standard-normal values from it: \<open>np.random.randn(n)\<close> in
  \<open>Methodology.stock_price\<close> and \<open>np.random.normal(0, 1, (M, N))\<close> in
  \<open>AsianOptions\<close>; the latter reseeds it first with \<open>np.random.seed(42)\<close>.
  The state is abstract: a cursor \<open>rng_pos\<close> into a fixed stream
  \<open>rng_stream\<close> of standard-normal draws, the stream that the seed determines
  (the parameter \<open>mt\<close>; numpy's Mersenne Twister and Gaussian transform are
  library code the scripts only call, and are not modelled). Every draw reads
  the values at the cursor and moves it forward; only a reseed moves it back.
\<close>

record rng =
  rng_stream :: "nat \<Rightarrow> real"
  rng_pos :: nat

text \<open>The next \<open>n\<close> draws, and the state after them.\<close>

definition draws :: "rng \<Rightarrow> nat \<Rightarrow> vector" where
  "draws g n = map (\<lambda>i. rng_stream g (rng_pos g + i)) [0..<n]"

definition advance :: "rng \<Rightarrow> nat \<Rightarrow> rng" where
  "advance g n = g\<lparr>rng_pos := rng_pos g + n\<rparr>"

text \<open>\<open>np.random.randn(n)\<close>: a negative size raises ValueError.\<close>

definition randn :: "int \<Rightarrow> rng \<Rightarrow> (vector \<times> rng) result" where
  "randn n g = (if n < 0 then Inl ValueError else Inr (draws g (nat n), advance g (nat n)))"

text \<open>
  \<open>np.random.normal(loc, scale, (m, n))\<close>: \<open>m * n\<close> draws in row-major order,
  each scaled and shifted; a negative dimension raises ValueError.
\<close>

definition np_normal :: "real \<Rightarrow> real \<Rightarrow> int \<Rightarrow> int \<Rightarrow> rng \<Rightarrow> (matrix \<times> rng) result" where
  "np_normal loc scale m n g =
     (if m < 0 \<or> n < 0 then Inl ValueError
      else Inr (map (\<lambda>i. map (\<lambda>z. loc + scale * z) (draws (advance g (i * nat n)) (nat n)))
                  [0..<nat m],
                advance g (nat m * nat n)))"

text \<open>
  \<open>np.random.seed(s)\<close>: the stream becomes the one the seed determines
  (\<open>mt s\<close>, the unmodelled generator) and the cursor returns to its start.
\<close>

definition np_seed :: "(nat \<Rightarrow> nat \<Rightarrow> real) \<Rightarrow> nat \<Rightarrow> rng \<Rightarrow> rng" where
  "np_seed mt s g = \<lparr>rng_stream = mt s, rng_pos = 0\<rparr>"

declare draws_def [numpy_defs] advance_def [numpy_defs] randn_def [numpy_defs]
  np_normal_def [numpy_defs] np_seed_def [numpy_defs]

section \<open>Lemmas on the draw stream\<close>

lemma length_draws [simp]: "length (draws g n) = n"
  by (simp add: draws_def)

lemma nth_draws [simp]: "i < n \<Longrightarrow> draws g n ! i = rng_stream g (rng_pos g + i)"
  by (simp add: draws_def)

lemma advance_0 [simp]: "advance g 0 = g"
  by (simp add: advance_def)

lemma advance_advance [simp]: "advance (advance g a) b = advance g (a + b)"
  by (simp add: advance_def add.assoc)

lemma rng_stream_advance [simp]: "rng_stream (advance g n) = rng_stream g"
  by (simp add: advance_def)

lemma rng_pos_advance [simp]: "rng_pos (advance g n) = rng_pos g + n"
  by (simp add: advance_def)

text \<open>Consecutive draws read consecutive windows of the stream.\<close>

lemma draws_add: "draws g (a + b) = draws g a @ draws (advance g a) b"
  by (induction b) (simp_all add: draws_def add.assoc)

lemma draws_depend_window:
  "(\<And>i. i < n \<Longrightarrow> rng_stream g (rng_pos g + i) = rng_stream g' (rng_pos g' + i)) \<Longrightarrow>
   draws g n = draws g' n"
  by (simp add: draws_def)

lemma randn_nonneg [simp]: "0 \<le> n \<Longrightarrow> randn n g = Inr (draws g (nat n), advance g (nat n))"
  by (simp add: randn_def)

lemma np_normal_std:
  "0 \<le> m \<Longrightarrow> 0 \<le> n \<Longrightarrow>
   np_normal 0 1 m n g =
     Inr (map (\<lambda>i. draws (advance g (i * nat n)) (nat n)) [0..<nat m], advance g (nat m * nat n))"
  by (simp add: np_normal_def)


end
