(* ===== verification/PathGenerator.thy ===== *)
theory PathGenerator
  imports Rng
begin

text \<open>
  The path generator, \<open>stock_price\<close> of \<open>src/Methodology.py\<close> (lines 4--19):
  one trajectory of geometric Brownian motion, stepped in log-space with one
  standard-normal draw per step. The keyword arguments are the record
  \<open>gbm_params\<close>; \<open>stock_price_defaults\<close> holds their default values. The
  function fills a zero array by index in a \<open>for\<close> loop
  (\<open>stock_price_loop\<close>); \<open>gbm_path\<close> is the recurrence it implements, written
  as a recursive function, and \<open>stock_price_eq\<close> shows that the loop computes it.
  The code stores the price after each step and not the initial price, so a
  path has \<open>period\<close> entries, the first of them already one step from \<open>s_0\<close>.
\<close>

record gbm_params =
  sp_s_0 :: real
  sp_dt :: real
  sp_r :: real
  sp_q :: real
  sp_vol :: real
  sp_period :: int

definition stock_price_defaults :: gbm_params where
  "stock_price_defaults =
     \<lparr>sp_s_0 = 100, sp_dt = 0.004, sp_r = 0.05, sp_q = 0.02, sp_vol = 0.4, sp_period = 250\<rparr>"

text \<open>
  The exponent of one step, \<open>(r - q - 0.5 * vol**2) * dt + vol * np.sqrt(dt) * e\<close>.
  For \<open>dt \<ge> 0\<close> this is numpy's value. For a negative \<open>dt\<close> numpy's square
  root is \<open>nan\<close> and so is every price after it, while HOL's \<open>sqrt\<close> is
  \<open>-sqrt(-dt)\<close>; the theorems about the values of a path therefore assume
  \<open>dt \<ge> 0\<close>, and those that relate two computations through the same step
  factor hold for every \<open>dt\<close>.
\<close>

definition gbm_exponent :: "gbm_params \<Rightarrow> real \<Rightarrow> real" where
  "gbm_exponent p e =
     (sp_r p - sp_q p - 0.5 * sp_vol p ^ 2) * sp_dt p + sp_vol p * sqrt (sp_dt p) * e"

definition gbm_factor :: "gbm_params \<Rightarrow> real \<Rightarrow> real" where
  "gbm_factor p e = exp (gbm_exponent p e)"

text \<open>
  The loop \<open>for a in range(period)\<close>: \<open>price_new\<close> is multiplied by the step
  factor and stored at index \<open>a\<close> of \<open>prices\<close>.
\<close>

fun stock_price_loop :: "gbm_params \<Rightarrow> vector \<Rightarrow> nat list \<Rightarrow> real \<Rightarrow> vector \<Rightarrow> vector" where
  "stock_price_loop p epsilon [] price_new prices = prices"
| "stock_price_loop p epsilon (a # as) price_new prices =
     (let price_new' = price_new * gbm_factor p (epsilon ! a)
      in stock_price_loop p epsilon as price_new' (prices[a := price_new']))"

definition stock_price :: "gbm_params \<Rightarrow> rng \<Rightarrow> (vector \<times> rng) result" where
  "stock_price p g =
     rbind (np_zeros (sp_period p)) (\<lambda>prices.
     rbind (randn (sp_period p) g) (\<lambda>(epsilon, g').
     Inr (stock_price_loop p epsilon [0..<nat (sp_period p)] (sp_s_0 p) prices, g')))"

text \<open>The reference recurrence: each price is the previous one times the step factor.\<close>

fun gbm_path :: "gbm_params \<Rightarrow> real \<Rightarrow> vector \<Rightarrow> vector" where
  "gbm_path p x [] = []"
| "gbm_path p x (e # es) = (let x' = x * gbm_factor p e in x' # gbm_path p x' es)"

section \<open>The loop computes the recurrence\<close>

lemma length_gbm_path [simp]: "length (gbm_path p x es) = length es"
  by (induction es arbitrary: x) (simp_all add: Let_def)

lemma stock_price_loop_gbm_path:
  assumes "length epsilon = n" "length prices = n" "k \<le> n"
  shows "stock_price_loop p epsilon [k..<n] x prices =
           take k prices @ gbm_path p x (drop k epsilon)"
  using assms
proof (induction "n - k" arbitrary: k x prices)
  case 0
  then show ?case by simp
next
  case (Suc d)
  then have k: "k < n" by simp
  let ?x' = "x * gbm_factor p (epsilon ! k)"
  have "stock_price_loop p epsilon [k..<n] x prices =
          stock_price_loop p epsilon [Suc k..<n] ?x' (prices[k := ?x'])"
    using k by (simp add: upt_conv_Cons Let_def)
  also have "\<dots> = take (Suc k) (prices[k := ?x']) @ gbm_path p ?x' (drop (Suc k) epsilon)"
    using Suc k by simp
  also have "\<dots> = take k prices @ gbm_path p x (drop k epsilon)"
    using Suc.prems k by (simp add: take_Suc_conv_app_nth Cons_nth_drop_Suc[symmetric] Let_def)
  finally show ?case .
qed

text \<open>
  The exponent form of the recurrence: entry \<open>a\<close> is the start price times the
  exponential of the first \<open>a + 1\<close> step exponents.
\<close>

lemma nth_gbm_path:
  "a < length es \<Longrightarrow>
   gbm_path p x es ! a = x * exp (sum_list (map (gbm_exponent p) (take (Suc a) es)))"
proof (induction es arbitrary: x a)
  case Nil
  then show ?case by simp
next
  case (Cons e es)
  then show ?case
    by (cases a) (simp_all add: Let_def gbm_factor_def exp_add mult.assoc)
qed

lemma gbm_path_pos: "0 < x \<Longrightarrow> y \<in> set (gbm_path p x es) \<Longrightarrow> 0 < y"
proof (induction es arbitrary: x)
  case Nil
  then show ?case by simp
next
  case (Cons e es)
  have "0 < x * gbm_factor p e"
    using Cons.prems(1) by (simp add: gbm_factor_def)
  then show ?case using Cons by (auto simp: Let_def)
qed

lemma gbm_exponent_vol0:
  "sp_vol p = 0 \<Longrightarrow> gbm_exponent p e = (sp_r p - sp_q p) * sp_dt p"
  by (simp add: gbm_exponent_def)

lemma gbm_path_vol0:
  assumes "sp_vol p = 0" "a < length es"
  shows "gbm_path p x es ! a = x * exp ((sp_r p - sp_q p) * real (Suc a) * sp_dt p)"
proof -
  have "gbm_exponent p = (\<lambda>_. (sp_r p - sp_q p) * sp_dt p)"
    using assms(1) by (simp add: gbm_exponent_vol0 fun_eq_iff)
  then have "map (gbm_exponent p) (take (Suc a) es) = replicate (Suc a) ((sp_r p - sp_q p) * sp_dt p)"
    using assms(2) by (simp add: map_replicate_const)
  then have "sum_list (map (gbm_exponent p) (take (Suc a) es)) =
               (sp_r p - sp_q p) * real (Suc a) * sp_dt p"
    by (simp only: sum_list_replicate) (simp add: algebra_simps)
  then show ?thesis
    using assms(2) by (simp add: nth_gbm_path)
qed

section \<open>Properties of stock\_price\<close>

lemma stock_price_Inr_iff:
  "stock_price p g = Inr r \<longleftrightarrow>
     0 \<le> sp_period p \<and>
     r = (gbm_path p (sp_s_0 p) (draws g (nat (sp_period p))), advance g (nat (sp_period p)))"
proof (cases "sp_period p < 0")
  case True
  then show ?thesis by (simp add: stock_price_def np_zeros_def)
next
  case False
  let ?n = "nat (sp_period p)"
  have "stock_price_loop p (draws g ?n) [0..<?n] (sp_s_0 p) (replicate ?n 0) =
          gbm_path p (sp_s_0 p) (draws g ?n)"
    using stock_price_loop_gbm_path [of "draws g ?n" ?n "replicate ?n 0" 0] by simp
  with False show ?thesis by (auto simp: stock_price_def np_zeros_def)
qed

lemma stock_price_negative: "sp_period p < 0 \<Longrightarrow> stock_price p g = Inl ValueError"
  by (simp add: stock_price_def np_zeros_def)


text \<open>
  C1. \<open>stock_price\<close> raises ValueError exactly when \<open>period\<close> is negative;
  otherwise it draws \<open>period\<close> values and returns the recurrence of the
  geometric Brownian motion over them, started from \<open>s_0\<close>, with the random
  state moved forward by \<open>period\<close> draws.
\<close>

theorem stock_price_eq:
  "stock_price p g =
     (if sp_period p < 0 then Inl ValueError
      else Inr (gbm_path p (sp_s_0 p) (draws g (nat (sp_period p))),
                advance g (nat (sp_period p))))"
  using stock_price_Inr_iff [of p g] stock_price_negative [of p g] by auto

text \<open>
  C2. For a positive start price and a non-negative time step (for \<open>dt < 0\<close>
  numpy's \<open>np.sqrt(dt)\<close> makes every price \<open>nan\<close>), every price of a returned
  path is strictly positive, the path has \<open>period\<close> entries, and the random
  state advanced by exactly that many draws.
\<close>

theorem stock_price_positive:
  assumes "0 < sp_s_0 p" and "0 \<le> sp_dt p" and "stock_price p g = Inr (prices, g')"
  shows "length prices = nat (sp_period p) \<and> (\<forall>y \<in> set prices. 0 < y) \<and>
         rng_pos g' = rng_pos g + nat (sp_period p)"
proof -
  have prices: "prices = gbm_path p (sp_s_0 p) (draws g (nat (sp_period p)))"
    and g': "g' = advance g (nat (sp_period p))"
    using assms(3) by (simp_all add: stock_price_Inr_iff)
  have "\<forall>y \<in> set prices. 0 < y"
    using gbm_path_pos [OF assms(1)] prices by blast
  then show ?thesis using prices g' by simp
qed

theorem stock_price_positive_witness:
  "0 < sp_s_0 (stock_price_defaults\<lparr>sp_period := 2\<rparr>) \<and>
   0 \<le> sp_dt (stock_price_defaults\<lparr>sp_period := 2\<rparr>) \<and>
   stock_price (stock_price_defaults\<lparr>sp_period := 2\<rparr>) \<lparr>rng_stream = (\<lambda>_. 0), rng_pos = 0\<rparr> =
     Inr ([100 * gbm_factor (stock_price_defaults\<lparr>sp_period := 2\<rparr>) 0,
           100 * gbm_factor (stock_price_defaults\<lparr>sp_period := 2\<rparr>) 0
               * gbm_factor (stock_price_defaults\<lparr>sp_period := 2\<rparr>) 0],
          \<lparr>rng_stream = (\<lambda>_. 0), rng_pos = 2\<rparr>) \<and>
   length [100 * gbm_factor (stock_price_defaults\<lparr>sp_period := 2\<rparr>) 0,
           100 * gbm_factor (stock_price_defaults\<lparr>sp_period := 2\<rparr>) 0
               * gbm_factor (stock_price_defaults\<lparr>sp_period := 2\<rparr>) 0] = 2 \<and>
   list_all (\<lambda>y. 0 < y)
     [100 * gbm_factor (stock_price_defaults\<lparr>sp_period := 2\<rparr>) 0,
      100 * gbm_factor (stock_price_defaults\<lparr>sp_period := 2\<rparr>) 0
          * gbm_factor (stock_price_defaults\<lparr>sp_period := 2\<rparr>) 0]"
proof -
  have pos: "0 < sp_s_0 (stock_price_defaults\<lparr>sp_period := 2\<rparr>)"
    by (simp add: stock_price_defaults_def)
  have dt: "0 \<le> sp_dt (stock_price_defaults\<lparr>sp_period := 2\<rparr>)"
    by (simp add: stock_price_defaults_def)
  have run: "stock_price (stock_price_defaults\<lparr>sp_period := 2\<rparr>) \<lparr>rng_stream = (\<lambda>_. 0), rng_pos = 0\<rparr> =
     Inr ([100 * gbm_factor (stock_price_defaults\<lparr>sp_period := 2\<rparr>) 0,
           100 * gbm_factor (stock_price_defaults\<lparr>sp_period := 2\<rparr>) 0
               * gbm_factor (stock_price_defaults\<lparr>sp_period := 2\<rparr>) 0],
          \<lparr>rng_stream = (\<lambda>_. 0), rng_pos = 2\<rparr>)"
    by (simp add: stock_price_def numpy_defs upt_conv_Cons stock_price_defaults_def Let_def
        numeral_2_eq_2)
  show ?thesis
    using stock_price_positive [OF pos dt run] pos dt run by (simp add: list_all_iff)
qed

text \<open>
  C3. With zero volatility and a non-negative time step (for \<open>dt < 0\<close> numpy
  computes \<open>0 * nan = nan\<close>) the path is deterministic: entry \<open>a\<close> is
  \<open>s_0 * exp((r - q) * (a + 1) * dt)\<close>, whatever the random draws are. The
  index is shifted by one against the specification's formula because the code
  does not store the initial price.
\<close>

theorem stock_price_vol0:
  assumes "sp_vol p = 0" and "0 \<le> sp_dt p" and "stock_price p g = Inr (prices, g')"
    and "a < length prices"
  shows "prices ! a = sp_s_0 p * exp ((sp_r p - sp_q p) * real (Suc a) * sp_dt p)"
proof -
  have prices: "prices = gbm_path p (sp_s_0 p) (draws g (nat (sp_period p)))"
    using assms(3) by (simp add: stock_price_Inr_iff)
  show ?thesis
    using gbm_path_vol0 [OF assms(1)] assms(4) prices by simp
qed

theorem stock_price_vol0_witness:
  "sp_vol (stock_price_defaults\<lparr>sp_vol := 0, sp_period := 2\<rparr>) = 0 \<and>
   0 \<le> sp_dt (stock_price_defaults\<lparr>sp_vol := 0, sp_period := 2\<rparr>) \<and>
   stock_price (stock_price_defaults\<lparr>sp_vol := 0, sp_period := 2\<rparr>)
     \<lparr>rng_stream = (\<lambda>i. real i), rng_pos = 0\<rparr> =
     Inr ([100 * gbm_factor (stock_price_defaults\<lparr>sp_vol := 0, sp_period := 2\<rparr>) 0,
           100 * gbm_factor (stock_price_defaults\<lparr>sp_vol := 0, sp_period := 2\<rparr>) 0
               * gbm_factor (stock_price_defaults\<lparr>sp_vol := 0, sp_period := 2\<rparr>) 1],
          \<lparr>rng_stream = (\<lambda>i. real i), rng_pos = 2\<rparr>) \<and>
   [100 * gbm_factor (stock_price_defaults\<lparr>sp_vol := 0, sp_period := 2\<rparr>) 0,
    100 * gbm_factor (stock_price_defaults\<lparr>sp_vol := 0, sp_period := 2\<rparr>) 0
        * gbm_factor (stock_price_defaults\<lparr>sp_vol := 0, sp_period := 2\<rparr>) 1] ! 1 =
     100 * exp ((0.05 - 0.02) * real (Suc 1) * 0.004)"
proof -
  have vol: "sp_vol (stock_price_defaults\<lparr>sp_vol := 0, sp_period := 2\<rparr>) = 0"
    by simp
  have dt: "0 \<le> sp_dt (stock_price_defaults\<lparr>sp_vol := 0, sp_period := 2\<rparr>)"
    by (simp add: stock_price_defaults_def)
  have run: "stock_price (stock_price_defaults\<lparr>sp_vol := 0, sp_period := 2\<rparr>)
     \<lparr>rng_stream = (\<lambda>i. real i), rng_pos = 0\<rparr> =
     Inr ([100 * gbm_factor (stock_price_defaults\<lparr>sp_vol := 0, sp_period := 2\<rparr>) 0,
           100 * gbm_factor (stock_price_defaults\<lparr>sp_vol := 0, sp_period := 2\<rparr>) 0
               * gbm_factor (stock_price_defaults\<lparr>sp_vol := 0, sp_period := 2\<rparr>) 1],
          \<lparr>rng_stream = (\<lambda>i. real i), rng_pos = 2\<rparr>)"
    by (simp add: stock_price_def numpy_defs upt_conv_Cons stock_price_defaults_def Let_def
        numeral_2_eq_2)
  have "[100 * gbm_factor (stock_price_defaults\<lparr>sp_vol := 0, sp_period := 2\<rparr>) 0,
    100 * gbm_factor (stock_price_defaults\<lparr>sp_vol := 0, sp_period := 2\<rparr>) 0
        * gbm_factor (stock_price_defaults\<lparr>sp_vol := 0, sp_period := 2\<rparr>) 1] ! 1 =
     sp_s_0 (stock_price_defaults\<lparr>sp_vol := 0, sp_period := 2\<rparr>) *
     exp ((sp_r (stock_price_defaults\<lparr>sp_vol := 0, sp_period := 2\<rparr>)
           - sp_q (stock_price_defaults\<lparr>sp_vol := 0, sp_period := 2\<rparr>)) * real (Suc 1)
          * sp_dt (stock_price_defaults\<lparr>sp_vol := 0, sp_period := 2\<rparr>))"
    by (rule stock_price_vol0 [OF vol dt run]) simp
  then show ?thesis using vol dt run by (simp add: stock_price_defaults_def)
qed

end
