(* ===== verification/BatchSimulator.thy ===== *)
theory BatchSimulator
  imports PathGenerator
begin

text \<open>
  The batch simulator, \<open>simulation\<close> of \<open>src/Methodology.py\<close> (lines 21--26),
  and the evaluation of the default arguments \<open>sim=simulation()\<close> of the four
  pricing functions when the module is imported (lines 46, 60, 74, 88).
  \<open>simulation\<close> allocates an \<open>iterations \<times> period\<close> zero matrix and assigns
  each row the result of \<open>stock_price()\<close> called with all its defaults, so the
  \<open>period\<close> argument only sizes the matrix: numpy's row assignment
  (\<open>np_assign_row\<close>) raises ValueError when the 250 prices do not broadcast
  into a row of \<open>period\<close> entries. The paths come from consecutive windows of
  250 draws of the global random state.
\<close>

text \<open>
  \<open>A[i] = v\<close> on a two-dimensional array: IndexError past the last row; the
  value must have the row's length or length 1 (broadcast), else ValueError.
\<close>

definition np_assign_row :: "matrix \<Rightarrow> nat \<Rightarrow> vector \<Rightarrow> matrix result" where
  "np_assign_row A i v =
     (if length A \<le> i then Inl IndexError
      else if length v = length (A ! i) then Inr (A[i := v])
      else if length v = 1 then Inr (A[i := replicate (length (A ! i)) (hd v)])
      else Inl ValueError)"

fun simulation_loop :: "nat list \<Rightarrow> matrix \<Rightarrow> rng \<Rightarrow> (matrix \<times> rng) result" where
  "simulation_loop [] simulations g = Inr (simulations, g)"
| "simulation_loop (i # is) simulations g =
     rbind (stock_price stock_price_defaults g) (\<lambda>(row, g').
     rbind (np_assign_row simulations i row) (\<lambda>simulations'.
     simulation_loop is simulations' g'))"

definition simulation :: "int \<Rightarrow> int \<Rightarrow> rng \<Rightarrow> (matrix \<times> rng) result" where
  "simulation iterations period g =
     rbind (np_zeros2 iterations period) (\<lambda>simulations.
     simulation_loop [0..<nat iterations] simulations g)"

text \<open>
  Importing the module evaluates \<open>simulation()\<close> four times, in the order of
  the definitions: the default samples of \<open>lookBackCallPrice\<close>,
  \<open>lookBackPutPrice\<close>, \<open>europeanCallPrice\<close> and \<open>europeanPutPrice\<close>.
\<close>

definition methodology_defaults :: "rng \<Rightarrow> (matrix list \<times> rng) result" where
  "methodology_defaults g =
     rbind (simulation 10000 250 g) (\<lambda>(sim_lookback_call, g1).
     rbind (simulation 10000 250 g1) (\<lambda>(sim_lookback_put, g2).
     rbind (simulation 10000 250 g2) (\<lambda>(sim_european_call, g3).
     rbind (simulation 10000 250 g3) (\<lambda>(sim_european_put, g4).
     Inr ([sim_lookback_call, sim_lookback_put, sim_european_call, sim_european_put], g4)))))"

text \<open>The path \<open>stock_price()\<close> returns from a given random state.\<close>

definition default_path :: "rng \<Rightarrow> vector" where
  "default_path g = gbm_path stock_price_defaults 100 (draws g 250)"

section \<open>The loop\<close>

lemma stock_price_defaults_run:
  "stock_price stock_price_defaults g = Inr (default_path g, advance g 250)"
  by (simp add: stock_price_Inr_iff default_path_def stock_price_defaults_def)

lemma length_default_path [simp]: "length (default_path g) = 250"
  by (simp add: default_path_def)

lemma simulation_loop_eq:
  assumes "length sims = n" "k \<le> n" "\<forall>x \<in> set sims. length x = 250"
  shows "simulation_loop [k..<n] sims g =
           Inr (take k sims @ map (\<lambda>j. default_path (advance g (j * 250))) [0..<n - k],
                advance g ((n - k) * 250))"
  using assms
proof (induction "n - k" arbitrary: k sims g)
  case 0
  then show ?case by simp
next
  case (Suc d)
  then have k: "k < n" by simp
  let ?sims' = "sims[k := default_path g]"
  have assign: "np_assign_row sims k (default_path g) = Inr ?sims'"
    using Suc.prems k by (simp add: np_assign_row_def)
  have rows: "\<forall>x \<in> set ?sims'. length x = 250"
    using Suc.prems by (auto dest: set_update_subset_insert [THEN subsetD])
  have "simulation_loop [k..<n] sims g = simulation_loop [Suc k..<n] ?sims' (advance g 250)"
    using k by (simp add: upt_conv_Cons stock_price_defaults_run assign)
  also have "\<dots> = Inr (take (Suc k) ?sims' @
                        map (\<lambda>j. default_path (advance (advance g 250) (j * 250))) [0..<n - Suc k],
                      advance (advance g 250) ((n - Suc k) * 250))"
    using Suc.hyps(1)[of "Suc k"] Suc.hyps(2) Suc.prems k rows by simp
  also have "\<dots> = Inr (take k sims @ map (\<lambda>j. default_path (advance g (j * 250))) [0..<n - k],
                      advance g ((n - k) * 250))"
  proof -
    have "n - k = Suc (n - Suc k)" using k by simp
    then show ?thesis
      using Suc.prems k
      by (simp only: map_upt_Suc) (simp add: take_Suc_conv_app_nth algebra_simps)
  qed
  finally show ?case .
qed

lemma simulation_loop_mismatch:
  assumes "0 < n" "m \<noteq> 250"
  shows "simulation_loop [0..<n] (replicate n (replicate m 0)) g = Inl ValueError"
  using assms by (simp add: upt_conv_Cons stock_price_defaults_run np_assign_row_def)

lemma simulation_250:
  "0 \<le> iterations \<Longrightarrow>
   simulation iterations 250 g =
     Inr (map (\<lambda>i. default_path (advance g (i * 250))) [0..<nat iterations],
          advance g (nat iterations * 250))"
  using simulation_loop_eq [of "replicate (nat iterations) (replicate 250 0)" "nat iterations" 0 g]
  by (simp add: simulation_def np_zeros2_def)

lemma upt_0_4: "[0..<4::nat] = [0, 1, 2, 3]"
  by (simp add: upt_conv_Cons)

lemma simulation_250_state:
  "simulation 10000 250 g = Inr (S, g1) \<Longrightarrow> g1 = advance g 2500000"
  by (simp add: simulation_250)

lemma methodology_defaults_state:
  assumes "methodology_defaults g = Inr (sims, g')"
  shows "g' = advance g 10000000"
proof -
  obtain S1 g1 S2 g2 S3 g3 S4 where
    "simulation 10000 250 g = Inr (S1, g1)" "simulation 10000 250 g1 = Inr (S2, g2)"
    "simulation 10000 250 g2 = Inr (S3, g3)" "simulation 10000 250 g3 = Inr (S4, g')"
    using assms by (auto simp: methodology_defaults_def rbind_eq_Inr_iff split: prod.splits)
  then show ?thesis by (auto dest!: simulation_250_state)
qed

section \<open>Properties of simulation\<close>

text \<open>
  C4. \<open>simulation(iterations, period)\<close> raises ValueError for a negative
  dimension, and for \<open>period \<noteq> 250\<close> as soon as there is a row to assign;
  otherwise row \<open>i\<close> is the default path over the draws
  \<open>250 i .. 250 i + 249\<close> after the cursor, and the cursor moves by
  \<open>250 * iterations\<close>.
\<close>

theorem simulation_eq:
  "simulation iterations period g =
     (if iterations < 0 \<or> period < 0 then Inl ValueError
      else if 0 < iterations \<and> period \<noteq> 250 then Inl ValueError
      else Inr (map (\<lambda>i. default_path (advance g (i * 250))) [0..<nat iterations],
                advance g (nat iterations * 250)))"
proof (cases "iterations < 0 \<or> period < 0")
  case True
  then show ?thesis by (auto simp: simulation_def np_zeros2_def)
next
  case False
  show ?thesis
  proof (cases "0 < iterations \<and> period \<noteq> 250")
    case True
    then have "nat period \<noteq> 250" using False by (simp add: nat_eq_iff)
    with True False show ?thesis
      by (simp add: simulation_def np_zeros2_def simulation_loop_mismatch)
  next
    case nz: False
    show ?thesis
    proof (cases "iterations = 0")
      case True
      then show ?thesis by (simp add: simulation_def np_zeros2_def)
    next
      case False
      with nz \<open>\<not> (iterations < 0 \<or> period < 0)\<close> have "period = 250" by simp
      then show ?thesis
        using \<open>\<not> (iterations < 0 \<or> period < 0)\<close> nz simulation_250 by simp
    qed
  qed
qed

text \<open>
  C5. Paths of a batch do not observe each other's draws: row \<open>i\<close> of the
  result depends only on the window of 250 draws that belongs to it, so two
  random states that agree on that window give the same row \<open>i\<close>.
\<close>

theorem simulation_row_window:
  assumes "simulation iterations 250 g = Inr (A, g1)"
    and "simulation iterations 250 g' = Inr (B, g1')"
    and "i < length A"
    and "\<forall>j < 250. rng_stream g (rng_pos g + (i * 250 + j)) =
                  rng_stream g' (rng_pos g' + (i * 250 + j))"
  shows "A ! i = B ! i"
proof -
  have nonneg: "0 \<le> iterations"
    using assms(1) by (auto simp: simulation_def np_zeros2_def split: if_splits)
  have A: "A = map (\<lambda>i. default_path (advance g (i * 250))) [0..<nat iterations]"
    and B: "B = map (\<lambda>i. default_path (advance g' (i * 250))) [0..<nat iterations]"
    using assms(1,2) simulation_250 [OF nonneg] by simp_all
  have "draws (advance g (i * 250)) 250 = draws (advance g' (i * 250)) 250"
    by (rule draws_depend_window) (simp add: assms(4) add.assoc)
  then show ?thesis
    using A B assms(3) by (simp add: default_path_def)
qed

theorem simulation_row_window_witness:
  "simulation 2 250 \<lparr>rng_stream = (\<lambda>_. 0), rng_pos = 0\<rparr> =
     Inr (map (\<lambda>i. default_path (advance \<lparr>rng_stream = (\<lambda>_. 0), rng_pos = 0\<rparr> (i * 250))) [0..<2],
          advance \<lparr>rng_stream = (\<lambda>_. 0), rng_pos = 0\<rparr> 500) \<and>
   simulation 2 250 \<lparr>rng_stream = (\<lambda>n. if n < 250 then 0 else 1), rng_pos = 0\<rparr> =
     Inr (map (\<lambda>i. default_path (advance \<lparr>rng_stream = (\<lambda>n. if n < 250 then 0 else 1), rng_pos = 0\<rparr>
                 (i * 250))) [0..<2],
          advance \<lparr>rng_stream = (\<lambda>n. if n < 250 then 0 else 1), rng_pos = 0\<rparr> 500) \<and>
   map (\<lambda>i. default_path (advance \<lparr>rng_stream = (\<lambda>_. 0), rng_pos = 0\<rparr> (i * 250))) [0..<2] ! 0 =
   map (\<lambda>i. default_path (advance \<lparr>rng_stream = (\<lambda>n. if n < 250 then 0 else 1), rng_pos = 0\<rparr>
          (i * 250))) [0..<2] ! 0"
proof -
  have a: "simulation 2 250 \<lparr>rng_stream = (\<lambda>_. 0), rng_pos = 0\<rparr> =
     Inr (map (\<lambda>i. default_path (advance \<lparr>rng_stream = (\<lambda>_. 0), rng_pos = 0\<rparr> (i * 250))) [0..<2],
          advance \<lparr>rng_stream = (\<lambda>_. 0), rng_pos = 0\<rparr> 500)"
    using simulation_250 [of 2] by simp
  have b: "simulation 2 250 \<lparr>rng_stream = (\<lambda>n. if n < 250 then 0 else 1), rng_pos = 0\<rparr> =
     Inr (map (\<lambda>i. default_path (advance \<lparr>rng_stream = (\<lambda>n. if n < 250 then 0 else 1), rng_pos = 0\<rparr>
                 (i * 250))) [0..<2],
          advance \<lparr>rng_stream = (\<lambda>n. if n < 250 then 0 else 1), rng_pos = 0\<rparr> 500)"
    using simulation_250 [of 2] by simp
  have "map (\<lambda>i. default_path (advance \<lparr>rng_stream = (\<lambda>_. 0), rng_pos = 0\<rparr> (i * 250))) [0..<2] ! 0 =
        map (\<lambda>i. default_path (advance \<lparr>rng_stream = (\<lambda>n. if n < 250 then 0 else 1), rng_pos = 0\<rparr>
          (i * 250))) [0..<2] ! 0"
    by (rule simulation_row_window [OF a b]) simp_all
  then show ?thesis using a b by blast
qed

text \<open>
  C6. Importing \<open>Methodology\<close> runs \<open>simulation()\<close> four times in a row:
  the four pricing functions get their default samples from four consecutive,
  disjoint windows of 2,500,000 draws each. The lookback call and put (and the
  two European options) are therefore not priced on the same paths.
\<close>

theorem methodology_defaults_eq:
  "methodology_defaults g =
     Inr (map (\<lambda>k. map (\<lambda>i. default_path (advance g ((k * 10000 + i) * 250))) [0..<10000])
              [0..<4],
          advance g 10000000)"
  by (simp add: methodology_defaults_def simulation_250 upt_0_4 algebra_simps)

end
