(* ===== verification/Pricer.thy ===== *)
theory Pricer
  imports Prelude
begin

text \<open>
  The pricer of \<open>src/Methodology.py\<close>, \<open>option_price\<close> (lines 28--31):
  \<open>int(np.sum(option_payoff) / 10000 * np.exp(-T * rate) * 10000) / 10000\<close>.
  It divides by the constant 10000, the default number of simulations, not by
  the number of payoffs, and \<open>int()\<close> truncates the result towards zero at the
  fourth decimal. \<open>discounted_mean\<close> is the specification's pricer
  (discount factor times mean, undefined on no payoffs), which is also what
  \<open>src/AsianOptions.py\<close> computes (lines 39--40); the lemmas relate the two.
\<close>

definition option_price :: "vector \<Rightarrow> real \<Rightarrow> real \<Rightarrow> real" where
  "option_price option_payoff rate T =
     real_of_int (py_int (sum_list option_payoff / 10000 * exp (- T * rate) * 10000)) / 10000"

definition discounted_mean :: "real \<Rightarrow> vector \<Rightarrow> real option" where
  "discounted_mean discount_factor payoffs = map_option (\<lambda>m. discount_factor * m) (np_mean payoffs)"

section \<open>Lemmas\<close>

lemma py_int_mono:
  assumes "x \<le> y"
  shows "py_int x \<le> py_int y"
proof (cases "0 \<le> x")
  case True
  then show ?thesis using assms by (simp add: py_int_def floor_mono)
next
  case x: False
  show ?thesis
  proof (cases "0 \<le> y")
    case True
    have "\<lceil>x\<rceil> \<le> 0" "0 \<le> \<lfloor>y\<rfloor>" using x True by simp_all
    then have "\<lceil>x\<rceil> \<le> \<lfloor>y\<rfloor>" by linarith
    then show ?thesis using x True by (simp add: py_int_def)
  next
    case False
    then show ?thesis using x assms by (simp add: py_int_def ceiling_mono)
  qed
qed

lemma sum_list_list_all2_mono: "list_all2 (\<le>) xs ys \<Longrightarrow> sum_list xs \<le> sum_list (ys :: real list)"
  by (induction rule: list_all2_induct) (simp_all add: add_mono)

text \<open>The value \<open>int()\<close> truncates: the discounted sum over 10000.\<close>

lemma option_price_arg:
  "sum_list (ps :: vector) / 10000 * exp (- T * rate) * 10000 = exp (- T * rate) * sum_list ps"
  by simp

lemma option_price_py_int:
  "option_price ps rate T =
     real_of_int (py_int (10000 * (exp (- T * rate) * sum_list ps / 10000))) / 10000"
  by (simp add: option_price_def mult.commute)

lemma discounted_mean_Some:
  "ps \<noteq> [] \<Longrightarrow> discounted_mean d ps = Some (d * (sum_list ps / real (length ps)))"
  by (simp add: discounted_mean_def)

lemma trunc4_bounds:
  "\<bar>real_of_int (py_int (10000 * x)) / 10000\<bar> \<le> \<bar>x\<bar> \<and>
   \<bar>x - real_of_int (py_int (10000 * x)) / 10000\<bar> < 1 / 10000"
proof -
  have "\<bar>real_of_int (py_int (10000 * x))\<bar> \<le> \<bar>10000 * x\<bar>"
    by (rule py_int_abs_le)
  moreover have "\<bar>10000 * x - real_of_int (py_int (10000 * x))\<bar> < 1"
    by (rule py_int_error)
  moreover have "\<bar>real_of_int (py_int (10000 * x)) / 10000\<bar> =
                  \<bar>real_of_int (py_int (10000 * x))\<bar> / 10000"
    by simp
  moreover have "\<bar>x - real_of_int (py_int (10000 * x)) / 10000\<bar> =
                  \<bar>10000 * x - real_of_int (py_int (10000 * x))\<bar> / 10000"
    by (simp add: field_simps)
  ultimately show ?thesis by (simp add: abs_mult)
qed

section \<open>Properties of option\_price\<close>

text \<open>
  C7. \<open>option_price\<close> is the discounted payoff sum over 10000, truncated
  towards zero at the fourth decimal: never larger in magnitude than that value
  and less than \<open>1/10000\<close> away from it.
\<close>

theorem option_price_bounds:
  "\<bar>option_price ps rate T\<bar> \<le> \<bar>exp (- T * rate) * sum_list ps / 10000\<bar> \<and>
   \<bar>exp (- T * rate) * sum_list ps / 10000 - option_price ps rate T\<bar> < 1 / 10000"
  using trunc4_bounds [of "exp (- T * rate) * sum_list ps / 10000"]
  by (simp only: option_price_py_int)

text \<open>
  C8. With exactly 10000 payoffs (the default number of simulations)
  \<open>option_price\<close> refines the specification's pricer: it is the discounted mean
  truncated towards zero at the fourth decimal.
\<close>

theorem option_price_refines_mean:
  assumes "length ps = 10000" and "discounted_mean (exp (- T * rate)) ps = Some d"
  shows "option_price ps rate T = real_of_int (py_int (10000 * d)) / 10000"
proof -
  have "ps \<noteq> []" using assms(1) by auto
  then have "d = exp (- T * rate) * (sum_list ps / 10000)"
    using assms by (simp add: discounted_mean_Some)
  then have "sum_list ps / 10000 * exp (- T * rate) * 10000 = 10000 * d"
    by (simp add: algebra_simps)
  then show ?thesis by (simp only: option_price_def)
qed

theorem option_price_refines_mean_witness:
  "length (replicate 10000 (1::real)) = 10000 \<and>
   discounted_mean (exp (- 0.75 * 0.05)) (replicate 10000 1) = Some (exp (- 0.75 * 0.05)) \<and>
   option_price (replicate 10000 1) 0.05 0.75 =
     real_of_int (py_int (10000 * exp (- 0.75 * 0.05))) / 10000"
proof -
  have len: "length (replicate 10000 (1::real)) = 10000" by simp
  have dm: "discounted_mean (exp (- 0.75 * 0.05)) (replicate 10000 1) = Some (exp (- 0.75 * 0.05))"
    by (simp add: discounted_mean_def np_mean_def sum_list_replicate)
  show ?thesis using option_price_refines_mean [OF len dm] len dm by simp
qed

text \<open>
  C9. For a sample of any size \<open>n\<close>, \<open>option_price\<close> is the discounted mean
  scaled by \<open>n / 10000\<close>, truncated towards zero at the fourth decimal: the code
  divides the payoff sum by the constant 10000 instead of by \<open>len(option_payoff)\<close>,
  so only a sample of exactly 10000 payoffs is priced at its mean (C8).
\<close>

theorem option_price_sample_size:
  assumes "discounted_mean (exp (- T * rate)) ps = Some d"
  shows "option_price ps rate T = real_of_int (py_int (10000 * (real (length ps) / 10000 * d))) / 10000"
proof -
  have "ps \<noteq> []" using assms by (auto simp: discounted_mean_def np_mean_def)
  then have "d = exp (- T * rate) * (sum_list ps / real (length ps))"
    using assms by (simp add: discounted_mean_Some)
  then have "sum_list ps / 10000 * exp (- T * rate) * 10000 = 10000 * (real (length ps) / 10000 * d)"
    using \<open>ps \<noteq> []\<close> by (simp add: field_simps)
  then show ?thesis by (simp only: option_price_def)
qed

theorem option_price_sample_size_witness:
  "discounted_mean (exp (- 0.75 * 0.05)) [1] = Some (exp (- 0.75 * 0.05)) \<and>
   option_price [1] 0.05 0.75 =
     real_of_int (py_int (10000 * (real (length [1 :: real]) / 10000 * exp (- 0.75 * 0.05)))) / 10000"
proof -
  have dm: "discounted_mean (exp (- 0.75 * 0.05)) [1] = Some (exp (- 0.75 * 0.05))"
    by (simp add: discounted_mean_def np_mean_def)
  show ?thesis using option_price_sample_size [OF dm] dm by blast
qed

text \<open>
  The truncation makes \<open>option_price\<close> non-linear, unlike the
  specification's pricer: tripling 10000 payoffs of \<open>1/3\<close> (at rate 0) turns
  the price 0.3333 into 1, not into 0.9999.
\<close>

theorem option_price_not_linear:
  "option_price (replicate 10000 (1 / 3)) 0 0.75 = 0.3333 \<and>
   option_price (map (\<lambda>x. 3 * x) (replicate 10000 (1 / 3))) 0 0.75 = 1 \<and>
   option_price (map (\<lambda>x. 3 * x) (replicate 10000 (1 / 3))) 0 0.75 \<noteq>
     3 * option_price (replicate 10000 (1 / 3)) 0 0.75"
proof -
  have "\<lfloor>10000 / 3 :: real\<rfloor> = 3333" by (simp add: floor_eq_iff)
  then have a: "option_price (replicate 10000 (1 / 3)) 0 0.75 = 0.3333"
    by (simp add: option_price_def py_int_def sum_list_replicate)
  have b: "option_price (map (\<lambda>x. 3 * x) (replicate 10000 (1 / 3))) 0 0.75 = 1"
    by (simp add: option_price_def py_int_def sum_list_replicate)
  show ?thesis using a b by simp
qed



end
