(* ===== verification/Payoffs.thy ===== *)
theory Payoffs
  imports Pricer
begin

text \<open>
  The payoff evaluators and pricing functions of \<open>src/Methodology.py\<close>
  (lines 46--99): \<open>lookBackCallPrice\<close>, \<open>lookBackPutPrice\<close>,
  \<open>europeanCallPrice\<close> and \<open>europeanPutPrice\<close>. Each walks the rows of
  \<open>sim\<close> with a counter \<open>i\<close>, stores the row's payoff at \<open>payoffs[i]\<close>, hands
  the payoffs and a label to \<open>plotting\<close> and prints \<open>option_price(payoffs)\<close>.
  The per-row payoff is a definition per variant (\<open>lookback_call_payoff\<close>,
  \<dots>); the loop is \<open>payoff_loop\<close>, shared by the four functions; what
  reaches the reporting side (label, payoffs, printed price) is the record
  \<open>price_report\<close>, and theory \<open>Reporting\<close> adds the plot and print calls. \<open>np.min\<close>/\<open>np.max\<close> of an empty row raise ValueError and
  \<open>vector[-1]\<close> raises IndexError, in the order the code evaluates them.
\<close>

definition lookback_call_payoff :: "vector \<Rightarrow> real result" where
  "lookback_call_payoff vector =
     rbind (np_min vector) (\<lambda>K. rbind (py_last vector) (\<lambda>S_T. Inr (S_T - K)))"

definition lookback_put_payoff :: "vector \<Rightarrow> real result" where
  "lookback_put_payoff vector =
     rbind (np_max vector) (\<lambda>K. rbind (py_last vector) (\<lambda>S_T. Inr (K - S_T)))"

definition european_call_payoff :: "vector \<Rightarrow> real result" where
  "european_call_payoff vector =
     (let strike_price = 110 in rbind (py_last vector) (\<lambda>S_T. Inr (max (S_T - strike_price) 0)))"

definition european_put_payoff :: "vector \<Rightarrow> real result" where
  "european_put_payoff vector =
     (let strike_price = 90 in rbind (py_last vector) (\<lambda>S_T. Inr (max (strike_price - S_T) 0)))"

text \<open>\<open>for vector in sim: payoffs[i] = ...; i += 1\<close>\<close>

fun payoff_loop :: "(vector \<Rightarrow> real result) \<Rightarrow> matrix \<Rightarrow> nat \<Rightarrow> vector \<Rightarrow> vector result" where
  "payoff_loop f [] i payoffs = Inr payoffs"
| "payoff_loop f (vector # sim) i payoffs =
     rbind (f vector) (\<lambda>x. payoff_loop f sim (Suc i) (payoffs[i := x]))"

record price_report =
  rep_name :: string
  rep_payoffs :: vector
  rep_price :: real

definition price_function :: "(vector \<Rightarrow> real result) \<Rightarrow> string \<Rightarrow> matrix \<Rightarrow> price_report result" where
  "price_function payoff name sim =
     rbind (payoff_loop payoff sim 0 (replicate (length sim) 0)) (\<lambda>payoffs.
     Inr \<lparr>rep_name = name, rep_payoffs = payoffs, rep_price = option_price payoffs 0.05 0.75\<rparr>)"

definition lookBackCallPrice :: "matrix \<Rightarrow> price_report result" where
  "lookBackCallPrice sim = price_function lookback_call_payoff ''Lookback Call Option'' sim"

definition lookBackPutPrice :: "matrix \<Rightarrow> price_report result" where
  "lookBackPutPrice sim = price_function lookback_put_payoff ''Lookback Put Option'' sim"

definition europeanCallPrice :: "matrix \<Rightarrow> price_report result" where
  "europeanCallPrice sim = price_function european_call_payoff ''European Call Option'' sim"

definition europeanPutPrice :: "matrix \<Rightarrow> price_report result" where
  "europeanPutPrice sim = price_function european_put_payoff ''European Put Option'' sim"

section \<open>The loop and the per-row payoffs\<close>

lemma payoff_loop_map_result:
  "length payoffs = i + length sim \<Longrightarrow>
   payoff_loop f sim i payoffs = rbind (map_result f sim) (\<lambda>ys. Inr (take i payoffs @ ys))"
proof (induction sim arbitrary: i payoffs)
  case Nil
  then show ?case by simp
next
  case (Cons v sim)
  show ?case
  proof (cases "f v")
    case (Inl e)
    then show ?thesis by simp
  next
    case (Inr x)
    have "length (payoffs[i := x]) = Suc i + length sim" using Cons.prems by simp
    then have "payoff_loop f sim (Suc i) (payoffs[i := x]) =
                 rbind (map_result f sim) (\<lambda>ys. Inr (take (Suc i) (payoffs[i := x]) @ ys))"
      by (rule Cons.IH)
    moreover have "take (Suc i) (payoffs[i := x]) = take i payoffs @ [x]"
      using Cons.prems by (simp add: take_Suc_conv_app_nth)
    ultimately show ?thesis using Inr by (cases "map_result f sim") simp_all
  qed
qed

lemma price_function_eq:
  "price_function payoff name sim =
     rbind (map_result payoff sim) (\<lambda>payoffs.
       Inr \<lparr>rep_name = name, rep_payoffs = payoffs, rep_price = option_price payoffs 0.05 0.75\<rparr>)"
  using payoff_loop_map_result [of "replicate (length sim) 0" 0 sim payoff]
  by (simp add: price_function_def rbind_assoc)

lemma lookback_call_payoff_Inr:
  "v \<noteq> [] \<Longrightarrow> lookback_call_payoff v = Inr (last v - Min (set v))"
  by (simp add: lookback_call_payoff_def np_min_Min)

lemma lookback_put_payoff_Inr:
  "v \<noteq> [] \<Longrightarrow> lookback_put_payoff v = Inr (Max (set v) - last v)"
  by (simp add: lookback_put_payoff_def np_max_Max)

lemma european_call_payoff_Inr:
  "v \<noteq> [] \<Longrightarrow> european_call_payoff v = Inr (max (last v - 110) 0)"
  by (simp add: european_call_payoff_def)

lemma european_put_payoff_Inr:
  "v \<noteq> [] \<Longrightarrow> european_put_payoff v = Inr (max (90 - last v) 0)"
  by (simp add: european_put_payoff_def)

lemma lookback_payoffs_empty:
  "lookback_call_payoff [] = Inl ValueError" "lookback_put_payoff [] = Inl ValueError"
  by (simp_all add: lookback_call_payoff_def lookback_put_payoff_def np_min_def np_max_def)

lemma european_payoffs_empty:
  "european_call_payoff [] = Inl IndexError" "european_put_payoff [] = Inl IndexError"
  by (simp_all add: european_call_payoff_def european_put_payoff_def py_last_def)

lemma payoff_cases:
  "lookback_call_payoff v = Inr (last v - Min (set v)) \<or> lookback_call_payoff v = Inl ValueError"
  "lookback_put_payoff v = Inr (Max (set v) - last v) \<or> lookback_put_payoff v = Inl ValueError"
  "european_call_payoff v = Inr (max (last v - 110) 0) \<or> european_call_payoff v = Inl IndexError"
  "european_put_payoff v = Inr (max (90 - last v) 0) \<or> european_put_payoff v = Inl IndexError"
  by (cases "v = []"; simp add: lookback_call_payoff_Inr lookback_put_payoff_Inr
      european_call_payoff_Inr european_put_payoff_Inr lookback_payoffs_empty european_payoffs_empty)+

lemma lookback_payoffs_InrD:
  "lookback_call_payoff v = Inr x \<Longrightarrow> v \<noteq> [] \<and> x = last v - Min (set v)"
  "lookback_put_payoff v = Inr x \<Longrightarrow> v \<noteq> [] \<and> x = Max (set v) - last v"
  by (cases "v = []"; simp add: lookback_call_payoff_Inr lookback_put_payoff_Inr lookback_payoffs_empty)+

lemma price_function_rows:
  "(\<And>v. v \<noteq> [] \<Longrightarrow> payoff v = Inr (h v)) \<Longrightarrow> (\<forall>v \<in> set sim. v \<noteq> []) \<Longrightarrow>
   price_function payoff name sim =
     Inr \<lparr>rep_name = name, rep_payoffs = map h sim,
          rep_price = option_price (map h sim) 0.05 0.75\<rparr>"
  by (simp add: price_function_eq map_result_map)

lemma price_function_Inr:
  "price_function payoff name sim = Inr rep \<Longrightarrow>
   map_result payoff sim = Inr (rep_payoffs rep) \<and> rep_price rep = option_price (rep_payoffs rep) 0.05 0.75"
  by (auto simp: price_function_eq rbind_eq_Inr_iff)

lemma price_function_nonneg:
  assumes "price_function payoff name sim = Inr rep"
    and "\<And>v x. payoff v = Inr x \<Longrightarrow> 0 \<le> x"
  shows "(\<forall>x \<in> set (rep_payoffs rep). 0 \<le> x) \<and> 0 \<le> rep_price rep"
proof -
  have m: "map_result payoff sim = Inr (rep_payoffs rep)"
    and p: "rep_price rep = option_price (rep_payoffs rep) 0.05 0.75"
    using price_function_Inr [OF assms(1)] by auto
  have "\<forall>x \<in> set (rep_payoffs rep). 0 \<le> x"
  proof
    fix x
    assume "x \<in> set (rep_payoffs rep)"
    then obtain i where "i < length (rep_payoffs rep)" and x: "x = rep_payoffs rep ! i"
      by (auto simp: in_set_conv_nth)
    with m have "payoff (sim ! i) = Inr x" by (simp add: map_result_Inr_iff)
    then show "0 \<le> x" by (rule assms(2))
  qed
  moreover have "0 \<le> option_price (rep_payoffs rep) 0.05 0.75"
    using calculation by (simp add: option_price_def option_price_arg py_int_same_sign
        sum_list_nonneg_real)
  ultimately show ?thesis using p by simp
qed

lemma lookback_call_payoff_nonneg: "lookback_call_payoff v = Inr x \<Longrightarrow> 0 \<le> x"
  by (cases "v = []") (auto simp: lookback_call_payoff_Inr lookback_payoffs_empty
      intro: Min_le)

lemma lookback_put_payoff_nonneg: "lookback_put_payoff v = Inr x \<Longrightarrow> 0 \<le> x"
  by (cases "v = []") (auto simp: lookback_put_payoff_Inr lookback_payoffs_empty
      intro: Max_ge)

lemma european_payoff_nonneg:
  "european_call_payoff v = Inr x \<Longrightarrow> 0 \<le> x" "european_put_payoff v = Inr x \<Longrightarrow> 0 \<le> x"
  by (cases "v = []"; auto simp: european_call_payoff_Inr european_put_payoff_Inr
      european_payoffs_empty)+

text \<open>A pricing function on rows that are all non-empty returns a full, non-negative report.\<close>

lemma price_function_total:
  assumes "\<And>v. v \<noteq> [] \<Longrightarrow> payoff v = Inr (h v)" "\<And>v x. payoff v = Inr x \<Longrightarrow> 0 \<le> x"
    and "\<forall>v \<in> set sim. v \<noteq> []"
  shows "\<exists>rep. price_function payoff name sim = Inr rep \<and> rep_name rep = name \<and>
           length (rep_payoffs rep) = length sim \<and> list_all (\<lambda>x. 0 \<le> x) (rep_payoffs rep) \<and>
           0 \<le> rep_price rep"
proof -
  let ?rep = "\<lparr>rep_name = name, rep_payoffs = map h sim, rep_price = option_price (map h sim) 0.05 0.75\<rparr>"
  have run: "price_function payoff name sim = Inr ?rep"
    using assms(1,3) by (rule price_function_rows)
  have "(\<forall>x \<in> set (rep_payoffs ?rep). 0 \<le> x) \<and> 0 \<le> rep_price ?rep"
    using run assms(2) by (rule price_function_nonneg)
  then show ?thesis using run by (auto simp: list_all_iff)
qed

lemma pricing_functions_total:
  assumes "\<forall>v \<in> set sim. v \<noteq> []"
  shows
    "\<exists>rep. lookBackCallPrice sim = Inr rep \<and> rep_name rep = ''Lookback Call Option'' \<and>
       length (rep_payoffs rep) = length sim \<and> list_all (\<lambda>x. 0 \<le> x) (rep_payoffs rep) \<and> 0 \<le> rep_price rep"
    "\<exists>rep. lookBackPutPrice sim = Inr rep \<and> rep_name rep = ''Lookback Put Option'' \<and>
       length (rep_payoffs rep) = length sim \<and> list_all (\<lambda>x. 0 \<le> x) (rep_payoffs rep) \<and> 0 \<le> rep_price rep"
    "\<exists>rep. europeanCallPrice sim = Inr rep \<and> rep_name rep = ''European Call Option'' \<and>
       length (rep_payoffs rep) = length sim \<and> list_all (\<lambda>x. 0 \<le> x) (rep_payoffs rep) \<and> 0 \<le> rep_price rep"
    "\<exists>rep. europeanPutPrice sim = Inr rep \<and> rep_name rep = ''European Put Option'' \<and>
       length (rep_payoffs rep) = length sim \<and> list_all (\<lambda>x. 0 \<le> x) (rep_payoffs rep) \<and> 0 \<le> rep_price rep"
  unfolding lookBackCallPrice_def lookBackPutPrice_def europeanCallPrice_def europeanPutPrice_def
proof -
  show "\<exists>rep. price_function lookback_call_payoff ''Lookback Call Option'' sim = Inr rep \<and>
     rep_name rep = ''Lookback Call Option'' \<and> length (rep_payoffs rep) = length sim \<and>
     list_all (\<lambda>x. 0 \<le> x) (rep_payoffs rep) \<and> 0 \<le> rep_price rep"
  proof (rule price_function_total [where h = "\<lambda>v. last v - Min (set v)"])
    show "\<And>v. v \<noteq> [] \<Longrightarrow> lookback_call_payoff v = Inr (last v - Min (set v))"
      by (rule lookback_call_payoff_Inr)
  qed (fact lookback_call_payoff_nonneg assms)+
  show "\<exists>rep. price_function lookback_put_payoff ''Lookback Put Option'' sim = Inr rep \<and>
     rep_name rep = ''Lookback Put Option'' \<and> length (rep_payoffs rep) = length sim \<and>
     list_all (\<lambda>x. 0 \<le> x) (rep_payoffs rep) \<and> 0 \<le> rep_price rep"
  proof (rule price_function_total [where h = "\<lambda>v. Max (set v) - last v"])
    show "\<And>v. v \<noteq> [] \<Longrightarrow> lookback_put_payoff v = Inr (Max (set v) - last v)"
      by (rule lookback_put_payoff_Inr)
  qed (fact lookback_put_payoff_nonneg assms)+
  show "\<exists>rep. price_function european_call_payoff ''European Call Option'' sim = Inr rep \<and>
     rep_name rep = ''European Call Option'' \<and> length (rep_payoffs rep) = length sim \<and>
     list_all (\<lambda>x. 0 \<le> x) (rep_payoffs rep) \<and> 0 \<le> rep_price rep"
  proof (rule price_function_total [where h = "\<lambda>v. max (last v - 110) 0"])
    show "\<And>v. v \<noteq> [] \<Longrightarrow> european_call_payoff v = Inr (max (last v - 110) 0)"
      by (rule european_call_payoff_Inr)
  qed (fact european_payoff_nonneg(1) assms)+
  show "\<exists>rep. price_function european_put_payoff ''European Put Option'' sim = Inr rep \<and>
     rep_name rep = ''European Put Option'' \<and> length (rep_payoffs rep) = length sim \<and>
     list_all (\<lambda>x. 0 \<le> x) (rep_payoffs rep) \<and> 0 \<le> rep_price rep"
  proof (rule price_function_total [where h = "\<lambda>v. max (90 - last v) 0"])
    show "\<And>v. v \<noteq> [] \<Longrightarrow> european_put_payoff v = Inr (max (90 - last v) 0)"
      by (rule european_put_payoff_Inr)
  qed (fact european_payoff_nonneg(2) assms)+
qed

section \<open>Properties of the pricing functions\<close>

text \<open>
  C11. On a sample whose rows are non-empty the lookback functions do not raise:
  the call's payoffs are \<open>S_T - min(path)\<close>, the put's \<open>max(path) - S_T\<close>,
  one per row in order, and the printed price is \<open>option_price\<close> of them.
\<close>

theorem lookback_prices_eq:
  assumes "\<forall>v \<in> set sim. v \<noteq> []"
  shows "lookBackCallPrice sim =
           Inr \<lparr>rep_name = ''Lookback Call Option'', rep_payoffs = map (\<lambda>v. last v - Min (set v)) sim,
                rep_price = option_price (map (\<lambda>v. last v - Min (set v)) sim) 0.05 0.75\<rparr> \<and>
         lookBackPutPrice sim =
           Inr \<lparr>rep_name = ''Lookback Put Option'', rep_payoffs = map (\<lambda>v. Max (set v) - last v) sim,
                rep_price = option_price (map (\<lambda>v. Max (set v) - last v) sim) 0.05 0.75\<rparr>"
  using assms
  by (simp add: lookBackCallPrice_def lookBackPutPrice_def price_function_rows
      lookback_call_payoff_Inr lookback_put_payoff_Inr)

theorem lookback_prices_eq_witness:
  "list_all (\<lambda>v. v \<noteq> []) [[1, 2], [3 :: real]] \<and>
   lookBackCallPrice [[1, 2], [3]] =
     Inr \<lparr>rep_name = ''Lookback Call Option'',
          rep_payoffs = map (\<lambda>v. last v - Min (set v)) [[1, 2], [3]],
          rep_price = option_price (map (\<lambda>v. last v - Min (set v)) [[1, 2], [3]]) 0.05 0.75\<rparr> \<and>
   lookBackPutPrice [[1, 2], [3]] =
     Inr \<lparr>rep_name = ''Lookback Put Option'',
          rep_payoffs = map (\<lambda>v. Max (set v) - last v) [[1, 2], [3]],
          rep_price = option_price (map (\<lambda>v. Max (set v) - last v) [[1, 2], [3]]) 0.05 0.75\<rparr>"
proof -
  have h: "\<forall>v \<in> set [[1, 2], [3 :: real]]. v \<noteq> []" by simp
  show ?thesis using lookback_prices_eq [OF h] by simp
qed

text \<open>
  C12. Lookback payoffs are non-negative by construction (the path minimum is at
  most, the maximum at least, the last price), and so is the printed price.
\<close>

theorem lookback_nonneg:
  assumes "lookBackCallPrice sim = Inr rc" and "lookBackPutPrice sim = Inr rp"
  shows "(\<forall>x \<in> set (rep_payoffs rc). 0 \<le> x) \<and> 0 \<le> rep_price rc \<and>
         (\<forall>x \<in> set (rep_payoffs rp). 0 \<le> x) \<and> 0 \<le> rep_price rp"
proof -
  have "(\<forall>x \<in> set (rep_payoffs rc). 0 \<le> x) \<and> 0 \<le> rep_price rc"
    using assms(1) unfolding lookBackCallPrice_def
    by (rule price_function_nonneg) (erule lookback_call_payoff_nonneg)
  moreover have "(\<forall>x \<in> set (rep_payoffs rp). 0 \<le> x) \<and> 0 \<le> rep_price rp"
    using assms(2) unfolding lookBackPutPrice_def
    by (rule price_function_nonneg) (erule lookback_put_payoff_nonneg)
  ultimately show ?thesis by blast
qed

theorem lookback_nonneg_witness:
  "lookBackCallPrice [[1, 2]] =
     Inr \<lparr>rep_name = ''Lookback Call Option'', rep_payoffs = [1],
          rep_price = option_price [1] 0.05 0.75\<rparr> \<and>
   lookBackPutPrice [[1, 2]] =
     Inr \<lparr>rep_name = ''Lookback Put Option'', rep_payoffs = [0],
          rep_price = option_price [0] 0.05 0.75\<rparr> \<and>
   list_all (\<lambda>x. 0 \<le> x) [1 :: real] \<and> 0 \<le> option_price [1] 0.05 0.75 \<and>
   list_all (\<lambda>x. 0 \<le> x) [0 :: real] \<and> 0 \<le> option_price [0] 0.05 0.75"
proof -
  have c: "lookBackCallPrice [[1, 2]] =
     Inr \<lparr>rep_name = ''Lookback Call Option'', rep_payoffs = [1],
          rep_price = option_price [1] 0.05 0.75\<rparr>"
    by (simp add: lookBackCallPrice_def price_function_eq lookback_call_payoff_Inr)
  have p: "lookBackPutPrice [[1, 2]] =
     Inr \<lparr>rep_name = ''Lookback Put Option'', rep_payoffs = [0],
          rep_price = option_price [0] 0.05 0.75\<rparr>"
    by (simp add: lookBackPutPrice_def price_function_eq lookback_put_payoff_Inr)
  show ?thesis using lookback_nonneg [OF c p] c p by simp
qed

text \<open>
  C13. On non-empty rows the European functions price the terminal value
  against the fixed strikes of the code, 110 for the call and 90 for the put,
  with the payoff floored at zero.
\<close>

theorem european_prices_eq:
  assumes "\<forall>v \<in> set sim. v \<noteq> []"
  shows "europeanCallPrice sim =
           Inr \<lparr>rep_name = ''European Call Option'', rep_payoffs = map (\<lambda>v. max (last v - 110) 0) sim,
                rep_price = option_price (map (\<lambda>v. max (last v - 110) 0) sim) 0.05 0.75\<rparr> \<and>
         europeanPutPrice sim =
           Inr \<lparr>rep_name = ''European Put Option'', rep_payoffs = map (\<lambda>v. max (90 - last v) 0) sim,
                rep_price = option_price (map (\<lambda>v. max (90 - last v) 0) sim) 0.05 0.75\<rparr>"
  using assms
  by (simp add: europeanCallPrice_def europeanPutPrice_def price_function_rows
      european_call_payoff_Inr european_put_payoff_Inr)

theorem european_prices_eq_witness:
  "list_all (\<lambda>v. v \<noteq> []) [[100, 120], [80 :: real]] \<and>
   europeanCallPrice [[100, 120], [80]] =
     Inr \<lparr>rep_name = ''European Call Option'',
          rep_payoffs = map (\<lambda>v. max (last v - 110) 0) [[100, 120], [80]],
          rep_price = option_price (map (\<lambda>v. max (last v - 110) 0) [[100, 120], [80]]) 0.05 0.75\<rparr> \<and>
   europeanPutPrice [[100, 120], [80]] =
     Inr \<lparr>rep_name = ''European Put Option'',
          rep_payoffs = map (\<lambda>v. max (90 - last v) 0) [[100, 120], [80]],
          rep_price = option_price (map (\<lambda>v. max (90 - last v) 0) [[100, 120], [80]]) 0.05 0.75\<rparr>"
proof -
  have h: "\<forall>v \<in> set [[100, 120], [80 :: real]]. v \<noteq> []" by simp
  show ?thesis using european_prices_eq [OF h] by simp
qed

text \<open>
  C14. A sample with an empty row makes every pricing function raise, with the
  exception of the first failing call in the code: ValueError from
  \<open>np.min\<close>/\<open>np.max\<close> for the lookback options, IndexError from
  \<open>vector[-1]\<close> for the European ones. No partial result is reported.
\<close>

theorem price_functions_empty_row:
  assumes "[] \<in> set sim"
  shows "lookBackCallPrice sim = Inl ValueError \<and> lookBackPutPrice sim = Inl ValueError \<and>
         europeanCallPrice sim = Inl IndexError \<and> europeanPutPrice sim = Inl IndexError"
proof -
  have lc: "map_result lookback_call_payoff sim = Inl ValueError"
    by (rule map_result_error [OF assms, where g = "\<lambda>v. last v - Min (set v)"])
       (rule payoff_cases, simp add: lookback_payoffs_empty)
  have lp: "map_result lookback_put_payoff sim = Inl ValueError"
    by (rule map_result_error [OF assms, where g = "\<lambda>v. Max (set v) - last v"])
       (rule payoff_cases, simp add: lookback_payoffs_empty)
  have ec: "map_result european_call_payoff sim = Inl IndexError"
    by (rule map_result_error [OF assms, where g = "\<lambda>v. max (last v - 110) 0"])
       (rule payoff_cases, simp add: european_payoffs_empty)
  have ep: "map_result european_put_payoff sim = Inl IndexError"
    by (rule map_result_error [OF assms, where g = "\<lambda>v. max (90 - last v) 0"])
       (rule payoff_cases, simp add: european_payoffs_empty)
  show ?thesis
    by (simp add: lookBackCallPrice_def lookBackPutPrice_def europeanCallPrice_def
        europeanPutPrice_def price_function_eq lc lp ec ep)
qed

theorem price_functions_empty_row_witness:
  "[] \<in> set [[1, 2], [] :: real list] \<and>
   lookBackCallPrice [[1, 2], []] = Inl ValueError \<and> lookBackPutPrice [[1, 2], []] = Inl ValueError \<and>
   europeanCallPrice [[1, 2], []] = Inl IndexError \<and> europeanPutPrice [[1, 2], []] = Inl IndexError"
proof -
  have h: "[] \<in> set [[1, 2], [] :: real list]" by simp
  show ?thesis using price_functions_empty_row [OF h] h by blast
qed

text \<open>
  C15. The index loop of the pricing functions (zero array, counter \<open>i\<close>,
  \<open>payoffs[i] = ...\<close>) computes the payoff of each row in order and stops
  at the first row whose payoff raises.
\<close>

theorem payoff_loop_eq_map_result:
  "payoff_loop f sim 0 (replicate (length sim) 0) = map_result f sim"
  using payoff_loop_map_result [of "replicate (length sim) 0" 0 sim f]
  by (cases "map_result f sim") simp_all

text \<open>
  C30. On the same sample, the lookback call and put payoffs of a path add up
  to its range, \<open>max(path) - min(path)\<close>.
\<close>

theorem lookback_call_put_range:
  assumes "lookBackCallPrice sim = Inr rc" and "lookBackPutPrice sim = Inr rp"
  shows "map2 (+) (rep_payoffs rc) (rep_payoffs rp) = map (\<lambda>v. Max (set v) - Min (set v)) sim"
proof -
  have c: "length (rep_payoffs rc) = length sim"
    "\<forall>i < length sim. lookback_call_payoff (sim ! i) = Inr (rep_payoffs rc ! i)"
    using price_function_Inr [OF assms(1) [unfolded lookBackCallPrice_def]]
    by (simp_all add: map_result_Inr_iff)
  have p: "length (rep_payoffs rp) = length sim"
    "\<forall>i < length sim. lookback_put_payoff (sim ! i) = Inr (rep_payoffs rp ! i)"
    using price_function_Inr [OF assms(2) [unfolded lookBackPutPrice_def]]
    by (simp_all add: map_result_Inr_iff)
  show ?thesis
  proof (rule nth_equalityI)
    show "length (map2 (+) (rep_payoffs rc) (rep_payoffs rp)) =
            length (map (\<lambda>v. Max (set v) - Min (set v)) sim)"
      using c p by simp
  next
    fix i
    assume "i < length (map2 (+) (rep_payoffs rc) (rep_payoffs rp))"
    then have i: "i < length sim" using c p by simp
    show "map2 (+) (rep_payoffs rc) (rep_payoffs rp) ! i = map (\<lambda>v. Max (set v) - Min (set v)) sim ! i"
      using lookback_payoffs_InrD(1) [OF c(2) [rule_format, OF i]]
        lookback_payoffs_InrD(2) [OF p(2) [rule_format, OF i]] i c p
      by simp
  qed
qed

theorem lookback_call_put_range_witness:
  "lookBackCallPrice [[1, 3, 2]] =
     Inr \<lparr>rep_name = ''Lookback Call Option'', rep_payoffs = [1], rep_price = option_price [1] 0.05 0.75\<rparr> \<and>
   lookBackPutPrice [[1, 3, 2]] =
     Inr \<lparr>rep_name = ''Lookback Put Option'', rep_payoffs = [1], rep_price = option_price [1] 0.05 0.75\<rparr> \<and>
   map2 (+) [1 :: real] [1] = map (\<lambda>v. Max (set v) - Min (set v)) [[1, 3, 2 :: real]]"
proof -
  have c: "lookBackCallPrice [[1, 3, 2]] =
     Inr \<lparr>rep_name = ''Lookback Call Option'', rep_payoffs = [1], rep_price = option_price [1] 0.05 0.75\<rparr>"
    by (simp add: lookBackCallPrice_def price_function_eq lookback_call_payoff_Inr)
  have p: "lookBackPutPrice [[1, 3, 2]] =
     Inr \<lparr>rep_name = ''Lookback Put Option'', rep_payoffs = [1], rep_price = option_price [1] 0.05 0.75\<rparr>"
    by (simp add: lookBackPutPrice_def price_function_eq lookback_put_payoff_Inr)
  show ?thesis using lookback_call_put_range [OF c p] c p by simp
qed

end
