(* ===== verification/AsianOptions.thy ===== *)
theory AsianOptions
  imports PathGenerator Pricer
begin

text \<open>
  The script \<open>src/AsianOptions.py\<close> (lines 4--40, 55, 59): parameters as
  module constants (the record \<open>asian_config\<close>, defaults
  \<open>asian_config_defaults\<close>), a reseeded random state, an \<open>M \<times> N\<close> matrix of
  normal draws, the price matrix \<open>S\<close> of \<open>M\<close> paths of \<open>N + 1\<close> prices filled
  column by column (\<open>asian_loop\<close>), the row averages without the last price,
  the average-strike call and put payoffs, and the discounted mean prices. The
  histograms and prints (lines 43--64) are in theory \<open>Reporting\<close>, which
  composes them with this computation. \<open>dt = T / N\<close> raises ZeroDivisionError for \<open>N = 0\<close>, and numpy raises
  ValueError for a negative dimension; \<open>np.mean\<close> of no payoffs is \<open>nan\<close>
  (\<open>None\<close>). The loop is proved to compute, row by row, the recurrence
  \<open>gbm_path\<close> of the path generator with \<open>dt = T / N\<close>.
\<close>

record asian_config =
  ao_S0 :: real
  ao_r :: real
  ao_q :: real
  ao_sigma :: real
  ao_T :: real
  ao_N :: int
  ao_M :: int

definition asian_config_defaults :: asian_config where
  "asian_config_defaults =
     \<lparr>ao_S0 = 100, ao_r = 0.05, ao_q = 0.02, ao_sigma = 0.4, ao_T = 0.75, ao_N = 250, ao_M = 10000\<rparr>"

text \<open>
  \<open>S[:, t] = S[:, t - 1] * np.exp((mu - 0.5 * sigma**2) * dt + sigma * np.sqrt(dt) * z[:, t - 1])\<close>,
  on one row and on the whole matrix.
\<close>

definition asian_row_step :: "real \<Rightarrow> real \<Rightarrow> real \<Rightarrow> nat \<Rightarrow> vector \<Rightarrow> vector \<Rightarrow> vector" where
  "asian_row_step mu sigma dt t zrow row =
     row[t := row ! (t - 1) * exp ((mu - 0.5 * sigma ^ 2) * dt + sigma * sqrt dt * zrow ! (t - 1))]"

definition asian_column_step :: "real \<Rightarrow> real \<Rightarrow> real \<Rightarrow> matrix \<Rightarrow> nat \<Rightarrow> matrix \<Rightarrow> matrix" where
  "asian_column_step mu sigma dt z t S = map2 (\<lambda>row zrow. asian_row_step mu sigma dt t zrow row) S z"

fun asian_loop :: "real \<Rightarrow> real \<Rightarrow> real \<Rightarrow> matrix \<Rightarrow> nat list \<Rightarrow> matrix \<Rightarrow> matrix" where
  "asian_loop mu sigma dt z [] S = S"
| "asian_loop mu sigma dt z (t # ts) S = asian_loop mu sigma dt z ts (asian_column_step mu sigma dt z t S)"

text \<open>\<open>S_avg = np.mean(S[:, :-1], axis=1)\<close> and the two payoffs.\<close>

definition asian_averages :: "matrix \<Rightarrow> vector" where
  "asian_averages S = map (\<lambda>row. sum_list (butlast row) / real (length (butlast row))) S"

definition asian_payoff_call :: "matrix \<Rightarrow> vector \<Rightarrow> vector" where
  "asian_payoff_call S S_avg = map2 (\<lambda>row a. max (last row - a) 0) S S_avg"

definition asian_payoff_put :: "matrix \<Rightarrow> vector \<Rightarrow> vector" where
  "asian_payoff_put S S_avg = map2 (\<lambda>row a. max (a - last row) 0) S S_avg"

record asian_result =
  ar_S :: matrix
  ar_payoff_call :: vector
  ar_payoff_put :: vector
  ar_price_call :: "real option"
  ar_price_put :: "real option"
  ar_average_call :: "real option"
  ar_average_put :: "real option"

text \<open>Lines 29--40, 55 and 59, from the finished price matrix.\<close>

definition asian_evaluate :: "real \<Rightarrow> matrix \<Rightarrow> asian_result" where
  "asian_evaluate discount_factor S =
     (let S_avg = asian_averages S;
          payoff_call = asian_payoff_call S S_avg;
          payoff_put = asian_payoff_put S S_avg
      in \<lparr>ar_S = S, ar_payoff_call = payoff_call, ar_payoff_put = payoff_put,
          ar_price_call = discounted_mean discount_factor payoff_call,
          ar_price_put = discounted_mean discount_factor payoff_put,
          ar_average_call = np_mean payoff_call, ar_average_put = np_mean payoff_put\<rparr>)"

text \<open>
  The script. \<open>mt\<close> is the stream of normal draws that a seed determines (the
  unmodelled Mersenne Twister); the state before the script is irrelevant after
  \<open>np.random.seed(42)\<close>.
\<close>

definition asian_options :: "(nat \<Rightarrow> nat \<Rightarrow> real) \<Rightarrow> asian_config \<Rightarrow> rng \<Rightarrow> (asian_result \<times> rng) result" where
  "asian_options mt cfg g =
     (if ao_N cfg = 0 then Inl ZeroDivisionError
      else
        let dt = ao_T cfg / real_of_int (ao_N cfg);
            mu = ao_r cfg - ao_q cfg;
            discount_factor = exp (- ao_r cfg * ao_T cfg);
            g1 = np_seed mt 42 g
        in rbind (np_normal 0 1 (ao_M cfg) (ao_N cfg) g1) (\<lambda>(z, g2).
           rbind (np_zeros2 (ao_M cfg) (ao_N cfg + 1)) (\<lambda>S.
           let S = map (\<lambda>row. row[0 := ao_S0 cfg]) S;
               S = asian_loop mu (ao_sigma cfg) dt z [1..<nat (ao_N cfg) + 1] S
           in Inr (asian_evaluate discount_factor S, g2))))"

text \<open>The path-generator parameters that the script's constants amount to.\<close>

definition asian_gbm_params :: "asian_config \<Rightarrow> gbm_params" where
  "asian_gbm_params cfg =
     \<lparr>sp_s_0 = ao_S0 cfg, sp_dt = ao_T cfg / real_of_int (ao_N cfg), sp_r = ao_r cfg,
      sp_q = ao_q cfg, sp_vol = ao_sigma cfg, sp_period = ao_N cfg\<rparr>"

text \<open>
  The reference side: the loop seen from one row, and the rows the script's
  matrix is proved to hold (the start price followed by the recurrence over the
  row's window of draws).
\<close>

fun asian_row_loop :: "real \<Rightarrow> real \<Rightarrow> real \<Rightarrow> vector \<Rightarrow> nat list \<Rightarrow> vector \<Rightarrow> vector" where
  "asian_row_loop mu sigma dt zrow [] row = row"
| "asian_row_loop mu sigma dt zrow (t # ts) row =
     asian_row_loop mu sigma dt zrow ts (asian_row_step mu sigma dt t zrow row)"

definition asian_paths :: "(nat \<Rightarrow> nat \<Rightarrow> real) \<Rightarrow> asian_config \<Rightarrow> matrix" where
  "asian_paths mt cfg =
     map (\<lambda>m. ao_S0 cfg # gbm_path (asian_gbm_params cfg) (ao_S0 cfg)
                 (draws \<lparr>rng_stream = mt 42, rng_pos = m * nat (ao_N cfg)\<rparr> (nat (ao_N cfg))))
         [0..<nat (ao_M cfg)]"

section \<open>The column loop computes the recurrence row by row\<close>

lemma map2_map2_same:
  "length S = length z \<Longrightarrow>
   map2 F (map2 G S z) z = map2 (\<lambda>row zrow. F (G row zrow) zrow) S z"
  by (induction S z rule: list_induct2) simp_all

lemma asian_loop_rows:
  "length S = length z \<Longrightarrow>
   asian_loop mu sigma dt z ts S = map2 (\<lambda>row zrow. asian_row_loop mu sigma dt zrow ts row) S z"
proof (induction ts arbitrary: S)
  case Nil
  then show ?case by (induction S z rule: list_induct2) simp_all
next
  case (Cons t ts)
  have "length (asian_column_step mu sigma dt z t S) = length z"
    using Cons.prems by (simp add: asian_column_step_def)
  then show ?case
    using Cons by (simp add: asian_column_step_def map2_map2_same)
qed

lemma asian_row_step_gbm:
  assumes "sp_r p - sp_q p = mu" "sp_vol p = sigma" "sp_dt p = dt"
  shows "asian_row_step mu sigma dt t zrow row =
           row[t := row ! (t - 1) * gbm_factor p (zrow ! (t - 1))]"
  using assms by (simp add: asian_row_step_def gbm_factor_def gbm_exponent_def)

lemma asian_row_loop_gbm_path:
  assumes p: "sp_r p - sp_q p = mu" "sp_vol p = sigma" "sp_dt p = dt"
    and "length zrow = n" "length row = Suc n" "1 \<le> k" "k \<le> Suc n"
  shows "asian_row_loop mu sigma dt zrow [k..<Suc n] row =
           take k row @ gbm_path p (row ! (k - 1)) (drop (k - 1) zrow)"
  using assms(4-)
proof (induction "Suc n - k" arbitrary: k row)
  case 0
  then show ?case by simp
next
  case (Suc d)
  then have k: "k < Suc n" by simp
  let ?x' = "row ! (k - 1) * gbm_factor p (zrow ! (k - 1))"
  have "asian_row_loop mu sigma dt zrow [k..<Suc n] row =
          asian_row_loop mu sigma dt zrow [Suc k..<Suc n] (row[k := ?x'])"
    using k by (simp add: upt_conv_Cons asian_row_step_gbm [OF p] del: upt_Suc)
  also have "\<dots> = take (Suc k) (row[k := ?x']) @
                      gbm_path p (row[k := ?x'] ! (Suc k - 1)) (drop (Suc k - 1) zrow)"
  proof (rule Suc.hyps(1))
    show "d = Suc n - Suc k" using Suc.hyps(2) by simp
    show "length zrow = n" using Suc.prems(1) .
    show "length (row[k := ?x']) = Suc n" using Suc.prems(2) by simp
    show "1 \<le> Suc k" by simp
    show "Suc k \<le> Suc n" using k by simp
  qed
  also have "\<dots> = take k row @ gbm_path p (row ! (k - 1)) (drop (k - 1) zrow)"
  proof -
    have "k - 1 < length zrow" using Suc.prems k by simp
    then have "drop (k - 1) zrow = zrow ! (k - 1) # drop (Suc (k - 1)) zrow"
      by (rule Cons_nth_drop_Suc [symmetric])
    moreover have "Suc (k - 1) = k" using Suc.prems by simp
    ultimately have "drop (k - 1) zrow = zrow ! (k - 1) # drop k zrow" by simp
    then show ?thesis
      using Suc.prems k by (simp add: take_Suc_conv_app_nth Let_def)
  qed
  finally show ?case .
qed

lemma asian_loop_start:
  assumes p: "sp_r p - sp_q p = mu" "sp_vol p = sigma" "sp_dt p = dt"
    and "\<forall>zrow \<in> set z. length zrow = n"
  shows "asian_loop mu sigma dt z [1..<n + 1]
           (map (\<lambda>row. row[0 := s0]) (replicate (length z) (replicate (n + 1) 0))) =
         map (\<lambda>zrow. s0 # gbm_path p s0 zrow) z"
proof -
  have row: "asian_row_loop mu sigma dt zrow [1..<Suc n] ((replicate (n + 1) 0)[0 := s0]) =
               s0 # gbm_path p s0 zrow" if "length zrow = n" for zrow
    using asian_row_loop_gbm_path [OF p that, of "(replicate (n + 1) 0)[0 := s0]" 1] by simp
  have "asian_loop mu sigma dt z [1..<n + 1]
          (map (\<lambda>row. row[0 := s0]) (replicate (length z) (replicate (n + 1) 0))) =
        map2 (\<lambda>row zrow. asian_row_loop mu sigma dt zrow [1..<Suc n] row)
          (replicate (length z) ((replicate (n + 1) 0)[0 := s0])) z"
    by (simp add: asian_loop_rows)
  also have "\<dots> = map (\<lambda>zrow. s0 # gbm_path p s0 zrow) z"
    using assms(4) row by (induction z) simp_all
  finally show ?thesis .
qed

lemma asian_options_run:
  assumes "0 < ao_N cfg" "0 \<le> ao_M cfg"
  shows "asian_options mt cfg g =
           Inr (asian_evaluate (exp (- ao_r cfg * ao_T cfg)) (asian_paths mt cfg),
                \<lparr>rng_stream = mt 42, rng_pos = nat (ao_M cfg) * nat (ao_N cfg)\<rparr>)"
proof -
  let ?g1 = "\<lparr>rng_stream = mt 42, rng_pos = 0\<rparr>"
  let ?z = "map (\<lambda>i. draws (advance ?g1 (i * nat (ao_N cfg))) (nat (ao_N cfg))) [0..<nat (ao_M cfg)]"
  let ?p = "asian_gbm_params cfg"
  have start: "asian_loop (ao_r cfg - ao_q cfg) (ao_sigma cfg) (ao_T cfg / real_of_int (ao_N cfg)) ?z
                 [1..<nat (ao_N cfg) + 1]
                 (map (\<lambda>row. row[0 := ao_S0 cfg]) (replicate (length ?z) (replicate (nat (ao_N cfg) + 1) 0))) =
               map (\<lambda>zrow. ao_S0 cfg # gbm_path ?p (ao_S0 cfg) zrow) ?z"
    by (rule asian_loop_start) (simp_all add: asian_gbm_params_def)
  have paths: "map (\<lambda>zrow. ao_S0 cfg # gbm_path ?p (ao_S0 cfg) zrow) ?z = asian_paths mt cfg"
    by (simp add: asian_paths_def advance_def)
  have n1: "nat (ao_N cfg + 1) = nat (ao_N cfg) + 1" using assms by simp
  show ?thesis
    using assms start paths
    by (simp add: asian_options_def np_seed_def np_normal_std np_zeros2_def Let_def n1 advance_def)
qed

lemma asian_options_errors:
  "ao_N cfg = 0 \<Longrightarrow> asian_options mt cfg g = Inl ZeroDivisionError"
  "ao_N cfg \<noteq> 0 \<Longrightarrow> ao_N cfg < 0 \<or> ao_M cfg < 0 \<Longrightarrow> asian_options mt cfg g = Inl ValueError"
  by (auto simp: asian_options_def np_normal_def Let_def)

lemma map2_max_parity:
  "length (S :: matrix) = length (A :: vector) \<Longrightarrow>
   map2 (-) (map2 (\<lambda>row a. max (last row - a) 0) S A) (map2 (\<lambda>row a. max (a - last row) 0) S A) =
   map2 (\<lambda>row a. last row - a) S A"
  by (induction S A rule: list_induct2) auto

lemma ar_S_asian_evaluate [simp]: "ar_S (asian_evaluate d S) = S"
  by (simp add: asian_evaluate_def Let_def)

lemma length_asian_paths [simp]: "length (asian_paths mt cfg) = nat (ao_M cfg)"
  by (simp add: asian_paths_def)

lemma nth_asian_paths:
  "m < nat (ao_M cfg) \<Longrightarrow>
   asian_paths mt cfg ! m =
     ao_S0 cfg # gbm_path (asian_gbm_params cfg) (ao_S0 cfg)
       (draws \<lparr>rng_stream = mt 42, rng_pos = m * nat (ao_N cfg)\<rparr> (nat (ao_N cfg)))"
  by (simp add: asian_paths_def)

lemma asian_options_Inr:
  "0 < ao_N cfg \<Longrightarrow> 0 \<le> ao_M cfg \<Longrightarrow> asian_options mt cfg g = Inr (res, g') \<Longrightarrow>
   res = asian_evaluate (exp (- ao_r cfg * ao_T cfg)) (asian_paths mt cfg)"
  by (simp add: asian_options_run)

lemma asian_options_dims:
  "asian_options mt cfg g = Inr (res, g') \<Longrightarrow> 0 < ao_N cfg \<and> 0 \<le> ao_M cfg"
proof -
  assume r: "asian_options mt cfg g = Inr (res, g')"
  have n: "ao_N cfg \<noteq> 0" using r asian_options_errors(1) by force
  have "\<not> (ao_N cfg < 0 \<or> ao_M cfg < 0)" using r asian_options_errors(2)[OF n] by force
  with n show ?thesis by auto
qed

lemma length_asian_payoffs [simp]:
  "length (asian_averages S) = length S"
  "length (asian_payoff_call S (asian_averages S)) = length S"
  "length (asian_payoff_put S (asian_averages S)) = length S"
  by (simp_all add: asian_payoff_call_def asian_payoff_put_def asian_averages_def)

lemma asian_result_fields:
  "ar_price_call (asian_evaluate d S) = discounted_mean d (asian_payoff_call S (asian_averages S))"
  "ar_price_put (asian_evaluate d S) = discounted_mean d (asian_payoff_put S (asian_averages S))"
  "ar_payoff_call (asian_evaluate d S) = asian_payoff_call S (asian_averages S)"
  "ar_payoff_put (asian_evaluate d S) = asian_payoff_put S (asian_averages S)"
  "ar_average_call (asian_evaluate d S) = np_mean (asian_payoff_call S (asian_averages S))"
  "ar_average_put (asian_evaluate d S) = np_mean (asian_payoff_put S (asian_averages S))"
  by (simp_all add: asian_evaluate_def Let_def)

lemma length_asian_path_rows:
  "row \<in> set (asian_paths mt cfg) \<Longrightarrow> length row = nat (ao_N cfg) + 1"
  by (auto simp: asian_paths_def)

section \<open>Properties of the script\<close>

text \<open>
  C16. The script raises ZeroDivisionError for \<open>N = 0\<close> and ValueError for a
  negative dimension. Otherwise its price matrix, filled column by column, holds
  in row \<open>m\<close> the start price followed by the geometric-Brownian-motion
  recurrence (\<open>dt = T / N\<close>) over the \<open>m\<close>-th window of \<open>N\<close> draws of the
  seeded stream; payoffs and prices are computed from that matrix, and the random
  state ends \<open>M * N\<close> draws after the seed.
\<close>

theorem asian_options_eq:
  "asian_options mt cfg g =
     (if ao_N cfg = 0 then Inl ZeroDivisionError
      else if ao_N cfg < 0 \<or> ao_M cfg < 0 then Inl ValueError
      else Inr (asian_evaluate (exp (- ao_r cfg * ao_T cfg)) (asian_paths mt cfg),
                \<lparr>rng_stream = mt 42, rng_pos = nat (ao_M cfg) * nat (ao_N cfg)\<rparr>))"
  using asian_options_errors [of cfg mt g] asian_options_run [of cfg mt g] by auto

text \<open>
  C17. Both average-strike payoffs are floored at zero, and call minus put is
  the terminal price minus the path average, row by row.
\<close>

theorem asian_payoffs_floor_parity:
  "list_all (\<lambda>x. 0 \<le> x) (asian_payoff_call S (asian_averages S)) \<and>
   list_all (\<lambda>x. 0 \<le> x) (asian_payoff_put S (asian_averages S)) \<and>
   map2 (-) (asian_payoff_call S (asian_averages S)) (asian_payoff_put S (asian_averages S)) =
     map2 (\<lambda>row a. last row - a) S (asian_averages S)"
  by (simp add: asian_payoff_call_def asian_payoff_put_def list_all_iff map2_max_parity
      asian_averages_def set_zip)

text \<open>
  C20. The average strike of path \<open>m\<close> is the mean of its first \<open>N\<close> prices:
  the initial price \<open>S0\<close> and every simulated price but the last, so the
  settlement price \<open>S_T\<close> is excluded from its own strike.
\<close>

theorem asian_average_excludes_last:
  assumes "0 < ao_N cfg" and "m < nat (ao_M cfg)"
  shows "asian_averages (asian_paths mt cfg) ! m =
           (ao_S0 cfg + sum_list (butlast (tl (asian_paths mt cfg ! m)))) / real_of_int (ao_N cfg)"
proof -
  let ?path = "gbm_path (asian_gbm_params cfg) (ao_S0 cfg)
                 (draws \<lparr>rng_stream = mt 42, rng_pos = m * nat (ao_N cfg)\<rparr> (nat (ao_N cfg)))"
  have row: "asian_paths mt cfg ! m = ao_S0 cfg # ?path"
    using assms(2) by (rule nth_asian_paths)
  have ne: "?path \<noteq> []" and len: "length ?path = nat (ao_N cfg)"
    using assms(1) by (simp_all flip: length_0_conv)
  have "real (length (butlast (ao_S0 cfg # ?path))) = real_of_int (ao_N cfg)"
    using ne len assms(1) by simp
  then show ?thesis
    using row ne assms(2) by (simp add: asian_averages_def)
qed

theorem asian_average_excludes_last_witness:
  "0 < ao_N (asian_config_defaults\<lparr>ao_N := 2, ao_M := 1\<rparr>) \<and>
   0 < nat (ao_M (asian_config_defaults\<lparr>ao_N := 2, ao_M := 1\<rparr>)) \<and>
   asian_averages (asian_paths (\<lambda>_ _. 0) (asian_config_defaults\<lparr>ao_N := 2, ao_M := 1\<rparr>)) ! 0 =
     (100 + sum_list (butlast (tl (asian_paths (\<lambda>_ _. 0) (asian_config_defaults\<lparr>ao_N := 2, ao_M := 1\<rparr>) ! 0))))
       / 2"
proof -
  let ?cfg = "asian_config_defaults\<lparr>ao_N := 2, ao_M := 1\<rparr>"
  have h: "0 < ao_N ?cfg" "0 < nat (ao_M ?cfg)" by (simp_all add: asian_config_defaults_def)
  show ?thesis using asian_average_excludes_last [OF h, of "\<lambda>_ _. 0"] h
    by (simp add: asian_config_defaults_def)
qed

text \<open>
  C25. Every run that returns has the shapes the script declares: \<open>N > 0\<close>,
  the price matrix has \<open>M\<close> rows of \<open>N + 1\<close> prices (\<open>np.zeros((M, N + 1))\<close>),
  and there is one call and one put payoff per path.
\<close>

theorem asian_result_shape:
  assumes "asian_options mt cfg g = Inr (res, g')"
  shows "0 < ao_N cfg \<and> length (ar_S res) = nat (ao_M cfg) \<and>
         list_all (\<lambda>row. length row = nat (ao_N cfg) + 1) (ar_S res) \<and>
         length (ar_payoff_call res) = nat (ao_M cfg) \<and> length (ar_payoff_put res) = nat (ao_M cfg)"
proof -
  have d: "0 < ao_N cfg" "0 \<le> ao_M cfg" using asian_options_dims [OF assms] by auto
  have "res = asian_evaluate (exp (- ao_r cfg * ao_T cfg)) (asian_paths mt cfg)"
    using asian_options_Inr [OF d assms] .
  then show ?thesis
    using d length_asian_path_rows[of _ mt cfg] by (simp add: asian_result_fields list_all_iff)
qed

theorem asian_result_shape_witness:
  "asian_options (\<lambda>_ _. 0) asian_config_defaults \<lparr>rng_stream = (\<lambda>_. 0), rng_pos = 0\<rparr> =
     Inr (asian_evaluate (exp (- 0.05 * 0.75)) (asian_paths (\<lambda>_ _. 0) asian_config_defaults),
          \<lparr>rng_stream = (\<lambda>_. 0), rng_pos = 2500000\<rparr>) \<and>
   length (ar_S (asian_evaluate (exp (- 0.05 * 0.75)) (asian_paths (\<lambda>_ _. 0) asian_config_defaults))) = 10000"
proof -
  have h: "0 < ao_N asian_config_defaults" "0 \<le> ao_M asian_config_defaults"
    by (simp_all add: asian_config_defaults_def)
  have run: "asian_options (\<lambda>_ _. 0) asian_config_defaults \<lparr>rng_stream = (\<lambda>_. 0), rng_pos = 0\<rparr> =
     Inr (asian_evaluate (exp (- 0.05 * 0.75)) (asian_paths (\<lambda>_ _. 0) asian_config_defaults),
          \<lparr>rng_stream = (\<lambda>_. 0), rng_pos = 2500000\<rparr>)"
    using asian_options_run [OF h] by (simp add: asian_config_defaults_def)
  show ?thesis using asian_result_shape [OF run] run by (simp add: asian_config_defaults_def)
qed

end
