(* ===== verification/PyFormat.thy ===== *)
theory PyFormat
  imports Prelude
begin

text \<open>
  The two ways the scripts turn a float into text. \<open>str(x)\<close> (Methodology.py
  lines 56, 70, 84, 98) prints the shortest decimal that reads back as \<open>x\<close>; it
  is applied only to results of \<open>option_price\<close>, which are integers divided by
  10000, and for those (below \<open>10\<^sup>1\<^sup>6\<close>) it is the exact four-place decimal with
  its trailing zeros dropped, keeping one digit after the point (\<open>5.0\<close>,
  \<open>0.0001\<close>, \<open>12.3456\<close>); theory \<open>PyFloat\<close> proves that this is CPython's
  shortest round-trip \<open>repr\<close> of the double for values below \<open>10\<^sup>1\<^sup>1\<close>. \<open>f'{x:.2f}'\<close> (Methodology.py line 37, AsianOptions.py
  lines 46, 63, 64) rounds \<open>|x|\<close> to two places, ties to even, prints exactly two
  places, keeps the sign of \<open>x\<close> (so \<open>-0.001\<close> prints \<open>-0.00\<close>) and prints
  \<open>nan\<close> for numpy's nan. A decimal reader, \<open>read_decimal\<close>, is the inverse the
  round-trip lemmas use; it is not part of the program.
\<close>

section \<open>Digits\<close>

definition digit_char :: "nat \<Rightarrow> char" where
  "digit_char d = char_of (48 + d)"

fun nat_str :: "nat \<Rightarrow> string" where
  "nat_str n = (if n < 10 then [digit_char n] else nat_str (n div 10) @ [digit_char (n mod 10)])"

declare nat_str.simps [simp del]

text \<open>The \<open>d\<close> fraction digits of \<open>f < 10\<^sup>d\<close>, zero-padded on the left.\<close>

definition frac_str :: "nat \<Rightarrow> nat \<Rightarrow> string" where
  "frac_str d f = (let s = nat_str f in replicate (d - length s) (CHR ''0'') @ s)"

text \<open>Drop trailing zeros of a \<open>d\<close>-digit fraction \<open>f\<close>, keeping at least one digit.\<close>

fun trim10 :: "nat \<Rightarrow> nat \<Rightarrow> nat \<times> nat" where
  "trim10 f d = (if 1 < d \<and> f mod 10 = 0 then trim10 (f div 10) (d - 1) else (f, d))"

declare trim10.simps [simp del]

section \<open>Python's float formatting\<close>

text \<open>\<open>str(x)\<close> for a float with at most four decimal places.\<close>

definition py_str :: "real \<Rightarrow> string" where
  "py_str x =
     (let k = py_int (x * 10000); n = nat \<bar>k\<bar>; (f, d) = trim10 (n mod 10000) 4
      in (if k < 0 then ''-'' else []) @ nat_str (n div 10000) @ CHR ''.'' # frac_str d f)"

text \<open>Round half to even, the rounding of Python's fixed-point format.\<close>

definition round_half_even :: "real \<Rightarrow> int" where
  "round_half_even x =
     (let k = \<lfloor>x\<rfloor>; f = x - real_of_int k
      in if f < 1/2 then k else if 1/2 < f then k + 1 else if even k then k else k + 1)"

text \<open>\<open>f'{x:.2f}'\<close>; \<open>None\<close> is numpy's nan.\<close>

definition py_format_2f :: "real option \<Rightarrow> string" where
  "py_format_2f x =
     (case x of None \<Rightarrow> ''nan''
      | Some v \<Rightarrow> (let n = nat (round_half_even (\<bar>v\<bar> * 100))
                 in (if v < 0 then ''-'' else []) @ nat_str (n div 100) @ CHR ''.'' # frac_str 2 (n mod 100)))"

section \<open>Reading a decimal back\<close>

definition is_digit :: "char \<Rightarrow> bool" where
  "is_digit c = ((48::nat) \<le> of_char c \<and> of_char c \<le> (57 :: nat))"

fun read_digits :: "string \<Rightarrow> nat \<Rightarrow> nat option" where
  "read_digits [] acc = Some acc"
| "read_digits (c # cs) acc =
     (if is_digit c then read_digits cs (10 * acc + (of_char c - 48)) else None)"

definition read_unsigned :: "string \<Rightarrow> real option" where
  "read_unsigned s =
     (let ip = takeWhile (\<lambda>c. c \<noteq> CHR ''.'') s; fp = drop (Suc (length ip)) s
      in if ip = [] \<or> length ip = length s \<or> fp = [] then None
         else case (read_digits ip 0, read_digits fp 0) of
                (Some a, Some b) \<Rightarrow> Some (real a + real b / 10 ^ length fp)
              | _ \<Rightarrow> None)"

definition read_decimal :: "string \<Rightarrow> real option" where
  "read_decimal s =
     (if s \<noteq> [] \<and> hd s = CHR ''-'' then map_option uminus (read_unsigned (tl s))
      else read_unsigned s)"

section \<open>Digits read back\<close>

lemma digit_char_digit [simp]: "d < 10 \<Longrightarrow> is_digit (digit_char d)"
  by (simp add: digit_char_def is_digit_def)

lemma of_char_digit_char [simp]: "d < 10 \<Longrightarrow> of_char (digit_char d) - 48 = d"
  by (simp add: digit_char_def)

lemma digit_chars: "map digit_char [0..<10] = ''0123456789''"
  by (simp add: digit_char_def char_of_def bit_iff_odd upt_rec)

lemma digit_char_nth: "d < 10 \<Longrightarrow> digit_char d = ''0123456789'' ! d"
proof -
  assume "d < 10"
  then have "map digit_char [0..<10] ! d = digit_char d" by simp
  then show ?thesis by (simp only: digit_chars)
qed

lemma nat_str_digits: "c \<in> set (nat_str n) \<Longrightarrow> is_digit c"
proof (induction n rule: nat_str.induct)
  case (1 n)
  then show ?case
    by (cases "n < 10") (auto simp: nat_str.simps[of n])
qed

lemma nat_str_not_Nil [simp]: "nat_str n \<noteq> []"
  by (simp add: nat_str.simps[of n])

lemma is_digit_not_dot [simp]: "is_digit c \<Longrightarrow> c \<noteq> CHR ''.''"
  by (auto simp: is_digit_def)

lemma is_digit_not_minus [simp]: "is_digit c \<Longrightarrow> c \<noteq> CHR ''-''"
  by (auto simp: is_digit_def)

lemma read_digits_append:
  "read_digits (xs @ ys) acc = (case read_digits xs acc of None \<Rightarrow> None | Some a \<Rightarrow> read_digits ys a)"
  by (induction xs acc rule: read_digits.induct) auto

lemma read_digits_nat_str:
  "read_digits (nat_str n) acc = Some (acc * 10 ^ length (nat_str n) + n)"
proof (induction n arbitrary: acc rule: nat_str.induct)
  case (1 n)
  show ?case
  proof (cases "n < 10")
    case True
    then show ?thesis by (simp add: nat_str.simps[of n])
  next
    case False
    then have "read_digits (nat_str n) acc =
        Some (10 * (acc * 10 ^ length (nat_str (n div 10)) + n div 10) + n mod 10)"
      using "1.IH" by (simp add: nat_str.simps[of n] read_digits_append)
    also have "\<dots> = Some (acc * 10 ^ length (nat_str n) + n)"
      using False by (simp add: nat_str.simps[of n] algebra_simps)
    finally show ?thesis .
  qed
qed

lemma read_digits_zeros: "read_digits (replicate k (CHR ''0'') @ s) 0 = read_digits s 0"
  by (induction k) (simp_all add: is_digit_def)

lemma length_nat_str_le: "n < 10 ^ k \<Longrightarrow> 0 < k \<Longrightarrow> length (nat_str n) \<le> k"
proof (induction n arbitrary: k rule: nat_str.induct)
  case (1 n)
  show ?case
  proof (cases "n < 10")
    case True
    then show ?thesis using "1.prems" by (simp add: nat_str.simps[of n])
  next
    case False
    then have "1 < k"
      using "1.prems" by (metis One_nat_def less_one not_less_iff_gr_or_eq power_one_right
          order.strict_trans2 power_increasing_iff nat_le_linear)
    moreover have "n div 10 < 10 ^ (k - 1)"
      using "1.prems" \<open>1 < k\<close> by (simp add: less_mult_imp_div_less power_eq_if)
    ultimately have "length (nat_str (n div 10)) \<le> k - 1"
      using "1.IH" False by simp
    then show ?thesis using False \<open>1 < k\<close> by (simp add: nat_str.simps[of n])
  qed
qed

section \<open>Formatted numbers read back\<close>

lemma trim10_value:
  "trim10 f d = (f', d') \<Longrightarrow> 0 < d \<Longrightarrow>
     0 < d' \<and> real f' / 10 ^ d' = real f / 10 ^ d \<and> (f < 10 ^ d \<longrightarrow> f' < 10 ^ d')"
proof (induction f d rule: trim10.induct)
  case (1 f d)
  show ?case
  proof (cases "1 < d \<and> f mod 10 = 0")
    case True
    then have step: "trim10 (f div 10) (d - 1) = (f', d')"
      using "1.prems" by (simp add: trim10.simps[of f d])
    have "real f / 10 ^ d = real (f div 10) / 10 ^ (d - 1)"
    proof -
      have "f = 10 * (f div 10)" using True by (metis add_0_right div_mult_mod_eq mult.commute)
      then have "real f = 10 * real (f div 10)" by (metis of_nat_mult of_nat_numeral)
      moreover have "(10::real) ^ d = 10 * 10 ^ (d - 1)" using True by (simp add: power_eq_if)
      ultimately show ?thesis by simp
    qed
    moreover have "f < 10 ^ d \<Longrightarrow> f div 10 < 10 ^ (d - 1)"
      using True by (simp add: less_mult_imp_div_less power_eq_if)
    ultimately show ?thesis using "1.IH"[OF True step] True by simp
  next
    case False
    have "trim10 f d = (f, d)"
      by (subst trim10.simps) (rule if_not_P[OF False])
    then show ?thesis using "1.prems" by simp
  qed
qed

lemma frac_str_length: "f < 10 ^ d \<Longrightarrow> 0 < d \<Longrightarrow> length (frac_str d f) = d"
  using length_nat_str_le[of f d] by (simp add: frac_str_def Let_def)

lemma read_digits_frac_str: "read_digits (frac_str d f) 0 = Some f"
  by (simp add: frac_str_def Let_def read_digits_zeros read_digits_nat_str)

lemma read_unsigned_fixed:
  assumes "f < 10 ^ d" "0 < d"
  shows "read_unsigned (nat_str a @ CHR ''.'' # frac_str d f) = Some (real a + real f / 10 ^ d)"
proof -
  have dig: "\<forall>c \<in> set (nat_str a). c \<noteq> CHR ''.''"
    using nat_str_digits by auto
  have "frac_str d f \<noteq> []" using frac_str_length[OF assms] assms by auto
  then show ?thesis
    using assms dig
    by (simp add: read_unsigned_def takeWhile_append2 read_digits_nat_str read_digits_frac_str
        frac_str_length)
qed

lemma real_div_mod_split:
  "0 < m \<Longrightarrow> real (n div m) + real (n mod m) / real m = real n / real m"
proof -
  assume "0 < m"
  have "real n = real (n div m) * real m + real (n mod m)"
    by (metis div_mult_mod_eq of_nat_add of_nat_mult)
  then show ?thesis using \<open>0 < m\<close> by (simp add: field_simps)
qed

lemma py_int_of_int [simp]: "py_int (real_of_int k) = k"
  by (simp add: py_int_def)

lemma nat_str_hd_not_minus [simp]: "hd (nat_str a) \<noteq> CHR ''-''"
  using nat_str_digits[of "hd (nat_str a)" a] hd_in_set[OF nat_str_not_Nil] by simp

lemma read_decimal_signed:
  assumes "f < 10 ^ d" "0 < d"
  shows "read_decimal ((if neg then ''-'' else []) @ nat_str a @ CHR ''.'' # frac_str d f) =
           Some ((if neg then -1 else 1) * (real a + real f / 10 ^ d))"
  using read_unsigned_fixed[OF assms]
  by (cases neg) (simp_all add: read_decimal_def)

lemma read_decimal_py_str: "read_decimal (py_str (real_of_int k / 10000)) = Some (real_of_int k / 10000)"
proof -
  define n where "n = nat \<bar>k\<bar>"
  obtain f d where t: "trim10 (n mod 10000) 4 = (f, d)" by fastforce
  from trim10_value[OF t] have d: "0 < d" "real f / 10 ^ d = real (n mod 10000) / 10 ^ 4"
      "f < 10 ^ d" by auto
  have k: "py_int (real_of_int k / 10000 * 10000) = k" by simp
  have "py_str (real_of_int k / 10000) =
      (if k < 0 then ''-'' else []) @ nat_str (n div 10000) @ CHR ''.'' # frac_str d f"
    unfolding py_str_def k Let_def n_def[symmetric] t by simp
  then have "read_decimal (py_str (real_of_int k / 10000)) =
      Some ((if k < 0 then -1 else 1) * (real (n div 10000) + real (n mod 10000) / 10000))"
    using read_decimal_signed[OF d(3) d(1)] d(2) by simp
  also have "\<dots> = Some (real_of_int k / 10000)"
  proof -
    have "real (n div 10000) + real (n mod 10000) / 10000 = real n / 10000"
      using real_div_mod_split[of 10000 n] by simp
    moreover have "real n = \<bar>real_of_int k\<bar>" by (simp add: n_def)
    ultimately show ?thesis by (cases "k < 0") simp_all
  qed
  finally show ?thesis .
qed

lemma round_half_even_error: "\<bar>x - real_of_int (round_half_even x)\<bar> \<le> 1/2"
proof -
  have "real_of_int \<lfloor>x\<rfloor> \<le> x" "x < real_of_int \<lfloor>x\<rfloor> + 1" by linarith+
  then show ?thesis by (auto simp: round_half_even_def Let_def)
qed

lemma round_half_even_nonneg: "0 \<le> x \<Longrightarrow> 0 \<le> round_half_even x"
  by (auto simp: round_half_even_def Let_def)

lemma read_decimal_py_format_2f:
  "\<exists>y. read_decimal (py_format_2f (Some v)) = Some y \<and> \<bar>v - y\<bar> \<le> 1/200"
proof -
  define n where "n = nat (round_half_even (\<bar>v\<bar> * 100))"
  have n: "real n = real_of_int (round_half_even (\<bar>v\<bar> * 100))"
    using round_half_even_nonneg[of "\<bar>v\<bar> * 100"] by (simp add: n_def)
  have e: "real (n div 100) + real (n mod 100) / 10 ^ 2 = real n / 100"
    using real_div_mod_split[of 100 n] by simp
  have r: "read_decimal (py_format_2f (Some v)) = Some ((if v < 0 then -1 else 1) * (real n / 100))"
    using read_decimal_signed[of "n mod 100" 2 "v < 0" "n div 100"] e
    by (simp add: py_format_2f_def n_def Let_def)
  have b: "\<bar>v - (if v < 0 then -1 else 1) * (real n / 100)\<bar> \<le> 1/200"
    using round_half_even_error[of "\<bar>v\<bar> * 100"] n by (auto simp: abs_if split: if_splits)
  from r b show ?thesis by blast
qed

end
