(* ===== verification/Reporting.thy ===== *)
theory Reporting
  imports Payoffs AsianOptions PyFormat
begin

text \<open>
  What the scripts hand to matplotlib and print. Each call of \<open>plt\<close> or
  \<open>print\<close> is a constructor of \<open>sink_call\<close> carrying the arguments the source
  passes, and a run's output is the list of its calls in program order. The
  figures themselves are not modelled. \<open>plotting\<close> is Methodology.py lines
  33--44, and \<open>report_calls\<close> with the four \<open>*_io\<close> functions is lines 55--57,
  69--71, 83--85 and 97--99. \<open>plot_histogram\<close> is AsianOptions.py lines 43--52,
  \<open>asian_report\<close> is lines 54--64, and \<open>asian_script\<close> is the whole script. numpy's
  nan (the mean of no payoffs) is \<open>None\<close>: the vertical line is then drawn at
  nan and labelled \<open>Average Payoff = nan\<close>.
\<close>

datatype sink_call =
    Figure nat nat
  | Hist vector nat string "real option" string
  | Axvline "real option" string string nat string
  | Xlabel string nat
  | Ylabel string nat
  | Title string nat
  | Grid real
  | Legend nat
  | Show
  | Print string

section \<open>Methodology.py: plotting and the printed prices\<close>

definition plotting :: "vector \<Rightarrow> string \<Rightarrow> sink_call list" where
  "plotting payoffs name =
     (let avg = np_mean payoffs
      in [Figure 8 6,
          Hist payoffs 30 ''orange'' None ''black'',
          Axvline avg ''red'' ''--'' 2 (''Average Payoff = '' @ py_format_2f avg),
          Xlabel ''Payoff'' 12,
          Ylabel ''Frequency'' 12,
          Title (''Payoff Histogram of '' @ name) 14,
          Grid 0.3,
          Legend 12,
          Show])"

text \<open>\<open>plotting(payoffs, name)\<close> followed by \<open>print(label + str(option_price(payoffs)))\<close>.\<close>

definition report_calls :: "string \<Rightarrow> price_report \<Rightarrow> sink_call list" where
  "report_calls label rep = plotting (rep_payoffs rep) (rep_name rep) @ [Print (label @ py_str (rep_price rep))]"

definition lookBackCallPrice_io :: "matrix \<Rightarrow> sink_call list result" where
  "lookBackCallPrice_io sim =
     rbind (lookBackCallPrice sim) (\<lambda>rep. Inr (report_calls ''Price of Lookback Call Option: $'' rep))"

definition lookBackPutPrice_io :: "matrix \<Rightarrow> sink_call list result" where
  "lookBackPutPrice_io sim =
     rbind (lookBackPutPrice sim) (\<lambda>rep. Inr (report_calls ''Price of Lookback Put Option: $'' rep))"

definition europeanCallPrice_io :: "matrix \<Rightarrow> sink_call list result" where
  "europeanCallPrice_io sim =
     rbind (europeanCallPrice sim) (\<lambda>rep. Inr (report_calls ''Price of European Call Option: $'' rep))"

definition europeanPutPrice_io :: "matrix \<Rightarrow> sink_call list result" where
  "europeanPutPrice_io sim =
     rbind (europeanPutPrice sim) (\<lambda>rep. Inr (report_calls ''Price of European Put Option: $'' rep))"

section \<open>AsianOptions.py: histograms and the printed prices\<close>

definition plot_histogram :: "vector \<Rightarrow> string \<Rightarrow> string \<Rightarrow> real option \<Rightarrow> sink_call list" where
  "plot_histogram payoffs title color average_payoff =
     [Figure 8 6,
      Hist payoffs 50 color (Some 0.7) ''black'',
      Axvline average_payoff ''red'' ''--'' 2 (''Average Payoff = '' @ py_format_2f average_payoff),
      Title title 14,
      Xlabel ''Payoff'' 12,
      Ylabel ''Frequency'' 12,
      Legend 12,
      Grid 0.3,
      Show]"

definition asian_report :: "asian_result \<Rightarrow> sink_call list" where
  "asian_report res =
     plot_histogram (ar_payoff_call res) ''Payoff Histogram: Average Strike Call Option'' ''orange''
       (ar_average_call res) @
     plot_histogram (ar_payoff_put res) ''Payoff Histogram: Average Strike Put Option'' ''orange''
       (ar_average_put res) @
     [Print (''Price of Average Strike Call Option: $'' @ py_format_2f (ar_price_call res)),
      Print (''Price of Average Strike Put Option: $'' @ py_format_2f (ar_price_put res))]"

definition asian_script :: "(nat \<Rightarrow> nat \<Rightarrow> real) \<Rightarrow> asian_config \<Rightarrow> rng \<Rightarrow> (sink_call list \<times> rng) result" where
  "asian_script mt cfg g = rbind (asian_options mt cfg g) (\<lambda>(res, g'). Inr (asian_report res, g'))"

section \<open>Lemmas\<close>

lemma last_report_calls [simp]: "last (report_calls label rep) = Print (label @ py_str (rep_price rep))"
  by (simp add: report_calls_def)

lemma asian_report_prints:
  "drop (length (asian_report res) - 2) (asian_report res) =
     [Print (''Price of Average Strike Call Option: $'' @ py_format_2f (ar_price_call res)),
      Print (''Price of Average Strike Put Option: $'' @ py_format_2f (ar_price_put res))]"
  by (simp add: asian_report_def plot_histogram_def)

lemma asian_script_Inr:
  "asian_script mt cfg g = Inr (calls, g') \<longleftrightarrow>
     (\<exists>res. asian_options mt cfg g = Inr (res, g') \<and> calls = asian_report res)"
  by (auto simp: asian_script_def rbind_eq_Inr_iff)

lemma discounted_mean_nonempty: "ps \<noteq> [] \<Longrightarrow> \<exists>m. discounted_mean d ps = Some m"
  by (simp add: discounted_mean_Some)

lemma py_str_zero: "py_str 0 = ''0.0''"
proof -
  have t: "trim10 0 4 = (0, 1)" by (simp add: trim10.simps)
  have z: "nat_str 0 = ''0''" by (simp add: nat_str.simps digit_char_nth)
  show ?thesis by (simp add: py_str_def py_int_def t z frac_str_def)
qed

lemma printed_price_bounds:
  assumes "list_all (\<lambda>x. 0 \<le> x) ps" and "length ps = 10000"
  shows "\<exists>y m. read_decimal (py_str (option_price ps 0.05 0.75)) = Some y \<and>
           discounted_mean (exp (- 0.75 * 0.05)) ps = Some m \<and> y \<le> m \<and> m - y < 1 / 10000"
proof -
  define x where "x = exp (- 0.75 * 0.05) * sum_list ps / 10000"
  define y where "y = real_of_int (py_int (10000 * x)) / 10000"
  have rd: "read_decimal (py_str (option_price ps 0.05 0.75)) = Some y"
    by (simp only: option_price_py_int x_def y_def read_decimal_py_str)
  have ne: "ps \<noteq> []" using assms(2) by auto
  have dm: "discounted_mean (exp (- 0.75 * 0.05)) ps = Some x"
    using discounted_mean_Some [OF ne] assms(2) by (simp add: x_def)
  have "0 \<le> sum_list ps" using assms(1) by (simp add: list_all_iff sum_list_nonneg_real)
  then have x0: "0 \<le> x" by (simp add: x_def)
  then have y0: "0 \<le> y" by (simp add: y_def py_int_same_sign)
  have "\<bar>y\<bar> \<le> \<bar>x\<bar> \<and> \<bar>x - y\<bar> < 1 / 10000"
    using trunc4_bounds [of x] by (simp add: y_def)
  with x0 y0 have "y \<le> x \<and> x - y < 1 / 10000" by auto
  with rd dm show ?thesis by blast
qed

lemma lookBackCallPrice_io_Inr:
  assumes "lookBackCallPrice_io sim = Inr calls"
  shows "\<exists>rep. calls = report_calls ''Price of Lookback Call Option: $'' rep \<and>
           rep_payoffs rep = map (\<lambda>v. last v - Min (set v)) sim \<and>
           rep_price rep = option_price (rep_payoffs rep) 0.05 0.75 \<and>
           list_all (\<lambda>x. 0 \<le> x) (rep_payoffs rep)"
proof -
  obtain rep where r: "lookBackCallPrice sim = Inr rep"
      and c: "calls = report_calls ''Price of Lookback Call Option: $'' rep"
    using assms by (auto simp: lookBackCallPrice_io_def rbind_eq_Inr_iff)
  have pf: "price_function lookback_call_payoff ''Lookback Call Option'' sim = Inr rep"
    using r by (simp add: lookBackCallPrice_def)
  have m: "map_result lookback_call_payoff sim = Inr (rep_payoffs rep)"
      and p: "rep_price rep = option_price (rep_payoffs rep) 0.05 0.75"
    using price_function_Inr [OF pf] by auto
  have "rep_payoffs rep = map (\<lambda>v. last v - Min (set v)) sim"
    using m by (rule map_result_Inr_map) (simp add: lookback_payoffs_InrD(1))
  moreover have "\<forall>x \<in> set (rep_payoffs rep). 0 \<le> x"
    using price_function_nonneg [OF pf lookback_call_payoff_nonneg] by simp
  ultimately show ?thesis using c p by (intro exI [of _ rep]) (simp add: list_all_iff)
qed

lemma asian_script_run:
  assumes "0 < ao_N cfg" "0 \<le> ao_M cfg"
  shows "asian_script mt cfg g =
           Inr (asian_report (asian_evaluate (exp (- ao_r cfg * ao_T cfg)) (asian_paths mt cfg)),
                \<lparr>rng_stream = mt 42, rng_pos = nat (ao_M cfg) * nat (ao_N cfg)\<rparr>)"
  using asian_options_run [OF assms] by (simp add: asian_script_def)

lemma asian_script_res:
  assumes "asian_script mt cfg g = Inr (calls, g')"
  shows "0 < ao_N cfg \<and> 0 \<le> ao_M cfg \<and>
         calls = asian_report (asian_evaluate (exp (- ao_r cfg * ao_T cfg)) (asian_paths mt cfg))"
proof -
  obtain res where r: "asian_options mt cfg g = Inr (res, g')" and c: "calls = asian_report res"
    using assms by (auto simp: asian_script_def rbind_eq_Inr_iff)
  have d: "0 < ao_N cfg" "0 \<le> ao_M cfg" using asian_options_dims [OF r] by auto
  show ?thesis using asian_options_Inr [OF d r] c d by simp
qed

section \<open>Properties of the reports\<close>

text \<open>
  C21. On a sample of 10000 paths, the line \<open>lookBackCallPrice\<close> prints last is
  \<open>Price of Lookback Call Option: $\<close> followed by a decimal \<open>y\<close> that is the
  discounted mean payoff \<open>m = e^{-rT} \<cdot> mean(S_T - min(path))\<close> truncated: \<open>y \<le> m\<close>
  and \<open>m - y < 10\<^sup>-\<^sup>4\<close>.
\<close>

theorem lookback_call_printed_price:
  assumes "lookBackCallPrice_io sim = Inr calls" and "length sim = 10000"
  shows "\<exists>s y m. last calls = Print (''Price of Lookback Call Option: $'' @ s) \<and>
           read_decimal s = Some y \<and>
           discounted_mean (exp (- 0.75 * 0.05)) (map (\<lambda>v. last v - Min (set v)) sim) = Some m \<and>
           y \<le> m \<and> m - y < 1 / 10000"
proof -
  obtain rep where c: "calls = report_calls ''Price of Lookback Call Option: $'' rep"
      and ps: "rep_payoffs rep = map (\<lambda>v. last v - Min (set v)) sim"
      and p: "rep_price rep = option_price (rep_payoffs rep) 0.05 0.75"
      and nn: "list_all (\<lambda>x. 0 \<le> x) (rep_payoffs rep)"
    using lookBackCallPrice_io_Inr [OF assms(1)] by blast
  have "length (rep_payoffs rep) = 10000" using ps assms(2) by simp
  from printed_price_bounds [OF nn this] c ps p show ?thesis by auto
qed

theorem lookback_call_printed_price_witness:
  "lookBackCallPrice_io (replicate 10000 [1]) =
     Inr (report_calls ''Price of Lookback Call Option: $''
            \<lparr>rep_name = ''Lookback Call Option'', rep_payoffs = replicate 10000 0, rep_price = 0\<rparr>) \<and>
   length (replicate 10000 [1 :: real]) = 10000 \<and>
   (\<exists>s y m. Print (''Price of Lookback Call Option: $'' @ py_str 0) = Print (''Price of Lookback Call Option: $'' @ s) \<and>
      read_decimal s = Some y \<and>
      discounted_mean (exp (- 0.75 * 0.05)) (map (\<lambda>v. last v - Min (set v)) (replicate 10000 [1])) = Some m \<and>
      y \<le> m \<and> m - y < 1 / 10000)"
proof -
  have pf: "lookBackCallPrice (replicate 10000 [1]) =
     Inr \<lparr>rep_name = ''Lookback Call Option'', rep_payoffs = replicate 10000 0, rep_price = 0\<rparr>"
    using price_function_rows [of lookback_call_payoff "\<lambda>v. last v - Min (set v)"
        "replicate 10000 [1]" "''Lookback Call Option''"]
    by (simp add: lookBackCallPrice_def lookback_call_payoff_Inr option_price_def py_int_def
        sum_list_replicate)
  have run: "lookBackCallPrice_io (replicate 10000 [1]) =
     Inr (report_calls ''Price of Lookback Call Option: $''
            \<lparr>rep_name = ''Lookback Call Option'', rep_payoffs = replicate 10000 0, rep_price = 0\<rparr>)"
    by (simp add: lookBackCallPrice_io_def pf)
  show ?thesis
    using lookback_call_printed_price [OF run] run by simp
qed

text \<open>
  C22. When the Asian script runs with at least one path, its last two lines
  are the call and put prices, each a two-place decimal within \<open>0.005\<close> of the
  discounted mean payoff it prints.
\<close>

theorem asian_printed_prices:
  assumes "asian_script mt cfg g = Inr (calls, g')" and "0 < ao_M cfg"
  shows "\<exists>s1 s2 pc pp y1 y2.
           drop (length calls - 2) calls =
             [Print (''Price of Average Strike Call Option: $'' @ s1),
              Print (''Price of Average Strike Put Option: $'' @ s2)] \<and>
           discounted_mean (exp (- ao_r cfg * ao_T cfg))
             (asian_payoff_call (asian_paths mt cfg) (asian_averages (asian_paths mt cfg))) = Some pc \<and>
           discounted_mean (exp (- ao_r cfg * ao_T cfg))
             (asian_payoff_put (asian_paths mt cfg) (asian_averages (asian_paths mt cfg))) = Some pp \<and>
           read_decimal s1 = Some y1 \<and> read_decimal s2 = Some y2 \<and>
           \<bar>pc - y1\<bar> \<le> 1 / 200 \<and> \<bar>pp - y2\<bar> \<le> 1 / 200"
proof -
  let ?S = "asian_paths mt cfg" and ?d = "exp (- ao_r cfg * ao_T cfg)"
  have c: "calls = asian_report (asian_evaluate ?d ?S)"
    using asian_script_res [OF assms(1)] by simp
  have "asian_payoff_call ?S (asian_averages ?S) \<noteq> []" "asian_payoff_put ?S (asian_averages ?S) \<noteq> []"
    using assms(2) by (simp_all flip: length_0_conv)
  then obtain pc pp
    where pc: "discounted_mean ?d (asian_payoff_call ?S (asian_averages ?S)) = Some pc"
      and pp: "discounted_mean ?d (asian_payoff_put ?S (asian_averages ?S)) = Some pp"
    using discounted_mean_nonempty by blast
  obtain y1 where y1: "read_decimal (py_format_2f (Some pc)) = Some y1" "\<bar>pc - y1\<bar> \<le> 1 / 200"
    using read_decimal_py_format_2f by blast
  obtain y2 where y2: "read_decimal (py_format_2f (Some pp)) = Some y2" "\<bar>pp - y2\<bar> \<le> 1 / 200"
    using read_decimal_py_format_2f by blast
  have "drop (length calls - 2) calls =
          [Print (''Price of Average Strike Call Option: $'' @ py_format_2f (Some pc)),
           Print (''Price of Average Strike Put Option: $'' @ py_format_2f (Some pp))]"
    using c pc pp by (simp only: asian_report_prints asian_result_fields)
  with pc pp y1 y2 show ?thesis by blast
qed

theorem asian_printed_prices_witness:
  "asian_script (\<lambda>_ _. 0) asian_config_defaults \<lparr>rng_stream = (\<lambda>_. 0), rng_pos = 0\<rparr> =
     Inr (asian_report (asian_evaluate (exp (- 0.05 * 0.75)) (asian_paths (\<lambda>_ _. 0) asian_config_defaults)),
          \<lparr>rng_stream = (\<lambda>_. 0), rng_pos = 2500000\<rparr>) \<and>
   0 < ao_M asian_config_defaults \<and>
   (\<exists>pc y1. discounted_mean (exp (- ao_r asian_config_defaults * ao_T asian_config_defaults))
       (asian_payoff_call (asian_paths (\<lambda>_ _. 0) asian_config_defaults)
          (asian_averages (asian_paths (\<lambda>_ _. 0) asian_config_defaults))) = Some pc \<and>
      read_decimal (py_format_2f (Some pc)) = Some y1 \<and> \<bar>pc - y1\<bar> \<le> 1 / 200)"
proof -
  have h: "0 < ao_N asian_config_defaults" "0 \<le> ao_M asian_config_defaults"
    by (simp_all add: asian_config_defaults_def)
  have run: "asian_script (\<lambda>_ _. 0) asian_config_defaults \<lparr>rng_stream = (\<lambda>_. 0), rng_pos = 0\<rparr> =
     Inr (asian_report (asian_evaluate (exp (- 0.05 * 0.75)) (asian_paths (\<lambda>_ _. 0) asian_config_defaults)),
          \<lparr>rng_stream = (\<lambda>_. 0), rng_pos = 2500000\<rparr>)"
    using asian_script_run [OF h] by (simp add: asian_config_defaults_def)
  have m: "0 < ao_M asian_config_defaults" by (simp add: asian_config_defaults_def)
  obtain s1 s2 pc pp y1 y2 where
    "drop (length (asian_report (asian_evaluate (exp (- 0.05 * 0.75)) (asian_paths (\<lambda>_ _. 0) asian_config_defaults))) - 2)
       (asian_report (asian_evaluate (exp (- 0.05 * 0.75)) (asian_paths (\<lambda>_ _. 0) asian_config_defaults))) =
       [Print (''Price of Average Strike Call Option: $'' @ s1), Print (''Price of Average Strike Put Option: $'' @ s2)]"
    and pc: "discounted_mean (exp (- ao_r asian_config_defaults * ao_T asian_config_defaults))
       (asian_payoff_call (asian_paths (\<lambda>_ _. 0) asian_config_defaults)
          (asian_averages (asian_paths (\<lambda>_ _. 0) asian_config_defaults))) = Some pc"
    and "read_decimal s1 = Some y1" "\<bar>pc - y1\<bar> \<le> 1 / 200"
    using asian_printed_prices [OF run m] by blast
  then have "read_decimal (py_format_2f (Some pc)) = Some y1"
    by (simp add: asian_report_prints asian_result_fields asian_config_defaults_def)
  then show ?thesis using run m pc \<open>\<bar>pc - y1\<bar> \<le> 1 / 200\<close> by blast
qed

text \<open>
  C23. With \<open>M = 0\<close> paths the Asian script does not fail: it draws both
  histograms with the average line at numpy's nan, labelled
  \<open>Average Payoff = nan\<close>, and prints \<open>nan\<close> for both prices.
\<close>

theorem asian_script_no_paths:
  assumes "0 < ao_N cfg" and "ao_M cfg = 0"
  shows "\<exists>calls g'. asian_script mt cfg g = Inr (calls, g') \<and>
           calls ! 2 = Axvline None ''red'' ''--'' 2 ''Average Payoff = nan'' \<and>
           drop (length calls - 2) calls =
             [Print ''Price of Average Strike Call Option: $nan'',
              Print ''Price of Average Strike Put Option: $nan'']"
proof -
  have m: "0 \<le> ao_M cfg" using assms(2) by simp
  have e: "asian_paths mt cfg = []" using assms(2) by (simp add: asian_paths_def)
  let ?calls = "asian_report (asian_evaluate (exp (- ao_r cfg * ao_T cfg)) [])"
  have run: "asian_script mt cfg g = Inr (?calls, \<lparr>rng_stream = mt 42, rng_pos = 0\<rparr>)"
    using asian_script_run [OF assms(1) m] e assms(2) by simp
  have "?calls ! 2 = Axvline None ''red'' ''--'' 2 ''Average Payoff = nan''"
    by (simp add: asian_report_def plot_histogram_def asian_result_fields asian_payoff_call_def
        np_mean_def py_format_2f_def)
  moreover have "drop (length ?calls - 2) ?calls =
             [Print ''Price of Average Strike Call Option: $nan'',
              Print ''Price of Average Strike Put Option: $nan'']"
    by (simp add: asian_report_prints asian_result_fields asian_payoff_call_def asian_payoff_put_def
        discounted_mean_def np_mean_def py_format_2f_def)
  ultimately show ?thesis using run by blast
qed

theorem asian_script_no_paths_witness:
  "\<exists>calls g'. asian_script (\<lambda>_ _. 0) (asian_config_defaults\<lparr>ao_M := 0\<rparr>) \<lparr>rng_stream = (\<lambda>_. 0), rng_pos = 0\<rparr> =
     Inr (calls, g') \<and>
     drop (length calls - 2) calls =
       [Print ''Price of Average Strike Call Option: $nan'', Print ''Price of Average Strike Put Option: $nan'']"
proof -
  have h: "0 < ao_N (asian_config_defaults\<lparr>ao_M := 0\<rparr>)" "ao_M (asian_config_defaults\<lparr>ao_M := 0\<rparr>) = 0"
    by (simp_all add: asian_config_defaults_def)
  show ?thesis using asian_script_no_paths [OF h, of "\<lambda>_ _. 0" "\<lparr>rng_stream = (\<lambda>_. 0), rng_pos = 0\<rparr>"]
    by blast
qed

text \<open>
  C24. On a sample with no paths none of the four pricing functions raises:
  each plots an empty histogram with its average line at nan, labelled
  \<open>Average Payoff = nan\<close>, and prints the price \<open>0.0\<close>.
\<close>

theorem pricing_functions_empty_sample:
  "lookBackCallPrice_io [] = Inr (plotting [] ''Lookback Call Option'' @ [Print ''Price of Lookback Call Option: $0.0'']) \<and>
   lookBackPutPrice_io [] = Inr (plotting [] ''Lookback Put Option'' @ [Print ''Price of Lookback Put Option: $0.0'']) \<and>
   europeanCallPrice_io [] = Inr (plotting [] ''European Call Option'' @ [Print ''Price of European Call Option: $0.0'']) \<and>
   europeanPutPrice_io [] = Inr (plotting [] ''European Put Option'' @ [Print ''Price of European Put Option: $0.0'']) \<and>
   plotting [] name ! 2 = Axvline None ''red'' ''--'' 2 ''Average Payoff = nan''"
proof -
  have p: "option_price [] 0.05 0.75 = 0" by (simp add: option_price_def py_int_def)
  have "price_function payoff nm [] = Inr \<lparr>rep_name = nm, rep_payoffs = [], rep_price = 0\<rparr>" for payoff nm
    using p by (simp add: price_function_eq)
  then show ?thesis
    by (simp add: lookBackCallPrice_io_def lookBackPutPrice_io_def europeanCallPrice_io_def
        europeanPutPrice_io_def lookBackCallPrice_def lookBackPutPrice_def europeanCallPrice_def
        europeanPutPrice_def report_calls_def py_str_zero plotting_def np_mean_def py_format_2f_def)
qed

text \<open>
  C26. For every configuration with \<open>N > 0\<close> and \<open>M \<ge> 0\<close> the Asian script runs
  to its end: it shows both histograms and prints both prices, the put price
  last.
\<close>

theorem asian_script_completes:
  assumes "0 < ao_N cfg" and "0 \<le> ao_M cfg"
  shows "\<exists>calls g' s. asian_script mt cfg g = Inr (calls, g') \<and>
           filter (\<lambda>c. c = Show) calls = [Show, Show] \<and>
           last calls = Print (''Price of Average Strike Put Option: $'' @ s)"
proof -
  let ?res = "asian_evaluate (exp (- ao_r cfg * ao_T cfg)) (asian_paths mt cfg)"
  have "filter (\<lambda>c. c = Show) (asian_report ?res) = [Show, Show]"
    by (simp add: asian_report_def plot_histogram_def)
  moreover have "last (asian_report ?res) =
      Print (''Price of Average Strike Put Option: $'' @ py_format_2f (ar_price_put ?res))"
    by (simp add: asian_report_def)
  ultimately show ?thesis using asian_script_run [OF assms] by blast
qed

theorem asian_script_completes_witness:
  "\<exists>calls g' s. asian_script (\<lambda>_ _. 0) asian_config_defaults \<lparr>rng_stream = (\<lambda>_. 0), rng_pos = 0\<rparr> =
     Inr (calls, g') \<and> filter (\<lambda>c. c = Show) calls = [Show, Show] \<and>
     last calls = Print (''Price of Average Strike Put Option: $'' @ s)"
proof -
  have h: "0 < ao_N asian_config_defaults" "0 \<le> ao_M asian_config_defaults"
    by (simp_all add: asian_config_defaults_def)
  show ?thesis using asian_script_completes [OF h] by blast
qed

end
