(* ===== verification/PyFloat.thy ===== *)
theory PyFloat
  imports Pricer PyFormat "HOL-Library.Log_Nat"
begin

text \<open>
  IEEE 754 double rounding where the printed prices depend on it. The rest of
  the development computes in exact reals; this theory models the last two
  float operations of a Methodology price, the true division
  \<open>int(\<dots>) / 10000\<close> of \<open>option_price\<close> (Methodology.py lines 30--31, CPython's
  \<open>long_true_divide\<close>: one correct rounding, ties to even) and the \<open>str()\<close> of
  lines 56--57, 70--71, 84--85 and 98--99 (CPython's shortest round-trip
  \<open>repr\<close>). \<open>round_double\<close> rounds a real to 53 significant bits with
  subnormals; \<open>binade\<close> computes its exponent from integer bit lengths, so
  both evaluate on rationals. \<open>py_float_dec\<close> is \<open>float()\<close> of a decimal
  string, the reading \<open>repr\<close> must invert, and \<open>shortest_repr\<close> states
  what \<open>repr\<close> chooses. The lemmas bound the rounding error, show that two
  reals rounding to the same normal double are within \<open>2\<^sup>-\<^sup>5\<^sup>0\<close> relative,
  and that two decimals of at most 15 significant digits are at least
  \<open>10\<^sup>-\<^sup>1\<^sup>5\<close> relative apart, whence \<open>k / 10000\<close> is the unique shortest
  decimal of its double for \<open>|k| < 10\<^sup>1\<^sup>5\<close>.
\<close>

section \<open>Doubles\<close>

text \<open>The binary exponent \<open>t\<close> with \<open>2\<^sup>t \<le> |x| < 2\<^sup>t\<^sup>+\<^sup>1\<close>, computed from integer bit lengths.\<close>

definition binade :: "real \<Rightarrow> int" where
  "binade x = (if 1 \<le> \<bar>x\<bar> then bitlen \<lfloor>\<bar>x\<bar>\<rfloor> - 1 else - bitlen (\<lceil>1 / \<bar>x\<bar>\<rceil> - 1))"

text \<open>
  Round to the nearest double, ties to even: 53 significant bits, with the
  exponent of the last place at least \<open>-1074\<close> (subnormals).
\<close>

definition round_double :: "real \<Rightarrow> real" where
  "round_double x =
     (if x = 0 then 0
      else let e = max (binade x - 52) (-1074)
           in real_of_int (round_half_even (x / 2 powi e)) * 2 powi e)"

text \<open>
  Python's \<open>int / int\<close> (CPython \<open>long_true_divide\<close>): the quotient rounded once
  to the nearest double; ZeroDivisionError for a zero divisor and OverflowError
  when the rounded quotient is beyond the largest double.
\<close>

definition py_true_div :: "int \<Rightarrow> int \<Rightarrow> real result" where
  "py_true_div a b =
     (if b = 0 then Inl ZeroDivisionError
      else let d = round_double (real_of_int a / real_of_int b)
           in if 2 ^ 1024 \<le> \<bar>d\<bar> then Inl OverflowError else Inr d)"

section \<open>Decimals and Python's repr\<close>

text \<open>The decimal \<open>j \<times> 10\<^sup>q\<close>, the number the digit string \<open>"<j>e<q>"\<close> denotes.\<close>

definition dec_val :: "int \<Rightarrow> int \<Rightarrow> real" where
  "dec_val j q = real_of_int j * 10 powi q"

text \<open>\<open>float("<j>e<q>")\<close>: the correctly rounded double; \<open>None\<close> is an infinity.\<close>

definition py_float_dec :: "int \<Rightarrow> int \<Rightarrow> real option" where
  "py_float_dec j q =
     (let d = round_double (dec_val j q) in if 2 ^ 1024 \<le> \<bar>d\<bar> then None else Some d)"

text \<open>Drop the trailing decimal zeros of a mantissa.\<close>

fun strip10 :: "nat \<Rightarrow> nat" where
  "strip10 n = (if n \<noteq> 0 \<and> n mod 10 = 0 then strip10 (n div 10) else n)"

declare strip10.simps [simp del]

definition sig_digits :: "int \<Rightarrow> nat" where
  "sig_digits j = length (nat_str (strip10 (nat \<bar>j\<bar>)))"

text \<open>
  The digits \<open>repr\<close> (and so \<open>str\<close>) chooses for a double \<open>d\<close> (CPython's
  \<open>float_repr\<close> with \<open>_Py_dg_dtoa\<close> in mode 0): a decimal that reads back as
  \<open>d\<close> with the fewest significant digits; zero is printed as \<open>0\<close>.
  \<open>shortest_repr d j q\<close> says that \<open>j \<times> 10\<^sup>q\<close> reads back as \<open>d\<close> and that
  every other decimal reading back as \<open>d\<close> has more significant digits, so
  that it is the one decimal \<open>repr\<close> can print.
\<close>

definition shortest_repr :: "real \<Rightarrow> int \<Rightarrow> int \<Rightarrow> bool" where
  "shortest_repr d j q =
     (py_float_dec j q = Some d \<and>
      (if d = 0 then j = 0
       else \<forall>j' q'. py_float_dec j' q' = Some d \<longrightarrow>
              dec_val j' q' = dec_val j q \<or> sig_digits j < sig_digits j'))"

section \<open>The double \<open>option_price\<close> returns\<close>

text \<open>
  \<open>int(\<dots>) / 10000\<close> (Methodology.py lines 30--31) with the division done in
  doubles; \<open>option_price\<close> of theory \<open>Pricer\<close> is the exact quotient.
\<close>

definition option_price_float :: "vector \<Rightarrow> real \<Rightarrow> real \<Rightarrow> real result" where
  "option_price_float option_payoff rate T =
     py_true_div (py_int (sum_list option_payoff / 10000 * exp (- T * rate) * 10000)) 10000"

section \<open>Lemmas: binary exponent and rounding error\<close>

lemma bitlen_bounds_real:
  "0 < n \<Longrightarrow> (2::real) ^ nat (bitlen n - 1) \<le> of_int n \<and> of_int n + 1 \<le> (2::real) ^ nat (bitlen n)"
proof -
  assume "0 < n"
  from bitlen_bounds [OF this] have "2 ^ nat (bitlen n - 1) \<le> n" "n + 1 \<le> 2 ^ nat (bitlen n)" by auto
  then have "of_int (2 ^ nat (bitlen n - 1)) \<le> (of_int n :: real)"
      "of_int (n + 1) \<le> (of_int (2 ^ nat (bitlen n)) :: real)"
    by (simp_all only: of_int_le_iff)
  then show ?thesis by simp
qed

lemma binade_bounds:
  assumes "x \<noteq> 0"
  shows "2 powi binade x \<le> \<bar>x\<bar> \<and> \<bar>x\<bar> < 2 powi (binade x + 1)"
proof (cases "1 \<le> \<bar>x\<bar>")
  case True
  let ?n = "\<lfloor>\<bar>x\<bar>\<rfloor>"
  have n: "0 < ?n" using True by simp
  have b: "1 \<le> bitlen ?n" using n by (simp add: bitlen_alt_def)
  have "(2::real) ^ nat (bitlen ?n - 1) \<le> of_int ?n" "of_int ?n + 1 \<le> (2::real) ^ nat (bitlen ?n)"
    using bitlen_bounds_real [OF n] by auto
  moreover have "of_int ?n \<le> \<bar>x\<bar>" "\<bar>x\<bar> < of_int ?n + 1" by linarith+
  ultimately have "(2::real) ^ nat (bitlen ?n - 1) \<le> \<bar>x\<bar>" "\<bar>x\<bar> < (2::real) ^ nat (bitlen ?n)"
    by linarith+
  then show ?thesis
    using True b by (simp add: binade_def power_int_nonneg_exp)
next
  case False
  let ?u = "1 / \<bar>x\<bar>"
  let ?c = "\<lceil>?u\<rceil> - 1"
  have u: "1 < ?u" using False assms by (simp add: field_simps)
  then have c: "0 < ?c" by linarith
  have b: "1 \<le> bitlen ?c" using c by (simp add: bitlen_alt_def)
  have lo: "(2::real) ^ nat (bitlen ?c - 1) \<le> of_int ?c" and hi: "of_int ?c + 1 \<le> (2::real) ^ nat (bitlen ?c)"
    using bitlen_bounds_real [OF c] by auto
  have "of_int ?c < ?u" "?u \<le> of_int ?c + 1" by linarith+
  then have "(2::real) ^ nat (bitlen ?c - 1) < ?u" "?u \<le> 2 ^ nat (bitlen ?c)" using lo hi by linarith+
  then have "\<bar>x\<bar> < 1 / 2 ^ nat (bitlen ?c - 1)" "1 / 2 ^ nat (bitlen ?c) \<le> \<bar>x\<bar>"
    using assms by (simp_all add: field_simps)
  moreover have "2 powi (- bitlen ?c + 1) = 1 / (2::real) ^ nat (bitlen ?c - 1)"
    using b by (simp add: power_int_def nat_diff_distrib' power_one_over)
  moreover have "2 powi (- bitlen ?c) = 1 / (2::real) ^ nat (bitlen ?c)"
    using b by (simp add: power_int_def power_one_over)
  ultimately show ?thesis using False by (simp add: binade_def)
qed

lemma powi_two_max: "(2::real) powi (max a b) = max (2 powi a) (2 powi b)"
proof (cases "a \<le> b")
  case True
  then have "2 powi a \<le> (2::real) powi b" by (rule power_int_increasing) simp
  then show ?thesis using True by (simp add: max_def)
next
  case False
  then have "2 powi b < (2::real) powi a" by (intro power_int_strict_increasing) simp_all
  then show ?thesis using False by (simp add: max_def)
qed

lemma round_double_error:
  "\<bar>round_double y - y\<bar> \<le> max (\<bar>y\<bar> / 2 ^ 53) (2 powi (-1075))"
proof (cases "y = 0")
  case False
  define e where "e = max (binade y - 52) (-1074)"
  have p: "(0::real) < 2 powi e" by simp
  have r: "round_double y = real_of_int (round_half_even (y / 2 powi e)) * 2 powi e"
    using False by (simp add: round_double_def e_def Let_def)
  have "\<bar>round_double y - y\<bar> = 2 powi e * \<bar>y / 2 powi e - real_of_int (round_half_even (y / 2 powi e))\<bar>"
    using p by (simp add: r abs_mult_pos' field_simps abs_minus_commute)
  also have "\<dots> \<le> 2 powi e / 2"
    using round_half_even_error [of "y / 2 powi e"] p by simp
  also have "2 powi e / 2 = max (2 powi (binade y - 52) / 2) ((2::real) powi (-1075))"
    by (simp add: e_def powi_two_max max_divide_distrib_right power_int_diff)
  also have "(2::real) powi (binade y - 52) / 2 \<le> \<bar>y\<bar> / 2 ^ 53"
    using binade_bounds [OF False] by (simp add: power_int_diff)
  finally show ?thesis by linarith
qed (simp add: round_double_def)

lemma round_double_rel:
  assumes "2 powi (-1022) \<le> \<bar>x\<bar>"
  shows "\<bar>round_double x - x\<bar> \<le> \<bar>x\<bar> / 2 ^ 53"
proof -
  have "(2::real) powi (-1075) = 2 powi (-1022) / 2 powi 53" by (simp flip: power_int_diff)
  then have "(2::real) powi (-1075) \<le> \<bar>x\<bar> / 2 ^ 53" using assms by (simp add: divide_right_mono)
  then show ?thesis using round_double_error [of x] by simp
qed

lemma round_double_no_overflow: "\<bar>x\<bar> \<le> 2 ^ 1000 \<Longrightarrow> \<bar>round_double x\<bar> < 2 ^ 1024"
proof -
  assume x: "\<bar>x\<bar> \<le> 2 ^ 1000"
  have "(2::real) powi (-1075) \<le> 1" by (simp add: power_int_def power_le_one)
  then have "\<bar>round_double x - x\<bar> \<le> \<bar>x\<bar> + 1" using round_double_error [of x] by simp
  moreover have "(2::real) ^ 1000 * 2 + 1 < 2 ^ 1024" by simp
  ultimately show ?thesis using x by linarith
qed

text \<open>Two reals that round to the same double, the first normal, are within \<open>2\<^sup>-\<^sup>5\<^sup>0\<close> relative.\<close>

lemma round_double_near:
  assumes "round_double y = round_double x" and "2 powi (-1022) \<le> \<bar>x\<bar>"
  shows "\<bar>y - x\<bar> \<le> \<bar>x\<bar> / 2 ^ 50"
proof -
  define d where "d = round_double x"
  have t: "(2::real) powi (-1075) \<le> \<bar>x\<bar> / 2 ^ 53"
  proof -
    have "(2::real) powi (-1075) = 2 powi (-1022) / 2 powi 53" by (simp flip: power_int_diff)
    then show ?thesis using assms(2) by (simp add: divide_right_mono)
  qed
  have ex: "\<bar>d - x\<bar> \<le> \<bar>x\<bar> / 2 ^ 53"
    using round_double_rel [OF assms(2)] by (simp add: d_def)
  have ey: "\<bar>d - y\<bar> \<le> max (\<bar>y\<bar> / 2 ^ 53) (2 powi (-1075))"
    using round_double_error [of y] assms(1) by (simp add: d_def)
  have tri: "\<bar>y - x\<bar> \<le> \<bar>d - y\<bar> + \<bar>d - x\<bar>" "\<bar>y\<bar> \<le> \<bar>d\<bar> + \<bar>d - y\<bar>" "\<bar>d\<bar> \<le> \<bar>x\<bar> + \<bar>d - x\<bar>"
    by linarith+
  have p: "(2::real) ^ 53 = 9007199254740992" "(2::real) ^ 50 = 1125899906842624" by simp_all
  show ?thesis
  proof (cases "2 powi (-1075) \<le> \<bar>y\<bar> / (2::real) ^ 53")
    case True
    then have "\<bar>d - y\<bar> \<le> \<bar>y\<bar> / 2 ^ 53" using ey by simp
    then show ?thesis using ex tri unfolding p by linarith
  next
    case False
    then have "\<bar>d - y\<bar> \<le> \<bar>x\<bar> / 2 ^ 53" using ey t by simp
    then show ?thesis using ex tri unfolding p by linarith
  qed
qed

section \<open>Lemmas: significant digits\<close>

lemma nat_str_length_bounds:
  "0 < n \<Longrightarrow> 10 ^ (length (nat_str n) - 1) \<le> n \<and> n < 10 ^ length (nat_str n)"
proof (induction n rule: nat_str.induct)
  case (1 n)
  show ?case
  proof (cases "n < 10")
    case True
    then show ?thesis using "1.prems" by (simp add: nat_str.simps [of n])
  next
    case False
    let ?L = "length (nat_str (n div 10))"
    have "10 ^ (?L - 1) \<le> n div 10 \<and> n div 10 < 10 ^ ?L"
      using "1.IH" False by simp
    moreover have "0 < ?L" by (simp add: nat_str.simps [of "n div 10"])
    ultimately have ih: "10 ^ (?L - 1) \<le> n div 10" "n div 10 < 10 ^ ?L" "(10::nat) ^ ?L = 10 * 10 ^ (?L - 1)"
      by (simp_all add: power_eq_if)
    have dm: "10 * (n div 10) \<le> n" "n < 10 * (n div 10) + 10"
      using mult_div_mod_eq [of 10 n] mod_less_divisor [of 10 n] by linarith+
    have "10 ^ ?L \<le> n" using ih(1) dm(1) by (simp only: ih(3))
    moreover have "n < 10 ^ Suc ?L" using ih(2) dm(2) by (simp only: power_Suc)
    ultimately have "10 ^ ?L \<le> n" "n < 10 ^ Suc ?L" by simp_all
    then show ?thesis using False by (simp add: nat_str.simps [of n])
  qed
qed

lemma strip10_step: "n \<noteq> 0 \<Longrightarrow> n mod 10 = 0 \<Longrightarrow> strip10 n = strip10 (n div 10)"
  by (simp add: strip10.simps [of n])

lemma strip10_stop: "\<not> (n \<noteq> 0 \<and> n mod 10 = 0) \<Longrightarrow> strip10 n = n"
  by (subst strip10.simps) (rule if_not_P)

lemma strip10_decomp: "\<exists>z. n = strip10 n * 10 ^ z"
proof (induction n rule: strip10.induct)
  case (1 n)
  show ?case
  proof (cases "n \<noteq> 0 \<and> n mod 10 = 0")
    case True
    obtain z where z: "n div 10 = strip10 (n div 10) * 10 ^ z" using "1.IH" [OF True] by blast
    have "n = 10 * (n div 10)" using True mult_div_mod_eq [of 10 n] by simp
    also have "\<dots> = strip10 n * 10 ^ Suc z" using True z by (simp add: strip10_step)
    finally show ?thesis by blast
  next
    case False
    then have "n = strip10 n * 10 ^ 0" by (simp add: strip10_stop)
    then show ?thesis by blast
  qed
qed

lemma strip10_not_dvd: "0 < n \<Longrightarrow> 0 < strip10 n \<and> \<not> 10 dvd strip10 n"
proof (induction n rule: strip10.induct)
  case (1 n)
  show ?case
  proof (cases "n mod 10 = 0")
    case True
    then have "0 < n div 10" using "1.prems" by (auto elim!: dvdE simp: dvd_eq_mod_eq_0)
    then show ?thesis using "1.IH" "1.prems" True by (simp add: strip10_step)
  next
    case False
    then show ?thesis by (simp add: strip10_stop dvd_eq_mod_eq_0 "1.prems")
  qed
qed

lemma dec_val_normal:
  "\<exists>c Q. dec_val j q = dec_val c Q \<and> \<bar>c\<bar> \<le> \<bar>j\<bar> \<and> \<bar>c\<bar> < 10 ^ sig_digits j \<and>
     (j \<noteq> 0 \<longrightarrow> \<not> 10 dvd c \<and> 10 ^ (sig_digits j - 1) \<le> \<bar>c\<bar>)"
proof -
  let ?s = "strip10 (nat \<bar>j\<bar>)"
  obtain z where z: "nat \<bar>j\<bar> = ?s * 10 ^ z" using strip10_decomp by blast
  define c where "c = sgn j * int ?s"
  have "int (nat \<bar>j\<bar>) = int (?s * 10 ^ z)" using z by (rule arg_cong)
  then have jz: "\<bar>j\<bar> = int ?s * 10 ^ z" by simp
  have "real_of_int j = real_of_int c * 10 ^ z"
  proof -
    have "j = sgn j * \<bar>j\<bar>" by (simp add: mult_sgn_abs)
    then have "j = c * 10 ^ z" using jz by (simp add: c_def mult.assoc)
    then show ?thesis by simp
  qed
  then have v: "dec_val j q = dec_val c (q + int z)"
    by (simp add: dec_val_def power_int_add)
  have b: "\<bar>c\<bar> = int ?s" by (cases "j = 0") (simp_all add: c_def abs_mult strip10.simps [of 0])
  have lt: "\<bar>c\<bar> < 10 ^ sig_digits j"
  proof (cases "?s = 0")
    case True
    then show ?thesis using b by simp
  next
    case False
    then have "?s < 10 ^ sig_digits j" using nat_str_length_bounds [of ?s] by (simp add: sig_digits_def)
    then show ?thesis using b by (metis of_nat_less_iff of_nat_numeral of_nat_power)
  qed
  have "j \<noteq> 0 \<longrightarrow> \<not> 10 dvd c \<and> 10 ^ (sig_digits j - 1) \<le> \<bar>c\<bar>"
  proof
    assume "j \<noteq> 0"
    then have s: "0 < ?s" "\<not> 10 dvd ?s" using strip10_not_dvd [of "nat \<bar>j\<bar>"] by auto
    then have "10 ^ (sig_digits j - 1) \<le> ?s" using nat_str_length_bounds [of ?s] by (simp add: sig_digits_def)
    then have "10 ^ (sig_digits j - 1) \<le> \<bar>c\<bar>" using b by (metis of_nat_le_iff of_nat_numeral of_nat_power)
    moreover have "\<not> 10 dvd c"
    proof
      assume "10 dvd c"
      then have "10 dvd \<bar>c\<bar>" by simp
      then have "(10::int) dvd int ?s" using b by simp
      then show False using s(2) by presburger
    qed
    ultimately show "\<not> 10 dvd c \<and> 10 ^ (sig_digits j - 1) \<le> \<bar>c\<bar>" by simp
  qed
  moreover have "\<bar>c\<bar> \<le> \<bar>j\<bar>"
  proof -
    have "int ?s * 1 \<le> int ?s * 10 ^ z" by (rule mult_left_mono) simp_all
    then show ?thesis using jz b by simp
  qed
  ultimately show ?thesis using v lt by blast
qed

section \<open>Lemmas: decimals with few digits are far apart\<close>

text \<open>
  Two different decimals with at most \<open>n \<le> 15\<close> significant digits, the first
  normalised (no trailing zero), differ by at least \<open>10\<^sup>-\<^sup>1\<^sup>5\<close> of the first.
  Here both are scaled to integers at the smaller exponent.
\<close>

lemma int_gap:
  fixes a c :: int and i j n :: nat
  assumes a: "\<not> 10 dvd a" "10 ^ (n - 1) \<le> \<bar>a\<bar>" "\<bar>a\<bar> < 10 ^ n" and n: "n \<le> 15"
    and c: "\<bar>c\<bar> < 10 ^ n" and ij: "i = 0 \<or> j = 0" and ne: "a * 10 ^ i \<noteq> c * 10 ^ j"
  shows "\<bar>a * 10 ^ i\<bar> \<le> 10 ^ 15 * \<bar>a * 10 ^ i - c * 10 ^ j\<bar>"
proof -
  have n15: "(10::int) ^ n \<le> 10 ^ 15" using n by (rule power_increasing) simp
  show ?thesis
  proof (cases "i = 0")
    case True
    then have "1 \<le> \<bar>a * 10 ^ i - c * 10 ^ j\<bar>" using ne by simp
    then show ?thesis using True a(3) n15 by simp
  next
    case False
    then have j0: "j = 0" and i1: "1 \<le> i" using ij by simp_all
    define w :: int where "w = 10 ^ i"
    define X where "X = \<bar>a\<bar> * w"
    have w: "10 \<le> w" unfolding w_def using i1 by (metis power_increasing power_one_right zero_less_numeral one_le_numeral)
    have lhs: "\<bar>a * 10 ^ i\<bar> = X" by (simp add: X_def w_def abs_mult)
    have tri: "X - \<bar>c\<bar> \<le> \<bar>a * 10 ^ i - c * 10 ^ j\<bar>"
      using j0 abs_triangle_ineq2 [of "a * w" c] by (simp add: X_def w_def abs_mult)
    have fin: "X \<le> 10 ^ 15 * (X - \<bar>c\<bar>) \<Longrightarrow> ?thesis"
      using lhs mult_left_mono [OF tri, of "10 ^ 15"] by simp
    have n1: "1 \<le> n"
    proof (rule ccontr)
      assume "\<not> 1 \<le> n"
      then have "n = 0" by simp
      then have "a = 0" using a(3) by simp
      then show False using a(1) by simp
    qed
    show ?thesis
    proof (cases "n = 1")
      case True
      have "a \<noteq> 0" using a(1) by auto
      then have "1 \<le> \<bar>a\<bar>" by arith
      have "\<bar>c\<bar> \<le> 9" using c True by simp
      have "10 \<le> X" using \<open>1 \<le> \<bar>a\<bar>\<close> w mult_mono [of 1 "\<bar>a\<bar>" 10 w] unfolding X_def by simp
      then show ?thesis using \<open>\<bar>c\<bar> \<le> 9\<close> by (intro fin) (simp add: right_diff_distrib)
    next
      case False
      define p :: int where "p = 10 ^ (n - 1)"
      have p10: "10 ^ n = 10 * p" unfolding p_def using n1 by (simp add: power_eq_if)
      have "10 dvd p" unfolding p_def using False n1 by (simp add: dvd_power)
      then have "\<bar>a\<bar> \<noteq> p" using a(1) by auto
      then have ap: "p + 1 \<le> \<bar>a\<bar>" using a(2) unfolding p_def by linarith
      have f1: "p * w + w \<le> X" unfolding X_def using mult_right_mono [OF ap, of w] w by (simp add: algebra_simps)
      have f2: "10 * p \<le> p * w" using mult_left_mono [OF w, of p] by (simp add: p_def mult.commute)
      have f3: "X < 10 * (p * w)" unfolding X_def using mult_strict_right_mono [of "\<bar>a\<bar>" "10 * p" w] a(3) w p10
        by (simp add: mult.assoc)
      have f4: "10 * (p * w) \<le> 10 ^ 15 * w" using mult_right_mono [of "10 * p" "10 ^ 15" w] n15 w p10
        by (simp add: mult.assoc)
      show ?thesis using f1 f2 f3 f4 c p10 by (intro fin) (simp add: right_diff_distrib)
    qed
  qed
qed

lemma dec_val_gap:
  assumes a: "\<not> 10 dvd a" "10 ^ (n - 1) \<le> \<bar>a\<bar>" "\<bar>a\<bar> < 10 ^ n" "n \<le> 15"
    and c: "\<bar>c\<bar> < 10 ^ n" and ne: "dec_val c Q \<noteq> dec_val a P"
  shows "\<bar>dec_val a P\<bar> \<le> 10 ^ 15 * \<bar>dec_val c Q - dec_val a P\<bar>"
proof -
  define m where "m = min P Q"
  define u :: real where "u = 10 powi m"
  have u: "0 < u" by (simp add: u_def)
  have ex: "\<And>R. m \<le> R \<Longrightarrow> dec_val b R = real_of_int (b * 10 ^ nat (R - m)) * u" for b
  proof -
    fix R assume "m \<le> R"
    then have "R = m + int (nat (R - m))" by simp
    then have "(10::real) powi R = u * 10 ^ nat (R - m)" by (metis u_def power_int_add power_int_of_nat zero_neq_numeral)
    then show "dec_val b R = real_of_int (b * 10 ^ nat (R - m)) * u" by (simp add: dec_val_def)
  qed
  have xa: "dec_val a P = real_of_int (a * 10 ^ nat (P - m)) * u" by (rule ex) (simp add: m_def)
  have yc: "dec_val c Q = real_of_int (c * 10 ^ nat (Q - m)) * u" by (rule ex) (simp add: m_def)
  have ij: "nat (P - m) = 0 \<or> nat (Q - m) = 0" by (simp add: m_def min_def)
  have "a * 10 ^ nat (P - m) \<noteq> c * 10 ^ nat (Q - m)"
  proof
    assume "a * 10 ^ nat (P - m) = c * 10 ^ nat (Q - m)"
    then have "dec_val a P = dec_val c Q" unfolding xa yc by (simp only:)
    then show False using ne by simp
  qed
  from int_gap [OF a c ij this]
  have "real_of_int \<bar>a * 10 ^ nat (P - m)\<bar> \<le>
      real_of_int (10 ^ 15 * \<bar>c * 10 ^ nat (Q - m) - a * 10 ^ nat (P - m)\<bar>)"
    by (simp only: of_int_le_iff abs_minus_commute)
  then have "real_of_int \<bar>a * 10 ^ nat (P - m)\<bar> * u \<le>
      real_of_int (10 ^ 15 * \<bar>c * 10 ^ nat (Q - m) - a * 10 ^ nat (P - m)\<bar>) * u"
    by (rule mult_right_mono) (simp add: less_imp_le u)
  then have g: "real_of_int \<bar>a * 10 ^ nat (P - m)\<bar> * u \<le>
      10 ^ 15 * (real_of_int \<bar>c * 10 ^ nat (Q - m) - a * 10 ^ nat (P - m)\<bar> * u)"
    by (simp only: of_int_mult of_int_power of_int_numeral mult.assoc)
  have "\<bar>dec_val a P\<bar> = real_of_int \<bar>a * 10 ^ nat (P - m)\<bar> * u"
    using u by (simp add: xa abs_mult)
  moreover have "\<bar>dec_val c Q - dec_val a P\<bar> = real_of_int \<bar>c * 10 ^ nat (Q - m) - a * 10 ^ nat (P - m)\<bar> * u"
  proof -
    have "dec_val c Q - dec_val a P = real_of_int (c * 10 ^ nat (Q - m) - a * 10 ^ nat (P - m)) * u"
      by (simp only: xa yc of_int_diff left_diff_distrib)
    then show ?thesis using u by (simp add: abs_mult)
  qed
  ultimately show ?thesis using g by simp
qed

section \<open>Lemmas: the prices \<open>option_price\<close> returns\<close>

lemma dec_val_div_10000: "dec_val k (-4) = real_of_int k / 10000"
  by (simp add: dec_val_def power_int_minus_divide)

lemma div_10000_normal: "k \<noteq> 0 \<Longrightarrow> 2 powi (-1022) \<le> \<bar>real_of_int k / 10000\<bar>"
proof -
  assume "k \<noteq> 0"
  then have "1 / 10000 \<le> \<bar>real_of_int k / 10000\<bar>" by (simp add: divide_right_mono)
  moreover have "(2::real) powi (-1022) \<le> 1 / 10000" by (simp add: power_int_def power_one_over)
  ultimately show ?thesis by linarith
qed

lemma sig_digits_le_15:
  assumes "\<bar>k\<bar> < 10 ^ 15" "k \<noteq> 0" "10 ^ (sig_digits k - 1) \<le> \<bar>a\<bar>" "\<bar>a\<bar> \<le> \<bar>k\<bar>"
  shows "sig_digits k \<le> 15"
proof -
  have "(10::int) ^ (sig_digits k - 1) < 10 ^ 15" using assms by linarith
  then have "sig_digits k - 1 < 15" by (simp only: power_strict_increasing_iff [of "10::int"] one_less_numeral_iff semiring_norm(76))
  then show ?thesis by simp
qed

lemma div_10000_bound: "\<bar>k\<bar> < 10 ^ 15 \<Longrightarrow> \<bar>real_of_int k / 10000\<bar> \<le> 2 ^ 1000"
proof -
  assume "\<bar>k\<bar> < 10 ^ 15"
  then have "\<bar>real_of_int k\<bar> \<le> 10 ^ 15" by (metis of_int_abs of_int_le_iff of_int_numeral of_int_power less_imp_le)
  then show ?thesis by simp
qed

lemma option_price_int:
  "option_price option_payoff rate T =
     real_of_int (py_int (sum_list option_payoff / 10000 * exp (- T * rate) * 10000)) / 10000"
  by (simp add: option_price_def)

lemma option_price_float_eq:
  "\<bar>option_price option_payoff rate T\<bar> \<le> 2 ^ 1000 \<Longrightarrow>
   option_price_float option_payoff rate T = Inr (round_double (option_price option_payoff rate T))"
  using round_double_no_overflow
  by (simp add: option_price_float_def py_true_div_def option_price_int Let_def not_le)

text \<open>The core fact: \<open>k / 10000\<close> is the one shortest decimal of its double.\<close>

lemma shortest_repr_div_10000:
  assumes k: "\<bar>k\<bar> < 10 ^ 15"
  shows "shortest_repr (round_double (real_of_int k / 10000)) k (-4)"
proof -
  define x where "x = real_of_int k / 10000"
  define d where "d = round_double x"
  have xb: "\<bar>x\<bar> \<le> 2 ^ 1000" unfolding x_def by (rule div_10000_bound [OF k])
  have fl: "py_float_dec k (-4) = Some d"
    using round_double_no_overflow [OF xb] by (simp add: py_float_dec_def dec_val_div_10000 d_def x_def)
  show ?thesis
  proof (cases "k = 0")
    case True
    then show ?thesis using fl by (simp add: shortest_repr_def d_def x_def round_double_def)
  next
    case False
    have nx: "2 powi (-1022) \<le> \<bar>x\<bar>" unfolding x_def by (rule div_10000_normal [OF False])
    have x0: "x \<noteq> 0" using False by (simp add: x_def)
    have "d \<noteq> 0"
    proof
      assume "d = 0"
      then have "\<bar>x\<bar> \<le> \<bar>x\<bar> / 2 ^ 53" using round_double_rel [OF nx] by (simp add: d_def)
      then show False using x0 by simp
    qed
    obtain a P where aP: "dec_val k (-4) = dec_val a P" "\<bar>a\<bar> \<le> \<bar>k\<bar>" "\<bar>a\<bar> < 10 ^ sig_digits k"
        "\<not> 10 dvd a" "10 ^ (sig_digits k - 1) \<le> \<bar>a\<bar>"
      using dec_val_normal [of k "-4"] False by blast
    have n15: "sig_digits k \<le> 15" using sig_digits_le_15 [OF k False aP(5) aP(2)] .
    have "dec_val j' q' = dec_val k (-4) \<or> sig_digits k < sig_digits j'"
      if "py_float_dec j' q' = Some d" for j' q'
    proof (rule ccontr)
      assume "\<not> ?thesis"
      then have ne: "dec_val j' q' \<noteq> x" and le: "sig_digits j' \<le> sig_digits k"
        by (auto simp: dec_val_div_10000 x_def)
      have "round_double (dec_val j' q') = round_double x"
        using that by (simp add: py_float_dec_def Let_def d_def split: if_splits)
      then have near: "\<bar>dec_val j' q' - x\<bar> \<le> \<bar>x\<bar> / 2 ^ 50" by (rule round_double_near [OF _ nx])
      obtain c Q where cQ: "dec_val j' q' = dec_val c Q" "\<bar>c\<bar> < 10 ^ sig_digits j'"
        using dec_val_normal [of j' q'] by blast
      have "\<bar>c\<bar> < 10 ^ sig_digits k"
        using cQ(2) le by (meson order_less_le_trans power_increasing one_le_numeral)
      moreover have "dec_val c Q \<noteq> dec_val a P" using ne cQ(1) aP(1) by (simp add: dec_val_div_10000 x_def)
      ultimately have "\<bar>x\<bar> \<le> 10 ^ 15 * \<bar>dec_val j' q' - x\<bar>"
        using dec_val_gap [OF aP(4) aP(5) aP(3) n15] cQ(1) aP(1) by (simp add: dec_val_div_10000 x_def)
      also have "\<dots> \<le> 10 ^ 15 * (\<bar>x\<bar> / 2 ^ 50)" using near by simp
      finally show False using x0 by simp
    qed
    then show ?thesis using fl \<open>d \<noteq> 0\<close> by (simp add: shortest_repr_def d_def x_def)
  qed
qed

section \<open>Properties of the printed price\<close>

text \<open>
  C10. What a Methodology pricing function prints is what Python prints: the
  double \<open>int(\<dots>) / 10000\<close> that \<open>option_price\<close> returns (below \<open>10\<^sup>1\<^sup>1\<close> in
  magnitude) has a unique shortest decimal that reads back as it, which is
  therefore what \<open>str()\<close> prints, and \<open>py_str\<close> of the exact quotient prints
  exactly that decimal.
\<close>

theorem str_option_price_shortest:
  assumes "\<bar>option_price option_payoff rate T\<bar> < 10 ^ 11"
  shows "\<exists>d j q. option_price_float option_payoff rate T = Inr d \<and> shortest_repr d j q \<and>
           read_decimal (py_str (option_price option_payoff rate T)) = Some (dec_val j q)"
proof -
  define k where "k = py_int (sum_list option_payoff / 10000 * exp (- T * rate) * 10000)"
  have p: "option_price option_payoff rate T = real_of_int k / 10000" by (simp add: option_price_int k_def)
  have "\<bar>real_of_int k\<bar> < 10 ^ 15" using assms by (simp add: p)
  then have k: "\<bar>k\<bar> < 10 ^ 15" by (metis of_int_abs of_int_less_iff of_int_numeral of_int_power)
  have "option_price_float option_payoff rate T = Inr (round_double (real_of_int k / 10000))"
    using option_price_float_eq div_10000_bound [OF k] by (simp add: p)
  moreover have "read_decimal (py_str (option_price option_payoff rate T)) = Some (dec_val k (-4))"
    by (simp add: p read_decimal_py_str dec_val_div_10000)
  ultimately show ?thesis using shortest_repr_div_10000 [OF k] by blast
qed

theorem str_option_price_shortest_witness:
  "\<bar>option_price [10000] 0 0\<bar> < 10 ^ 11 \<and>
   (\<exists>d j q. option_price_float [10000] 0 0 = Inr d \<and> shortest_repr d j q \<and>
      read_decimal (py_str (option_price [10000] 0 0)) = Some (dec_val j q))"
proof -
  have h: "\<bar>option_price [10000] 0 0\<bar> < 10 ^ 11" by (simp add: option_price_def py_int_def)
  show ?thesis using str_option_price_shortest [OF h] h by blast
qed

end
