(* ===== verification/Spec2Isabelle.thy ===== *)
theory Spec2Isabelle
  imports BatchSimulator Reporting PyFloat
begin

text \<open>
  \<^bold>\<open>A verification model of the Option-Price-Simulator.\<close>

  The repository holds two Python scripts that price path-dependent options by
  Monte Carlo simulation of geometric Brownian motion. \<open>src/Methodology.py\<close>
  is a library of functions: \<open>stock_price\<close> (one path), \<open>simulation\<close> (a batch
  of paths), \<open>option_price\<close> (discounting and averaging), \<open>plotting\<close> (a
  histogram) and four pricing functions for lookback and European options whose
  default argument \<open>sim=simulation()\<close> is evaluated when the module is
  imported. \<open>src/AsianOptions.py\<close> is a script with module constants that
  reseeds numpy, builds the whole price matrix column by column, and prices the
  average-strike call and put. Both scripts share numpy's global random state.

  \<^bold>\<open>Modelling conventions\<close> (theory \<open>Prelude\<close>). Floats are \<open>real\<close>:
  every theorem is about the exact arithmetic the code approximates, except
  those of theory \<open>PyFloat\<close>, which rounds the last division of a price to a
  double. Python ints are \<open>int\<close>, one-dimensional arrays \<open>real list\<close>,
  two-dimensional arrays lists of rows. Exceptions are \<open>Inl\<close> values of
  \<open>py_error + 'a\<close>, threaded by \<open>rbind\<close>; numpy's \<open>nan\<close> from the mean of
  nothing is \<open>None\<close>. The numpy and Python primitives the code calls are
  definitions with their failure cases (\<open>np_zeros\<close>, \<open>np_min\<close>, \<open>np_max\<close>,
  \<open>py_last\<close>, \<open>np_mean\<close>, \<open>py_int\<close>).

  \<^bold>\<open>Theories and what they model.\<close>
  \<^item> \<open>Rng\<close>: numpy's global random state as a cursor \<open>rng_pos\<close> into a stream
    \<open>rng_stream\<close> of standard-normal draws; \<open>randn\<close>, \<open>np_normal\<close>
    (row-major) and \<open>np_seed\<close>. The stream a seed determines is the parameter
    \<open>mt\<close>: numpy's generator is library code the scripts only call.
  \<^item> \<open>PathGenerator\<close>: \<open>stock_price\<close> (Methodology lines 4--19) with its
    keyword arguments as the record \<open>gbm_params\<close> and its loop
    \<open>stock_price_loop\<close>, proved equal to the recurrence \<open>gbm_path\<close>
    (C1--C3: closed form with the error branch, positivity, zero volatility).
  \<^item> \<open>BatchSimulator\<close>: \<open>simulation\<close> (lines 21--26) with numpy's
    row-assignment checks, and \<open>methodology_defaults\<close>, the four default
    samples computed at import (C4--C6).
  \<^item> \<open>Pricer\<close>: \<open>option_price\<close> (lines 28--31) and the specification's
    pricer \<open>discounted_mean\<close>, which is also AsianOptions lines 39--40
    (C7 bounds, C8 the mean at 10000 payoffs, C9 any sample size, C29
    monotonicity).
  \<^item> \<open>Payoffs\<close>: the four pricing functions (lines 46--99) as
    \<open>price_function\<close> over a per-row payoff, the index loop \<open>payoff_loop\<close>,
    and the record \<open>price_report\<close> of what reaches \<open>plotting\<close> and
    \<open>print\<close> (C11--C15, C30).
  \<^item> \<open>AsianOptions\<close>: the script's computation (lines 4--40, 55, 59) as
    \<open>asian_options\<close> with its configuration record, the column loop
    \<open>asian_loop\<close>, the payoffs and prices in \<open>asian_evaluate\<close> (C16, C17,
    C20, C25 the shapes of its arrays).
  \<^item> \<open>PyFormat\<close>: Python's \<open>str()\<close> of the four-decimal floats
    \<open>option_price\<close> returns (\<open>py_str\<close>) and the format \<open>f'{x:.2f}'\<close>
    (\<open>py_format_2f\<close>, rounding half to even, sign kept, \<open>nan\<close>), over the
    digit printer \<open>nat_str\<close>; a decimal reader \<open>read_decimal\<close>, which is not
    program code, is the inverse the lemmas about printed prices use.
  \<^item> \<open>PyFloat\<close>: IEEE double rounding where the printed prices depend on
    it. \<open>round_double\<close> (53 significant bits, ties to even, subnormals,
    exponent from integer bit lengths), \<open>py_true_div\<close> (CPython's
    \<open>int / int\<close>, with ZeroDivisionError and OverflowError) and
    \<open>option_price_float\<close> (the double \<open>option_price\<close> really returns); the
    contract of CPython's shortest round-trip \<open>repr\<close> is \<open>shortest_repr\<close>,
    over the helpers \<open>py_float_dec\<close> (\<open>float()\<close> of a decimal),
    \<open>dec_val\<close> and \<open>sig_digits\<close>. Below \<open>10\<^sup>1\<^sup>1\<close> the decimal \<open>py_str\<close>
    prints is the unique shortest decimal that reads back as that double, hence
    exactly what \<open>str()\<close> prints (C10).
  \<^item> \<open>Reporting\<close>: the reporting sink. Every \<open>plt.*\<close> and \<open>print\<close>
    call is a value of the datatype \<open>sink_call\<close> carrying the source's
    arguments, and a run's output is the list of its calls in order:
    \<open>plotting\<close> (Methodology lines 33--44), the four functions with their
    output (\<open>lookBackCallPrice_io\<close> etc., lines 55--57 and the like),
    \<open>plot_histogram\<close> (AsianOptions lines 43--52) and \<open>asian_script\<close>, the
    whole AsianOptions script (C21--C24, C26: printed prices, nan and error
    paths, the script runs to its end).
  \<^item> This theory: how the two scripts and the library fit together (C18: the
    two scripts generate the same paths; C19, C27: the four default calls and
    their output in order; C28: AsianOptions is reproducible, Methodology is
    not).

  \<^bold>\<open>What the lemmas show.\<close> Each loop of the code (filling an array by
  index, assigning rows, updating a column of a matrix) is proved equal to a
  plain recursive reference; errors are characterised on every branch; the
  payoffs are non-negative; the pricer is bounded against the exact discounted
  mean and monotone; the random state is read in disjoint consecutive windows,
  so paths never share draws. The scripts' loops are bounded \<open>for\<close> loops,
  modelled by structural recursion over the index range, so every definition
  is total and no fuel is needed.

  \<^bold>\<open>Findings\<close> (theorems C1, C2, C4, C6, C8, C9, C14, C22, C23, C24, C28): the
  Methodology path omits the initial price and a negative time step makes it
  \<open>nan\<close> without an error; \<open>simulation\<close> ignores its
  \<open>period\<close>; the four Methodology functions price on four different samples;
  \<open>option_price\<close> divides by 10000 whatever the sample size and truncates to
  four decimals, so it is neither the mean nor linear; empty input gives numpy
  exceptions or \<open>nan\<close> instead of the specification's InvalidInput, and an
  empty sample is plotted with its average at nan but priced 0.0; the two
  scripts print prices at different precisions and rounding modes; Methodology
  never seeds the generator, so its prices are not reproducible.

  \<^bold>\<open>Not modelled.\<close>
  \<^item> The rendering of figures by matplotlib and the console itself: the calls
    the scripts make, with their arguments and texts, are modelled, what
    matplotlib draws is not.
  \<^item> numpy's generator (MT19937 and the Gaussian transform): library code
    the scripts only call; the model takes the stream a seed determines as the
    parameter \<open>mt\<close>, so the theorems hold for every stream.
  \<^item> \<open>nan\<close> in the arithmetic. \<open>np.sqrt(dt)\<close> of a negative time step is
    \<open>nan\<close> in numpy and HOL's \<open>sqrt\<close> is not; theorems about the values of
    a path (C2, C3) assume \<open>dt \<ge> 0\<close>, the default \<open>0.004\<close>, while those
    relating two computations through the same step factor (C1, C16, C18) hold
    for every \<open>dt\<close>.
  \<^item> The random state after an exception. An error is an \<open>Inl\<close> value without
    a state; in Python the draws made before the exception (for instance the
    250 of the first \<open>stock_price()\<close> when \<open>simulation\<close> raises at line 25)
    are consumed. Nothing in the scripts catches an exception, so no later draw
    observes it.
  \<^item> Floating-point rounding other than in theory \<open>PyFloat\<close>: the path
    recurrence, sums, means and \<open>exp\<close> are exact, and \<open>f'{x:.2f}'\<close> rounds
    the exact real it is given. Python's \<open>str()\<close> is modelled on the values it
    receives, the doubles of \<open>int(\<dots>) / 10000\<close>: positional below \<open>10\<^sup>1\<^sup>6\<close>
    (larger ones would print in exponent form) and proved to be CPython's
    shortest \<open>repr\<close> below \<open>10\<^sup>1\<^sup>1\<close>. The sign of a floating zero is not
    modelled; it never reaches the output, since \<open>int()\<close> returns the integer 0.
  \<^item> The statistical properties of the estimates (convergence, variance).
\<close>

text \<open>
  A client of \<open>Methodology\<close> that imports it and calls the four pricing
  functions without arguments, so that each prices its default sample.
\<close>

definition methodology_reports :: "rng \<Rightarrow> (price_report list \<times> rng) result" where
  "methodology_reports g =
     rbind (methodology_defaults g) (\<lambda>(sims, g').
     rbind (lookBackCallPrice (sims ! 0)) (\<lambda>r1.
     rbind (lookBackPutPrice (sims ! 1)) (\<lambda>r2.
     rbind (europeanCallPrice (sims ! 2)) (\<lambda>r3.
     rbind (europeanPutPrice (sims ! 3)) (\<lambda>r4. Inr ([r1, r2, r3, r4], g'))))))"

text \<open>
  The same client with the output of each call: the plots and printed lines of
  the four functions, in the order they are called.
\<close>

definition methodology_session :: "rng \<Rightarrow> (sink_call list \<times> rng) result" where
  "methodology_session g =
     rbind (methodology_defaults g) (\<lambda>(sims, g').
     rbind (lookBackCallPrice_io (sims ! 0)) (\<lambda>c1.
     rbind (lookBackPutPrice_io (sims ! 1)) (\<lambda>c2.
     rbind (europeanCallPrice_io (sims ! 2)) (\<lambda>c3.
     rbind (europeanPutPrice_io (sims ! 3)) (\<lambda>c4. Inr (c1 @ c2 @ c3 @ c4, g'))))))"

section \<open>Lemmas across the components\<close>

lemma default_batches:
  "methodology_defaults g =
     Inr (map (\<lambda>k. map (\<lambda>i. default_path (advance g ((k * 10000 + i) * 250))) [0..<10000]) [0..<4],
          advance g 10000000)"
  by (simp add: methodology_defaults_def simulation_250 upt_0_4 algebra_simps)

lemma default_path_nonempty: "default_path g \<noteq> []"
proof
  assume "default_path g = []"
  then have "length (default_path g) = 0" by simp
  then show False by simp
qed

lemma default_batch_rows:
  "\<forall>v \<in> set (map (\<lambda>i. default_path (advance g ((k * 10000 + i) * 250))) [0..<10000]). v \<noteq> []"
  by (auto simp: default_path_nonempty)

lemma length_default_batch:
  "length (map (\<lambda>i. default_path (advance g ((k * 10000 + i) * 250))) [0..<10000]) = 10000"
  by simp

lemma report_calls_prints:
  "filter (\<lambda>c. case c of Print _ \<Rightarrow> True | _ \<Rightarrow> False) (report_calls label rep) =
     [Print (label @ py_str (rep_price rep))]"
  "filter (\<lambda>c. c = Show) (report_calls label rep) = [Show]"
  by (simp_all add: report_calls_def plotting_def Let_def)

lemma io_report:
  "lookBackCallPrice sim = Inr rep \<Longrightarrow>
     lookBackCallPrice_io sim = Inr (report_calls ''Price of Lookback Call Option: $'' rep)"
  "lookBackPutPrice sim = Inr rep \<Longrightarrow>
     lookBackPutPrice_io sim = Inr (report_calls ''Price of Lookback Put Option: $'' rep)"
  "europeanCallPrice sim = Inr rep \<Longrightarrow>
     europeanCallPrice_io sim = Inr (report_calls ''Price of European Call Option: $'' rep)"
  "europeanPutPrice sim = Inr rep \<Longrightarrow>
     europeanPutPrice_io sim = Inr (report_calls ''Price of European Put Option: $'' rep)"
  by (simp_all add: lookBackCallPrice_io_def lookBackPutPrice_io_def europeanCallPrice_io_def
      europeanPutPrice_io_def)

lemma report_price_reads_back:
  "price_function payoff name sim = Inr rep \<Longrightarrow> read_decimal (py_str (rep_price rep)) = Some (rep_price rep)"
proof -
  assume "price_function payoff name sim = Inr rep"
  then have "rep_price rep = option_price (rep_payoffs rep) 0.05 0.75"
    using price_function_Inr by blast
  then show ?thesis by (simp only: option_price_py_int read_decimal_py_str)
qed

lemma default_path_first:
  "default_path g ! 0 = 100 * gbm_factor stock_price_defaults (rng_stream g (rng_pos g))"
proof -
  have "draws g 250 = draws g 1 @ draws (advance g 1) 249" using draws_add [of g 1 249] by simp
  then have "draws g 250 = rng_stream g (rng_pos g) # draws (advance g 1) 249" by (simp add: draws_def)
  then show ?thesis by (simp add: default_path_def Let_def)
qed

lemma gbm_factor_defaults_inj:
  "gbm_factor stock_price_defaults e = gbm_factor stock_price_defaults e' \<Longrightarrow> e = e'"
  by (simp add: gbm_factor_def gbm_exponent_def stock_price_defaults_def)

lemma default_sample_first_path:
  "methodology_defaults g = Inr (sims, g') \<Longrightarrow> sims ! 0 ! 0 = default_path g"
proof -
  assume "methodology_defaults g = Inr (sims, g')"
  then have "sims = map (\<lambda>k. map (\<lambda>i. default_path (advance g ((k * 10000 + i) * 250))) [0..<10000]) [0..<4]"
    by (simp only: default_batches sum.inject prod.inject)
  moreover have "(0::nat) < length [0..<10000]" "(0::nat) < length [0..<4]" by simp_all
  ultimately show ?thesis by (simp only: nth_map nth_upt add_0 mult_0 mult_0_right advance_0)
qed

section \<open>Properties across the components\<close>

text \<open>
  C18. The two scripts generate the same paths: row \<open>m\<close> of the AsianOptions
  price matrix is the start price followed by exactly what Methodology's
  \<open>stock_price\<close> returns when called with the script's constants
  (\<open>dt = T / N\<close>, \<open>period = N\<close>) on the same window of the seeded stream.
\<close>

theorem asian_row_refines_stock_price:
  assumes "0 < ao_N cfg" "0 \<le> ao_M cfg" "asian_options mt cfg g = Inr (res, g')"
    and "m < length (ar_S res)"
  shows "hd (ar_S res ! m) = ao_S0 cfg \<and>
         stock_price (asian_gbm_params cfg) \<lparr>rng_stream = mt 42, rng_pos = m * nat (ao_N cfg)\<rparr> =
           Inr (tl (ar_S res ! m), \<lparr>rng_stream = mt 42, rng_pos = m * nat (ao_N cfg) + nat (ao_N cfg)\<rparr>)"
proof -
  have S: "ar_S res = asian_paths mt cfg"
    using asian_options_Inr [OF assms(1,2,3)] by simp
  then have m: "m < nat (ao_M cfg)" using assms(4) by simp
  show ?thesis
    using S m assms(1)
    by (simp add: nth_asian_paths stock_price_Inr_iff asian_gbm_params_def advance_def)
qed

theorem asian_row_refines_stock_price_witness:
  "0 < ao_N (asian_config_defaults\<lparr>ao_N := 2, ao_M := 1\<rparr>) \<and>
   0 \<le> ao_M (asian_config_defaults\<lparr>ao_N := 2, ao_M := 1\<rparr>) \<and>
   asian_options (\<lambda>_ _. 0) (asian_config_defaults\<lparr>ao_N := 2, ao_M := 1\<rparr>)
     \<lparr>rng_stream = (\<lambda>_. 0), rng_pos = 0\<rparr> =
     Inr (asian_evaluate (exp (- 0.05 * 0.75))
            (asian_paths (\<lambda>_ _. 0) (asian_config_defaults\<lparr>ao_N := 2, ao_M := 1\<rparr>)),
          \<lparr>rng_stream = (\<lambda>_. 0), rng_pos = 2\<rparr>) \<and>
   0 < length (ar_S (asian_evaluate (exp (- 0.05 * 0.75))
          (asian_paths (\<lambda>_ _. 0) (asian_config_defaults\<lparr>ao_N := 2, ao_M := 1\<rparr>)))) \<and>
   stock_price (asian_gbm_params (asian_config_defaults\<lparr>ao_N := 2, ao_M := 1\<rparr>))
     \<lparr>rng_stream = (\<lambda>_. 0), rng_pos = 0\<rparr> =
     Inr (tl (ar_S (asian_evaluate (exp (- 0.05 * 0.75))
                (asian_paths (\<lambda>_ _. 0) (asian_config_defaults\<lparr>ao_N := 2, ao_M := 1\<rparr>))) ! 0),
          \<lparr>rng_stream = (\<lambda>_. 0), rng_pos = 2\<rparr>)"
proof -
  let ?cfg = "asian_config_defaults\<lparr>ao_N := 2, ao_M := 1\<rparr>"
  let ?res = "asian_evaluate (exp (- 0.05 * 0.75)) (asian_paths (\<lambda>_ _. 0) ?cfg)"
  have h: "0 < ao_N ?cfg" "0 \<le> ao_M ?cfg" by (simp_all add: asian_config_defaults_def)
  have run: "asian_options (\<lambda>_ _. 0) ?cfg \<lparr>rng_stream = (\<lambda>_. 0), rng_pos = 0\<rparr> =
               Inr (?res, \<lparr>rng_stream = (\<lambda>_. 0), rng_pos = 2\<rparr>)"
    using asian_options_run [OF h] by (simp add: asian_config_defaults_def)
  have len: "0 < length (ar_S ?res)" by (simp add: asian_config_defaults_def)
  have "stock_price (asian_gbm_params ?cfg) \<lparr>rng_stream = (\<lambda>_ _. 0) 42, rng_pos = 0 * nat (ao_N ?cfg)\<rparr> =
          Inr (tl (ar_S ?res ! 0),
               \<lparr>rng_stream = (\<lambda>_ _. 0) 42, rng_pos = 0 * nat (ao_N ?cfg) + nat (ao_N ?cfg)\<rparr>)"
    using asian_row_refines_stock_price [OF h run len] by blast
  then show ?thesis using h run len by (simp add: asian_config_defaults_def)
qed

text \<open>
  C19. Importing \<open>Methodology\<close> and calling the four pricing functions without
  arguments never raises: each reports 10000 payoffs, all non-negative, and a
  non-negative price, under its own label.
\<close>

theorem methodology_reports_ok:
  "\<exists>reps g'. methodology_reports g = Inr (reps, g') \<and>
     map rep_name reps = [''Lookback Call Option'', ''Lookback Put Option'',
                          ''European Call Option'', ''European Put Option''] \<and>
     list_all (\<lambda>rep. length (rep_payoffs rep) = 10000 \<and> list_all (\<lambda>x. 0 \<le> x) (rep_payoffs rep) \<and>
                     0 \<le> rep_price rep) reps"
proof -
  let ?B = "\<lambda>k. map (\<lambda>i. default_path (advance g ((k * 10000 + i) * 250))) [0..<10000]"
  obtain r1 where r1: "lookBackCallPrice (?B 0) = Inr r1" "rep_name r1 = ''Lookback Call Option''"
      "length (rep_payoffs r1) = 10000" "list_all (\<lambda>x. 0 \<le> x) (rep_payoffs r1)" "0 \<le> rep_price r1"
    using pricing_functions_total(1) [OF default_batch_rows [of g 0]] by auto
  obtain r2 where r2: "lookBackPutPrice (?B 1) = Inr r2" "rep_name r2 = ''Lookback Put Option''"
      "length (rep_payoffs r2) = 10000" "list_all (\<lambda>x. 0 \<le> x) (rep_payoffs r2)" "0 \<le> rep_price r2"
    using pricing_functions_total(2) [OF default_batch_rows [of g 1]] by auto
  obtain r3 where r3: "europeanCallPrice (?B 2) = Inr r3" "rep_name r3 = ''European Call Option''"
      "length (rep_payoffs r3) = 10000" "list_all (\<lambda>x. 0 \<le> x) (rep_payoffs r3)" "0 \<le> rep_price r3"
    using pricing_functions_total(3) [OF default_batch_rows [of g 2]] by auto
  obtain r4 where r4: "europeanPutPrice (?B 3) = Inr r4" "rep_name r4 = ''European Put Option''"
      "length (rep_payoffs r4) = 10000" "list_all (\<lambda>x. 0 \<le> x) (rep_payoffs r4)" "0 \<le> rep_price r4"
    using pricing_functions_total(4) [OF default_batch_rows [of g 3]] by auto
  have "methodology_reports g = Inr ([r1, r2, r3, r4], advance g 10000000)"
    using r1(1) r2(1) r3(1) r4(1)
    by (simp add: methodology_reports_def default_batches upt_0_4 del: upt_Suc)
  then show ?thesis using r1 r2 r3 r4 by auto
qed

text \<open>
  C27. Importing \<open>Methodology\<close> and calling the four pricing functions without
  arguments shows four histograms and prints four lines, in call order: the
  lookback call, lookback put, European call and European put prices, each
  label followed by a decimal that reads back as the non-negative price of
  that function's report.
\<close>

theorem methodology_session_output:
  "\<exists>calls g' reps. methodology_session g = Inr (calls, g') \<and> methodology_reports g = Inr (reps, g') \<and>
     filter (\<lambda>c. c = Show) calls = [Show, Show, Show, Show] \<and>
     filter (\<lambda>c. case c of Print _ \<Rightarrow> True | _ \<Rightarrow> False) calls =
       [Print (''Price of Lookback Call Option: $'' @ py_str (rep_price (reps ! 0))),
        Print (''Price of Lookback Put Option: $'' @ py_str (rep_price (reps ! 1))),
        Print (''Price of European Call Option: $'' @ py_str (rep_price (reps ! 2))),
        Print (''Price of European Put Option: $'' @ py_str (rep_price (reps ! 3)))] \<and>
     list_all (\<lambda>rep. read_decimal (py_str (rep_price rep)) = Some (rep_price rep) \<and> 0 \<le> rep_price rep) reps"
proof -
  let ?B = "\<lambda>k. map (\<lambda>i. default_path (advance g ((k * 10000 + i) * 250))) [0..<10000]"
  obtain r1 where r1: "lookBackCallPrice (?B 0) = Inr r1" "0 \<le> rep_price r1"
    using pricing_functions_total(1) [OF default_batch_rows [of g 0]] by auto
  obtain r2 where r2: "lookBackPutPrice (?B 1) = Inr r2" "0 \<le> rep_price r2"
    using pricing_functions_total(2) [OF default_batch_rows [of g 1]] by auto
  obtain r3 where r3: "europeanCallPrice (?B 2) = Inr r3" "0 \<le> rep_price r3"
    using pricing_functions_total(3) [OF default_batch_rows [of g 2]] by auto
  obtain r4 where r4: "europeanPutPrice (?B 3) = Inr r4" "0 \<le> rep_price r4"
    using pricing_functions_total(4) [OF default_batch_rows [of g 3]] by auto
  have rb: "read_decimal (py_str (rep_price r)) = Some (rep_price r)" if "r \<in> {r1, r2, r3, r4}" for r
    using that r1(1) r2(1) r3(1) r4(1) report_price_reads_back
    by (auto simp: lookBackCallPrice_def lookBackPutPrice_def europeanCallPrice_def europeanPutPrice_def)
  let ?calls = "report_calls ''Price of Lookback Call Option: $'' r1 @
                report_calls ''Price of Lookback Put Option: $'' r2 @
                report_calls ''Price of European Call Option: $'' r3 @
                report_calls ''Price of European Put Option: $'' r4"
  have s: "methodology_session g = Inr (?calls, advance g 10000000)"
    using io_report(1) [OF r1(1)] io_report(2) [OF r2(1)] io_report(3) [OF r3(1)] io_report(4) [OF r4(1)]
    by (simp add: methodology_session_def default_batches upt_0_4 del: upt_Suc)
  have m: "methodology_reports g = Inr ([r1, r2, r3, r4], advance g 10000000)"
    using r1(1) r2(1) r3(1) r4(1)
    by (simp add: methodology_reports_def default_batches upt_0_4 del: upt_Suc)
  have "filter (\<lambda>c. c = Show) ?calls = [Show, Show, Show, Show]"
    by (simp only: filter_append report_calls_prints) simp
  moreover have "filter (\<lambda>c. case c of Print _ \<Rightarrow> True | _ \<Rightarrow> False) ?calls =
       [Print (''Price of Lookback Call Option: $'' @ py_str (rep_price r1)),
        Print (''Price of Lookback Put Option: $'' @ py_str (rep_price r2)),
        Print (''Price of European Call Option: $'' @ py_str (rep_price r3)),
        Print (''Price of European Put Option: $'' @ py_str (rep_price r4))]"
    by (simp only: filter_append report_calls_prints) simp
  moreover have "list_all (\<lambda>rep. read_decimal (py_str (rep_price rep)) = Some (rep_price rep) \<and>
                   0 \<le> rep_price rep) [r1, r2, r3, r4]"
    using rb r1(2) r2(2) r3(2) r4(2) by simp
  ultimately show ?thesis using s m by fastforce
qed



end
